theory Spec2Isabelle
  imports Main "HOL-Library.Word"
begin

unbundle bit_operations_syntax

section \<open>The BEF to MLIR converter\<close>

text \<open>
  A shallow embedding of the converter of \<^verbatim>\<open>bef_to_mlir.cc\<close>. Bytes are \<open>8 word\<close>,
  kernel entries \<open>32 word\<close>, a \<^verbatim>\<open>size_t\<close> accumulator that is shifted is \<open>64 word\<close>;
  sizes, offsets and indices that are only compared and counted are \<open>nat\<close>. Where the
  code passes such a value to a parameter or a variable of type \<^verbatim>\<open>int\<close> or
  \<^verbatim>\<open>unsigned\<close>, the conversion is written out. A \<^verbatim>\<open>string_view\<close> is the list of its
  bytes.

  Every way the C++ leaves a function is a value of the model:
  \<^item> \<open>Failed\<close> is \<^verbatim>\<open>mlir::failure()\<close>, a null operation, \<^verbatim>\<open>llvm::None\<close> or a null module;
  \<^item> \<open>Crashed\<close> is a failed \<^verbatim>\<open>assert\<close>, a \<^verbatim>\<open>std::out_of_range\<close> thrown by
    \<^verbatim>\<open>vector::at\<close>, \<^verbatim>\<open>getValue()\<close> of an empty optional, or a read outside the array
    an accessor was given. The model therefore follows a build with assertions enabled.

  Diagnostics are collected in emission order; their locations are not modelled.
\<close>

type_synonym u8 = "8 word"
type_synonym u32 = "32 word"
type_synonym u64 = "64 word"
type_synonym string_view = "u8 list"

datatype failure = Failed | Crashed

datatype diagnostic = Error string | Warning string

text \<open>
  The conversion of a \<^verbatim>\<open>size_t\<close> or \<^verbatim>\<open>uint32_t\<close> value to \<^verbatim>\<open>int\<close> keeps its low 32
  bits, read in two's complement. When such an \<^verbatim>\<open>int\<close> is then compared with a size, it
  is converted back to \<^verbatim>\<open>size_t\<close>, so that a negative index is above every size: an
  index \<open>i\<close> is inside a container \<open>xs\<close> when \<open>0 \<le> i\<close> and \<open>nat i < length xs\<close>.
\<close>

definition int_of_size_t :: "nat \<Rightarrow> int" where
  "int_of_size_t n =
     (if n mod 2 ^ 32 < 2 ^ 31 then int (n mod 2 ^ 32) else int (n mod 2 ^ 32) - 2 ^ 32)"


subsection \<open>Byte slices and the byte reader\<close>

text \<open>
  An \<^verbatim>\<open>ArrayRef<uint8_t>\<close> is a pointer into the file buffer and a length. The model keeps
  the offset of its first byte from the start of the file buffer (alignment is computed
  from it, the buffer itself being taken as aligned) and its bytes. A default-constructed
  slice is empty. \<^verbatim>\<open>drop_front\<close> asserts that enough bytes are there.
\<close>

record ArrayRef =
  ref_begin :: nat
  ref_bytes :: "u8 list"

definition empty_ref :: ArrayRef where
  "empty_ref = \<lparr>ref_begin = 0, ref_bytes = []\<rparr>"

definition drop_front :: "nat \<Rightarrow> ArrayRef \<Rightarrow> failure + ArrayRef" where
  "drop_front n a =
     (if n \<le> length (ref_bytes a)
      then Inr \<lparr>ref_begin = ref_begin a + n, ref_bytes = drop n (ref_bytes a)\<rparr>
      else Inl Crashed)"

text \<open>
  Modelled from the spec: the byte reader \<^verbatim>\<open>BEFReader\<close> of \<^verbatim>\<open>bef_reader.h\<close>, which is
  not among the sources. The specification gives \<^verbatim>\<open>read_u8\<close>, \<^verbatim>\<open>read_varint\<close> (seven-bit
  groups, least significant group first, high bit set when another byte follows),
  \<^verbatim>\<open>read_aligned\<close> (advance to the next multiple, padding ignored), \<^verbatim>\<open>empty\<close> and
  \<^verbatim>\<open>ReadSection\<close> (one byte of identifier, a varint length, the borrowed payload), and
  says that every read checks that enough bytes remain. A read returns its value, or
  \<open>None\<close> where the C++ returns \<^verbatim>\<open>true\<close>, together with the reader it leaves behind:
  the cursor only moves forward, and a read that runs out of bytes leaves it at the end.
\<close>

type_synonym BEFReader = ArrayRef

definition Empty :: "BEFReader \<Rightarrow> bool" where
  "Empty r = (ref_bytes r = [])"

definition drained :: "BEFReader \<Rightarrow> BEFReader" where
  "drained r = \<lparr>ref_begin = ref_begin r + length (ref_bytes r), ref_bytes = []\<rparr>"

definition ReadByte :: "BEFReader \<Rightarrow> u8 option \<times> BEFReader" where
  "ReadByte r =
     (case ref_bytes r of
        [] \<Rightarrow> (None, r)
      | b # bs \<Rightarrow> (Some b, \<lparr>ref_begin = ref_begin r + 1, ref_bytes = bs\<rparr>))"

fun varint :: "u8 list \<Rightarrow> (nat \<times> u8 list) option" where
  "varint [] = None"
| "varint (b # bs) =
     (if b AND 0x80 = 0 then Some (unat (b AND 0x7F), bs)
      else (case varint bs of
              None \<Rightarrow> None
            | Some (v, rest) \<Rightarrow> Some ((unat (b AND 0x7F) + 128 * v) mod 2 ^ 64, rest)))"

definition ReadInt :: "BEFReader \<Rightarrow> nat option \<times> BEFReader" where
  "ReadInt r =
     (case varint (ref_bytes r) of
        None \<Rightarrow> (None, drained r)
      | Some (v, rest) \<Rightarrow>
          (Some v, \<lparr>ref_begin = ref_begin r + (length (ref_bytes r) - length rest),
                    ref_bytes = rest\<rparr>))"

fun skip_padding :: "nat \<Rightarrow> nat \<Rightarrow> u8 list \<Rightarrow> (nat \<times> u8 list) option" where
  "skip_padding alignment position [] =
     (if position mod alignment = 0 then Some (position, []) else None)"
| "skip_padding alignment position (b # bs) =
     (if position mod alignment = 0 then Some (position, b # bs)
      else skip_padding alignment (position + 1) bs)"

definition ReadAlignment :: "nat \<Rightarrow> BEFReader \<Rightarrow> BEFReader option" where
  "ReadAlignment alignment r =
     (case skip_padding alignment (ref_begin r) (ref_bytes r) of
        None \<Rightarrow> None
      | Some (position, bs) \<Rightarrow> Some \<lparr>ref_begin = position, ref_bytes = bs\<rparr>)"

definition ReadSection :: "BEFReader \<Rightarrow> (u8 \<times> ArrayRef) option \<times> BEFReader" where
  "ReadSection r =
     (case ReadByte r of
        (None, r1) \<Rightarrow> (None, r1)
      | (Some section_id, r1) \<Rightarrow>
          (case ReadInt r1 of
             (None, r2) \<Rightarrow> (None, r2)
           | (Some len, r2) \<Rightarrow>
               if length (ref_bytes r2) < len then (None, r2)
               else (Some (section_id,
                       \<lparr>ref_begin = ref_begin r2, ref_bytes = take len (ref_bytes r2)\<rparr>), r2)))"

text \<open>
  \<^verbatim>\<open>SkipPast(section)\<close> moves the cursor to the end of a slice of the reader's data.
\<close>

definition SkipPast :: "ArrayRef \<Rightarrow> BEFReader \<Rightarrow> failure + BEFReader" where
  "SkipPast section_data r =
     (if ref_begin r \<le> ref_begin section_data + length (ref_bytes section_data)
      then drop_front (ref_begin section_data + length (ref_bytes section_data) - ref_begin r) r
      else Inl Crashed)"

subsection \<open>The encoding constants and the external functions\<close>

text \<open>
  The constants and enumerations of \<^verbatim>\<open>bef_encoding.h\<close> are not among the sources, and
  the parser of types belongs to MLIR. They are parameters of the model: every function
  that uses one takes the environment. A section identifier is the index of the section
  in \<^verbatim>\<open>BEFSections::sections_\<close>. \<open>ReadAttribute\<close> stands for
  \<^verbatim>\<open>BEFAttributeReader::ReadAttribute\<close>, which returns an attribute or the null attribute
  (\<open>Some\<close> of an attribute option) and has no failure result: \<open>None\<close> is a run that an
  assertion or an exception ends. \<open>indeterminate_byte\<close> is the content of the local
  variable that \<^verbatim>\<open>ReadKernels\<close> tests after a read that did not set it. \<open>max_reserve\<close>
  is the largest number of elements for which \<^verbatim>\<open>std::vector<size_t>::reserve\<close> returns;
  for a larger one it throws \<^verbatim>\<open>std::length_error\<close> or \<^verbatim>\<open>std::bad_alloc\<close>.
\<close>

datatype mlir_type = IntegerType nat | FloatType nat | NoneType | OtherType string_view

datatype location = UnknownLoc | FileLineColLoc string_view nat nat | CallerLoc

datatype attribute =
    IntegerAttr mlir_type nat
  | FloatAttr mlir_type nat
  | BoolAttr bool
  | StringAttr string_view
  | TypeAttr mlir_type
  | ArrayAttr "attribute list"
  | DenseElementsAttr "nat list" mlir_type "attribute list"
  | UnitAttr
  | SymbolRefAttr string_view

record BEFFunction =
  function_offset :: nat
  function_name :: string_view
  function_kind :: u8
  argument_types :: "mlir_type list"
  result_types :: "mlir_type list"

text \<open>
  The tables of \<^verbatim>\<open>BEFFile\<close>. A \<^verbatim>\<open>DenseMap\<close> is a map; a stored attribute or type
  may be null (\<open>None\<close>).
\<close>

record BEFFile =
  bef_location_filenames :: "string_view list"
  bef_location_positions :: "nat \<rightharpoonup> location"
  bef_strings :: "nat \<rightharpoonup> string_view"
  bef_attributes :: "nat \<rightharpoonup> attribute option"
  bef_kernels :: "string_view list"
  bef_types :: "mlir_type option list"
  bef_function_index :: "BEFFunction list"

record environment =
  kBEFMagic1 :: u8
  kBEFMagic2 :: u8
  kBEFVersion0 :: u8
  kNumSectionIDs :: nat
  kFormatVersion :: nat
  kLocationFilenames :: nat
  kLocationPositions :: nat
  kStrings :: nat
  kAttributes :: nat
  kKernels :: nat
  kTypes :: nat
  kFunctionIndex :: nat
  kFunctions :: nat
  kAttributeTypes :: nat
  kAttributeNames :: nat
  kRegisterTypes :: nat
  kNativeFunction :: u8
  kUnknown :: u8
  kNonStrict :: u8
  kKernelEntryAlignment :: nat
  parseType :: "string_view \<Rightarrow> mlir_type option"
  ReadAttribute ::
    "BEFFile \<Rightarrow> u8 list \<Rightarrow> nat \<Rightarrow> nat \<Rightarrow> attribute option option \<times> diagnostic list"
  indeterminate_byte :: u8
  max_reserve :: nat

text \<open>
  \<^verbatim>\<open>ReadIntArray\<close>: a count and then that many integers. The vector is reserved for the
  count before the first integer is read; the exception of a reservation that cannot be
  made is caught nowhere.
\<close>

fun ReadIntArray_items :: "nat \<Rightarrow> BEFReader \<Rightarrow> nat list option \<times> BEFReader" where
  "ReadIntArray_items 0 r = (Some [], r)"
| "ReadIntArray_items (Suc n) r =
     (case ReadInt r of
        (None, r1) \<Rightarrow> (None, r1)
      | (Some item, r1) \<Rightarrow>
          (case ReadIntArray_items n r1 of
             (None, r2) \<Rightarrow> (None, r2)
           | (Some items, r2) \<Rightarrow> (Some (item # items), r2)))"

definition ReadIntArray :: "environment \<Rightarrow> BEFReader \<Rightarrow> (failure + nat list) \<times> BEFReader" where
  "ReadIntArray env r =
     (case ReadInt r of
        (None, r1) \<Rightarrow> (Inl Failed, r1)
      | (Some num_items, r1) \<Rightarrow>
          if max_reserve env < num_items then (Inl Crashed, r1)
          else (case ReadIntArray_items num_items r1 of
                  (None, r2) \<Rightarrow> (Inl Failed, r2)
                | (Some items, r2) \<Rightarrow> (Inr items, r2)))"


subsection \<open>Sections\<close>

text \<open>
  \<^verbatim>\<open>BEFSections\<close> holds one slice per section identifier, in a vector of
  \<^verbatim>\<open>kNumSectionIDs\<close> empty slices. \<^verbatim>\<open>Get\<close> and \<^verbatim>\<open>Set\<close> index it with
  \<^verbatim>\<open>vector::at\<close>, which throws \<^verbatim>\<open>std::out_of_range\<close> for an index that is not below its
  size.
\<close>

type_synonym BEFSections = "ArrayRef list"

definition BEFSections_init :: "environment \<Rightarrow> BEFSections" where
  "BEFSections_init env = replicate (kNumSectionIDs env) empty_ref"

definition BEFSections_Get :: "BEFSections \<Rightarrow> nat \<Rightarrow> failure + ArrayRef" where
  "BEFSections_Get sections section_id =
     (if section_id < length sections then Inr (sections ! section_id) else Inl Crashed)"

definition BEFSections_Set :: "BEFSections \<Rightarrow> nat \<Rightarrow> ArrayRef \<Rightarrow> failure + BEFSections" where
  "BEFSections_Set sections section_id section_data =
     (if section_id < length sections then Inr (sections[section_id := section_data])
      else Inl Crashed)"

definition ReadHeader :: "environment \<Rightarrow> BEFReader \<Rightarrow> BEFReader option" where
  "ReadHeader env r =
     (case ReadByte r of
        (None, r1) \<Rightarrow> None
      | (Some byte1, r1) \<Rightarrow>
          if byte1 \<noteq> kBEFMagic1 env then None
          else (case ReadByte r1 of
                  (None, r2) \<Rightarrow> None
                | (Some byte2, r2) \<Rightarrow> if byte2 \<noteq> kBEFMagic2 env then None else Some r2))"

definition ReadNextSection ::
  "BEFSections \<Rightarrow> BEFReader \<Rightarrow> failure + (BEFSections \<times> BEFReader)" where
  "ReadNextSection sections r =
     (case ReadSection r of
        (None, r1) \<Rightarrow> Inl Failed
      | (Some (section_id, section_data), r1) \<Rightarrow>
          (case SkipPast section_data r1 of
             Inl e \<Rightarrow> Inl e
           | Inr r2 \<Rightarrow>
               (case BEFSections_Set sections (unat section_id) section_data of
                  Inl e \<Rightarrow> Inl e
                | Inr sections' \<Rightarrow> Inr (sections', r2))))"

text \<open>
  The loop of \<^verbatim>\<open>ReadSections\<close>: sections are read until the reader is empty. Each
  section read takes at least its identifier byte, which is what ends the loop.
\<close>

lemma varint_rest: "varint bs = Some (v, rest) \<Longrightarrow> length rest < length bs"
proof (induction bs arbitrary: v rest)
  case Nil
  then show ?case by simp
next
  case (Cons b bs)
  then show ?case
    by (fastforce split: if_splits option.splits)
qed

lemma ReadInt_shorter:
  "ReadInt r = (Some v, r1) \<Longrightarrow> length (ref_bytes r1) < length (ref_bytes r)"
  by (auto simp: ReadInt_def split: option.splits dest: varint_rest)

lemma ReadInt_not_longer:
  "ReadInt r = (x, r1) \<Longrightarrow> length (ref_bytes r1) \<le> length (ref_bytes r)"
  by (auto simp: ReadInt_def drained_def split: option.splits dest: varint_rest)

lemma ReadByte_shorter:
  "ReadByte r = (Some b, r1) \<Longrightarrow> length (ref_bytes r1) < length (ref_bytes r)"
  by (auto simp: ReadByte_def split: list.splits)

lemma ReadSection_shorter:
  assumes "ReadSection r = (Some x, r1)"
  shows "length (ref_bytes r1) < length (ref_bytes r)"
proof (cases "ReadByte r")
  case (Pair ob r0)
  show ?thesis
  proof (cases ob)
    case None
    with Pair assms show ?thesis by (simp add: ReadSection_def)
  next
    case (Some b)
    with Pair have lt: "length (ref_bytes r0) < length (ref_bytes r)"
      by (simp add: ReadByte_shorter)
    obtain oi r2 where ri: "ReadInt r0 = (oi, r2)"
      by (cases "ReadInt r0")
    then have le: "length (ref_bytes r2) \<le> length (ref_bytes r0)"
      by (rule ReadInt_not_longer)
    from assms Pair Some ri have "r1 = r2"
      by (cases oi) (simp_all add: ReadSection_def split: if_splits)
    with lt le show ?thesis by simp
  qed
qed

lemma SkipPast_not_longer:
  "SkipPast section_data r = Inr r' \<Longrightarrow> length (ref_bytes r') \<le> length (ref_bytes r)"
  by (auto simp: SkipPast_def drop_front_def split: if_splits)

lemma ReadNextSection_shorter:
  assumes "ReadNextSection sections r = Inr (sections', r')"
  shows "length (ref_bytes r') < length (ref_bytes r)"
proof (cases "ReadSection r")
  case (Pair ox r1)
  show ?thesis
  proof (cases ox)
    case None
    with Pair assms show ?thesis by (simp add: ReadNextSection_def)
  next
    case (Some x)
    obtain section_id section_data where x: "x = (section_id, section_data)"
      by (cases x)
    from Pair Some have lt: "length (ref_bytes r1) < length (ref_bytes r)"
      by (simp add: ReadSection_shorter)
    from assms Pair Some x have "SkipPast section_data r1 = Inr r'"
      by (simp add: ReadNextSection_def split: sum.splits)
    then have "length (ref_bytes r') \<le> length (ref_bytes r1)"
      by (rule SkipPast_not_longer)
    with lt show ?thesis by simp
  qed
qed

function ReadSections_loop ::
  "BEFSections \<Rightarrow> BEFReader \<Rightarrow> failure + BEFSections" where
  "ReadSections_loop sections r =
     (if Empty r then Inr sections
      else (case ReadNextSection sections r of
              Inl e \<Rightarrow> Inl e
            | Inr (sections', r') \<Rightarrow> ReadSections_loop sections' r'))"
  by pat_completeness auto
termination
  by (relation "measure (\<lambda>(sections, r). length (ref_bytes r))")
     (auto dest: ReadNextSection_shorter)

declare ReadSections_loop.simps [simp del]

definition section_empty :: "BEFSections \<Rightarrow> nat \<Rightarrow> failure + bool" where
  "section_empty sections section_id =
     (case BEFSections_Get sections section_id of
        Inl e \<Rightarrow> Inl e
      | Inr section_data \<Rightarrow> Inr (ref_bytes section_data = []))"

definition ReadSections ::
  "environment \<Rightarrow> BEFReader \<Rightarrow> (failure + BEFSections) \<times> diagnostic list" where
  "ReadSections env r =
     (case ReadSections_loop (BEFSections_init env) r of
        Inl e \<Rightarrow> (Inl e, [])
      | Inr sections \<Rightarrow>
          (case section_empty sections (kAttributeTypes env) of
             Inl e \<Rightarrow> (Inl e, [])
           | Inr True \<Rightarrow> (Inr sections,
               [Warning ''Missing AttributeTypes, AttributeNames or RegisterTypes sections.''])
           | Inr False \<Rightarrow>
          (case section_empty sections (kAttributeNames env) of
             Inl e \<Rightarrow> (Inl e, [])
           | Inr True \<Rightarrow> (Inr sections,
               [Warning ''Missing AttributeTypes, AttributeNames or RegisterTypes sections.''])
           | Inr False \<Rightarrow>
          (case section_empty sections (kRegisterTypes env) of
             Inl e \<Rightarrow> (Inl e, [])
           | Inr True \<Rightarrow> (Inr sections,
               [Warning ''Missing AttributeTypes, AttributeNames or RegisterTypes sections.''])
           | Inr False \<Rightarrow> (Inr sections, [])))))"

definition ReadFormatVersion :: "environment \<Rightarrow> ArrayRef \<Rightarrow> bool" where
  "ReadFormatVersion env format_version =
     (case ReadByte format_version of
        (None, r1) \<Rightarrow> False
      | (Some version, r1) \<Rightarrow> version = kBEFVersion0 env)"


subsection \<open>The tables of the first phase\<close>

text \<open>
  \<^verbatim>\<open>GetLocationFilename\<close>, \<^verbatim>\<open>GetType\<close> and \<^verbatim>\<open>GetFunction\<close> take an \<^verbatim>\<open>int index\<close> and
  are called with \<^verbatim>\<open>size_t\<close> and \<^verbatim>\<open>uint32_t\<close> values.
\<close>

definition GetLocationFilename :: "BEFFile \<Rightarrow> nat \<Rightarrow> string_view option" where
  "GetLocationFilename bef_file index =
     (if 0 \<le> int_of_size_t index \<and>
         nat (int_of_size_t index) < length (bef_location_filenames bef_file)
      then Some (bef_location_filenames bef_file ! nat (int_of_size_t index)) else None)"

definition GetLocationPosition :: "BEFFile \<Rightarrow> nat \<Rightarrow> location option" where
  "GetLocationPosition bef_file offset = bef_location_positions bef_file offset"

definition GetString :: "BEFFile \<Rightarrow> nat \<Rightarrow> string_view option" where
  "GetString bef_file offset = bef_strings bef_file offset"

text \<open>\<^verbatim>\<open>DenseMap::lookup\<close> gives the null attribute for a key that is not there.\<close>

definition GetAttribute :: "BEFFile \<Rightarrow> nat \<Rightarrow> attribute option" where
  "GetAttribute bef_file offset =
     (case bef_attributes bef_file offset of None \<Rightarrow> None | Some attr \<Rightarrow> attr)"

definition GetType :: "BEFFile \<Rightarrow> nat \<Rightarrow> mlir_type option" where
  "GetType bef_file index =
     (if 0 \<le> int_of_size_t index \<and> nat (int_of_size_t index) < length (bef_types bef_file)
      then bef_types bef_file ! nat (int_of_size_t index) else None)"

definition GetFunction :: "BEFFile \<Rightarrow> nat \<Rightarrow> BEFFunction option" where
  "GetFunction bef_file index =
     (if 0 \<le> int_of_size_t index \<and>
         nat (int_of_size_t index) < length (bef_function_index bef_file)
      then Some (bef_function_index bef_file ! nat (int_of_size_t index)) else None)"

definition IsNamedFunction :: "BEFFunction \<Rightarrow> bool" where
  "IsNamedFunction bef_function = (function_name bef_function \<noteq> [])"

definition IsNativeFunction :: "environment \<Rightarrow> BEFFunction \<Rightarrow> bool" where
  "IsNativeFunction env bef_function = (function_kind bef_function = kNativeFunction env)"

text \<open>\<^verbatim>\<open>DenseMap::insert\<close> keeps the value of a key that is already there.\<close>

definition DenseMap_insert :: "('k \<rightharpoonup> 'v) \<Rightarrow> 'k \<Rightarrow> 'v \<Rightarrow> ('k \<rightharpoonup> 'v)" where
  "DenseMap_insert m k v = (case m k of None \<Rightarrow> m(k \<mapsto> v) | Some old \<Rightarrow> m)"

text \<open>
  \<^verbatim>\<open>ReadNullTerminatedStrings\<close>: the string at the front of the section is what
  precedes the first zero byte; a string that is not terminated inside the section is a
  failure. The result lists each string with its offset, in the order of the calls of
  \<^verbatim>\<open>action\<close>.
\<close>

function ReadNullTerminatedStrings ::
  "nat \<Rightarrow> u8 list \<Rightarrow> (nat \<times> string_view) list option" where
  "ReadNullTerminatedStrings original_size section_data =
     (if section_data = [] then Some []
      else if length section_data \<le> length (takeWhile (\<lambda>b. b \<noteq> 0) section_data) then None
      else (case ReadNullTerminatedStrings original_size
                   (drop (length (takeWhile (\<lambda>b. b \<noteq> 0) section_data) + 1) section_data) of
              None \<Rightarrow> None
            | Some rest \<Rightarrow>
                Some ((original_size - length section_data,
                       takeWhile (\<lambda>b. b \<noteq> 0) section_data) # rest)))"
  by pat_completeness auto
termination
  by (relation "measure (\<lambda>(original_size, section_data). length section_data)") auto

declare ReadNullTerminatedStrings.simps [simp del]

definition ReadLocationFilenames :: "ArrayRef \<Rightarrow> BEFFile \<Rightarrow> BEFFile option" where
  "ReadLocationFilenames section bef_file =
     (case ReadNullTerminatedStrings (length (ref_bytes section)) (ref_bytes section) of
        None \<Rightarrow> None
      | Some strs \<Rightarrow>
          Some (bef_file\<lparr>bef_location_filenames :=
                  bef_location_filenames bef_file @ map snd strs\<rparr>))"

text \<open>
  \<^verbatim>\<open>ReadLocationPositions\<close> keeps the size of the section in an \<^verbatim>\<open>unsigned\<close>; the
  offset of a position is that number minus the size of what is left, in \<^verbatim>\<open>size_t\<close>
  arithmetic.
\<close>

function ReadLocationPositions_loop ::
  "nat \<Rightarrow> BEFReader \<Rightarrow> BEFFile \<Rightarrow> BEFFile option" where
  "ReadLocationPositions_loop original_size r bef_file =
     (if Empty r then Some bef_file
      else (case ReadInt r of
              (None, r1) \<Rightarrow> None
            | (Some location_filename_index, r1) \<Rightarrow>
          (case ReadInt r1 of
              (None, r2) \<Rightarrow> None
            | (Some line_number, r2) \<Rightarrow>
          (case ReadInt r2 of
              (None, r3) \<Rightarrow> None
            | (Some column_number, r3) \<Rightarrow>
          (case GetLocationFilename bef_file location_filename_index of
              None \<Rightarrow> None
            | Some filename \<Rightarrow>
                ReadLocationPositions_loop original_size r3
                  (bef_file\<lparr>bef_location_positions :=
                     DenseMap_insert (bef_location_positions bef_file)
                       (nat ((int original_size - int (length (ref_bytes r))) mod 2 ^ 64))
                       (FileLineColLoc filename line_number column_number)\<rparr>))))))"
  by pat_completeness auto
termination
  by (relation "measure (\<lambda>(original_size, r, bef_file). length (ref_bytes r))")
     (auto dest!: ReadInt_shorter [OF sym])

declare ReadLocationPositions_loop.simps [simp del]

definition ReadLocationPositions :: "ArrayRef \<Rightarrow> BEFFile \<Rightarrow> BEFFile option" where
  "ReadLocationPositions section bef_file =
     ReadLocationPositions_loop (length (ref_bytes section) mod 2 ^ 32) section bef_file"

definition ReadStrings :: "ArrayRef \<Rightarrow> BEFFile \<Rightarrow> BEFFile option" where
  "ReadStrings section bef_file =
     (case ReadNullTerminatedStrings (length (ref_bytes section)) (ref_bytes section) of
        None \<Rightarrow> None
      | Some strs \<Rightarrow>
          Some (bef_file\<lparr>bef_strings :=
                  foldl (\<lambda>m (offset, str). m(offset \<mapsto> str)) (bef_strings bef_file) strs\<rparr>))"

text \<open>
  \<^verbatim>\<open>ReadAttributes\<close>. Decoding one attribute from its type descriptor and offset
  (\<^verbatim>\<open>BEFAttributeReader::ReadAttribute\<close>) is the environment's \<open>ReadAttribute\<close>: it
  gives an attribute, the null attribute, or crashes, and may emit errors. The attributes
  decoded before a failure stay in the file's table. \<^verbatim>\<open>ReadAttributes\<close> itself fails
  only when a read from the attribute types fails.
\<close>

fun ReadAttributes_loop ::
  "environment \<Rightarrow> u8 list \<Rightarrow> nat \<Rightarrow> BEFReader \<Rightarrow> BEFFile \<Rightarrow>
     (failure + unit) \<times> BEFFile \<times> diagnostic list" where
  "ReadAttributes_loop env attribute_bytes 0 r bef_file = (Inr (), bef_file, [])"
| "ReadAttributes_loop env attribute_bytes (Suc n) r bef_file =
     (case ReadInt r of
        (None, r1) \<Rightarrow> (Inl Failed, bef_file, [])
      | (Some offset, r1) \<Rightarrow>
     (case ReadInt r1 of
        (None, r2) \<Rightarrow> (Inl Failed, bef_file, [])
      | (Some attribute_type, r2) \<Rightarrow>
     (case ReadAttribute env bef_file attribute_bytes attribute_type offset of
        (None, ds) \<Rightarrow> (Inl Crashed, bef_file, ds)
      | (Some attr, ds) \<Rightarrow>
     (case ReadAttributes_loop env attribute_bytes n r2
             (bef_file\<lparr>bef_attributes :=
                DenseMap_insert (bef_attributes bef_file) offset attr\<rparr>) of
        (result, bef_file', ds') \<Rightarrow> (result, bef_file', ds @ ds')))))"

definition ReadAttributes ::
  "environment \<Rightarrow> ArrayRef \<Rightarrow> ArrayRef \<Rightarrow> BEFFile \<Rightarrow>
     (failure + unit) \<times> BEFFile \<times> diagnostic list" where
  "ReadAttributes env attribute_section attribute_types bef_file =
     (if ref_bytes attribute_types = [] then (Inr (), bef_file, [])
      else (case ReadInt attribute_types of
              (None, r1) \<Rightarrow> (Inl Failed, bef_file, [])
            | (Some num_attributes, r1) \<Rightarrow>
                ReadAttributes_loop env (ref_bytes attribute_section) num_attributes r1 bef_file))"

text \<open>
  \<^verbatim>\<open>ReadStringOffsetSection\<close> gives the strings the offsets of a section point to;
  \<^verbatim>\<open>BEFToMLIRConverter::ReadKernels\<close> and \<^verbatim>\<open>ReadTypes\<close> store them.
\<close>

fun lookup_strings :: "BEFFile \<Rightarrow> nat list \<Rightarrow> string_view list option" where
  "lookup_strings bef_file [] = Some []"
| "lookup_strings bef_file (offset # offsets) =
     (case GetString bef_file offset of
        None \<Rightarrow> None
      | Some str \<Rightarrow>
          (case lookup_strings bef_file offsets of
             None \<Rightarrow> None
           | Some strs \<Rightarrow> Some (str # strs)))"

definition ReadStringOffsetSection ::
  "environment \<Rightarrow> ArrayRef \<Rightarrow> BEFFile \<Rightarrow> failure + string_view list" where
  "ReadStringOffsetSection env section bef_file =
     (case ReadIntArray env section of
        (Inl e, r1) \<Rightarrow> Inl e
      | (Inr offsets, r1) \<Rightarrow>
          (case lookup_strings bef_file offsets of
             None \<Rightarrow> Inl Failed
           | Some strs \<Rightarrow> Inr strs))"

definition Converter_ReadKernels :: "environment \<Rightarrow> ArrayRef \<Rightarrow> BEFFile \<Rightarrow> failure + BEFFile" where
  "Converter_ReadKernels env section bef_file =
     (case ReadStringOffsetSection env section bef_file of
        Inl e \<Rightarrow> Inl e
      | Inr strs \<Rightarrow> Inr (bef_file\<lparr>bef_kernels := bef_kernels bef_file @ strs\<rparr>))"

definition ReadTypes :: "environment \<Rightarrow> ArrayRef \<Rightarrow> BEFFile \<Rightarrow> failure + BEFFile" where
  "ReadTypes env section bef_file =
     (case ReadStringOffsetSection env section bef_file of
        Inl e \<Rightarrow> Inl e
      | Inr strs \<Rightarrow>
          Inr (bef_file\<lparr>bef_types := bef_types bef_file @ map (parseType env) strs\<rparr>))"

text \<open>\<^verbatim>\<open>ReadFunctionIndex\<close>, with its local \<^verbatim>\<open>read_types\<close>.\<close>

fun lookup_types :: "BEFFile \<Rightarrow> nat list \<Rightarrow> mlir_type list option" where
  "lookup_types bef_file [] = Some []"
| "lookup_types bef_file (type_index # indices) =
     (case GetType bef_file type_index of
        None \<Rightarrow> None
      | Some type \<Rightarrow>
          (case lookup_types bef_file indices of
             None \<Rightarrow> None
           | Some ts \<Rightarrow> Some (type # ts)))"

definition read_types ::
  "environment \<Rightarrow> BEFFile \<Rightarrow> BEFReader \<Rightarrow> (failure + mlir_type list) \<times> BEFReader" where
  "read_types env bef_file r =
     (case ReadIntArray env r of
        (Inl e, r1) \<Rightarrow> (Inl e, r1)
      | (Inr indices, r1) \<Rightarrow>
          (case lookup_types bef_file indices of
             None \<Rightarrow> (Inl Failed, r1)
           | Some ts \<Rightarrow> (Inr ts, r1)))"

fun ReadFunctionIndex_loop ::
  "environment \<Rightarrow> nat \<Rightarrow> BEFReader \<Rightarrow> BEFFile \<Rightarrow> failure + BEFFile" where
  "ReadFunctionIndex_loop env 0 r bef_file = Inr bef_file"
| "ReadFunctionIndex_loop env (Suc n) r bef_file =
     (case ReadByte r of
        (None, r1) \<Rightarrow> Inl Failed
      | (Some kind, r1) \<Rightarrow>
     (case ReadInt r1 of
        (None, r2) \<Rightarrow> Inl Failed
      | (Some offset, r2) \<Rightarrow>
     (case ReadInt r2 of
        (None, r3) \<Rightarrow> Inl Failed
      | (Some name_offset, r3) \<Rightarrow>
     (case GetString bef_file name_offset of
        None \<Rightarrow> Inl Crashed
      | Some name \<Rightarrow>
     (case read_types env bef_file r3 of
        (Inl e, r4) \<Rightarrow> Inl e
      | (Inr arguments, r4) \<Rightarrow>
     (case read_types env bef_file r4 of
        (Inl e, r5) \<Rightarrow> Inl e
      | (Inr results, r5) \<Rightarrow>
          ReadFunctionIndex_loop env n r5
            (bef_file\<lparr>bef_function_index := bef_function_index bef_file @
               [\<lparr>function_offset = offset, function_name = name, function_kind = kind,
                 argument_types = arguments, result_types = results\<rparr>]\<rparr>)))))))"

definition ReadFunctionIndex :: "environment \<Rightarrow> ArrayRef \<Rightarrow> BEFFile \<Rightarrow> failure + BEFFile" where
  "ReadFunctionIndex env section bef_file =
     (case ReadInt section of
        (None, r1) \<Rightarrow> Inl Failed
      | (Some function_count, r1) \<Rightarrow> ReadFunctionIndex_loop env function_count r1 bef_file)"


subsection \<open>The decoded IR\<close>

text \<open>
  An operation is identified by its index in the list of all operations created so far,
  which stands for its address. A value is a block argument of the function being read
  or a result of an operation; it carries its type. A block lists its operations by
  identity, a region is a list of blocks, and a region slot of an operation that was
  added with \<^verbatim>\<open>addRegion(nullptr)\<close> is an empty region. The attributes of an operation
  are kept in the order of the calls of \<^verbatim>\<open>addAttribute\<close>.
\<close>

datatype mlir_value = BlockArgument nat mlir_type | OpResult nat nat mlir_type

fun value_type :: "mlir_value \<Rightarrow> mlir_type" where
  "value_type (BlockArgument i t) = t"
| "value_type (OpResult op i t) = t"

record block =
  block_arguments :: "mlir_type list"
  block_operations :: "nat list"

type_synonym region = "block list"

record operation =
  op_name :: string_view
  op_location :: location
  op_operands :: "mlir_value list"
  op_attributes :: "(string_view \<times> attribute) list"
  op_types :: "mlir_type list"
  op_regions :: "region list"

definition string_bytes :: "string \<Rightarrow> string_view" where
  "string_bytes s = map of_char s"

text \<open>\<^verbatim>\<open>llvm::utostr\<close>: the decimal digits of a number.\<close>

function utostr :: "nat \<Rightarrow> string_view" where
  "utostr n = (if n < 10 then [of_nat (48 + n)] else utostr (n div 10) @ [of_nat (48 + n mod 10)])"
  by pat_completeness auto
termination
  by (relation "measure (\<lambda>n. n)") auto

declare utostr.simps [simp del]

subsection \<open>Kernel entries\<close>

text \<open>
  Modelled from the spec: the accessor class \<^verbatim>\<open>BEFKernel\<close> of \<^verbatim>\<open>bef_encoding.h\<close>, which
  is not among the sources. The specification gives the layout of a kernel entry in
  32-bit words: the name handle, the location offset, the numbers of arguments,
  attributes, functions and results, then one used-by count per result, then the flat
  stream of argument registers, attribute offsets, function indices, result registers
  and used-by entries, which \<^verbatim>\<open>GetKernelEntries\<close> addresses from its start. The
  accessors work on raw pointers; a read outside the kernel array is \<open>Crashed\<close>.
\<close>

definition BEFKernel :: "u32 list \<Rightarrow> nat \<Rightarrow> failure + u32 list" where
  "BEFKernel kernel_words word_offset =
     (if word_offset + 6 \<le> length kernel_words then Inr (drop word_offset kernel_words)
      else Inl Crashed)"

definition kernel_code :: "u32 list \<Rightarrow> nat" where
  "kernel_code kern = unat (kern ! 0)"

definition kernel_location :: "u32 list \<Rightarrow> nat" where
  "kernel_location kern = unat (kern ! 1)"

definition num_arguments :: "u32 list \<Rightarrow> nat" where
  "num_arguments kern = unat (kern ! 2)"

definition num_attributes :: "u32 list \<Rightarrow> nat" where
  "num_attributes kern = unat (kern ! 3)"

definition num_functions :: "u32 list \<Rightarrow> nat" where
  "num_functions kern = unat (kern ! 4)"

definition num_results :: "u32 list \<Rightarrow> nat" where
  "num_results kern = unat (kern ! 5)"

definition num_used_bys :: "u32 list \<Rightarrow> nat \<Rightarrow> failure + nat" where
  "num_used_bys kern result_number =
     (if 6 + result_number < length kern then Inr (unat (kern ! (6 + result_number)))
      else Inl Crashed)"

definition GetKernelEntries :: "u32 list \<Rightarrow> nat \<Rightarrow> nat \<Rightarrow> failure + nat list" where
  "GetKernelEntries kern entry_offset num_entries =
     (if num_entries = 0 then Inr []
      else if 6 + num_results kern + entry_offset + num_entries \<le> length kern
      then Inr (map unat (take num_entries (drop (6 + num_results kern + entry_offset) kern)))
      else Inl Crashed)"

text \<open>
  The kernel stream of a function: the bytes from the aligned position on, viewed as
  little-endian 32-bit words (\<^verbatim>\<open>size / kKernelEntryAlignment\<close> of them).
\<close>

fun kernel_stream :: "u8 list \<Rightarrow> u32 list" where
  "kernel_stream (b0 # b1 # b2 # b3 # bs) =
     (ucast b0 OR push_bit 8 (ucast b1) OR push_bit 16 (ucast b2) OR push_bit 24 (ucast b3))
       # kernel_stream bs"
| "kernel_stream bs = []"

subsection \<open>Reading a function body\<close>

record RegisterInfo =
  reg_type :: mlir_type
  num_uses :: nat
  usedbys :: "nat list"
  reg_value :: "mlir_value option"

text \<open>A \<^verbatim>\<open>KernelTableEntry\<close> is the pair of its \<^verbatim>\<open>offset\<close> and \<^verbatim>\<open>num_operands\<close>.\<close>

type_synonym KernelTableEntry = "nat \<times> nat"

text \<open>
  What reading a function changes: the register table of the function reader, the
  cursors of the attribute-name and register-type readers (shared by all functions),
  the operations created, the side table \<^verbatim>\<open>region_references\<close> from an operation to
  the function indices of its regions (in insertion order), and the diagnostics.
\<close>

record reader_state =
  register_table :: "RegisterInfo list"
  attribute_names :: BEFReader
  register_types :: BEFReader
  operations :: "operation list"
  region_references :: "(nat \<times> nat list) list"
  diagnostics :: "diagnostic list"

definition EmitError :: "string \<Rightarrow> reader_state \<Rightarrow> reader_state" where
  "EmitError message st = st\<lparr>diagnostics := diagnostics st @ [Error message]\<rparr>"

text \<open>A failure is reported with a message; a crash reports nothing.\<close>

definition fail_with :: "string \<Rightarrow> failure \<Rightarrow> reader_state \<Rightarrow> reader_state" where
  "fail_with message e st = (case e of Failed \<Rightarrow> EmitError message st | Crashed \<Rightarrow> st)"

text \<open>
  \<^verbatim>\<open>GetRegister\<close> takes an \<^verbatim>\<open>int register_index\<close> and asserts that it is inside the
  register table. \<^verbatim>\<open>AddDefinition\<close> takes a \<^verbatim>\<open>size_t\<close>, which it passes to
  \<^verbatim>\<open>GetRegister\<close>, and writes through the reference it gets.
\<close>

definition GetRegister :: "RegisterInfo list \<Rightarrow> int \<Rightarrow> failure + RegisterInfo" where
  "GetRegister table register_index =
     (if 0 \<le> register_index \<and> nat register_index < length table
      then Inr (table ! nat register_index) else Inl Crashed)"

definition AddDefinition ::
  "mlir_value \<Rightarrow> nat \<Rightarrow> reader_state \<Rightarrow> (failure + unit) \<times> reader_state" where
  "AddDefinition v register_index st =
     (case GetRegister (register_table st) (int_of_size_t register_index) of
        Inl e \<Rightarrow> (Inl e, st)
      | Inr reg_info \<Rightarrow>
          if reg_value reg_info \<noteq> None
          then (Inl Failed, EmitError ''Redefinition of registers'' st)
          else if reg_type reg_info = value_type v \<or> reg_type reg_info = NoneType
          then (Inr (), st\<lparr>register_table :=
                  (register_table st)[nat (int_of_size_t register_index) :=
                     reg_info\<lparr>reg_value := Some v\<rparr>]\<rparr>)
          else (Inl Crashed, st))"

definition register_type_of :: "BEFFile \<Rightarrow> nat list \<Rightarrow> nat \<Rightarrow> mlir_type" where
  "register_type_of bef_file reg_type_indices i =
     (if reg_type_indices = [] then NoneType
      else (case GetType bef_file (reg_type_indices ! i) of
              None \<Rightarrow> NoneType
            | Some t \<Rightarrow> t))"

text \<open>
  \<^verbatim>\<open>ReadRegisterTable\<close>. When the type indices cannot be read, the vector is cleared
  and the registers get the none type; a reservation that throws ends the run.
\<close>

definition ReadRegisterTable ::
  "environment \<Rightarrow> BEFFile \<Rightarrow> BEFReader \<Rightarrow> reader_state \<Rightarrow>
     failure + (BEFReader \<times> reader_state)" where
  "ReadRegisterTable env bef_file function_reader st =
     (case ReadIntArray env (register_types st) of
        (type_indices, types_reader) \<Rightarrow>
          if type_indices = Inl Crashed then Inl Crashed
          else
     (case ReadIntArray env function_reader of
        (Inl e, r1) \<Rightarrow> Inl e
      | (Inr reg_uses, r1) \<Rightarrow>
          if \<not> (case_sum (\<lambda>e. []) id type_indices = []
                 \<or> length (case_sum (\<lambda>e. []) id type_indices) = length reg_uses)
          then Inl Crashed
          else Inr (r1, st\<lparr>register_types := types_reader,
                 register_table := register_table st @
                   map (\<lambda>i. \<lparr>reg_type =
                               register_type_of bef_file (case_sum (\<lambda>e. []) id type_indices) i,
                             num_uses = reg_uses ! i, usedbys = [], reg_value = None\<rparr>)
                       [0..<length reg_uses]\<rparr>)))"

fun ReadKernelTable_loop :: "nat \<Rightarrow> BEFReader \<Rightarrow> (KernelTableEntry list \<times> BEFReader) option" where
  "ReadKernelTable_loop 0 r = Some ([], r)"
| "ReadKernelTable_loop (Suc n) r =
     (case ReadInt r of
        (None, r1) \<Rightarrow> None
      | (Some offset, r1) \<Rightarrow>
     (case ReadInt r1 of
        (None, r2) \<Rightarrow> None
      | (Some num_operands, r2) \<Rightarrow>
     (case ReadKernelTable_loop n r2 of
        None \<Rightarrow> None
      | Some (entries, r3) \<Rightarrow> Some ((offset, num_operands) # entries, r3))))"

definition ReadKernelTable :: "BEFReader \<Rightarrow> (KernelTableEntry list \<times> BEFReader) option" where
  "ReadKernelTable r =
     (case ReadInt r of
        (None, r1) \<Rightarrow> None
      | (Some num_kernels, r1) \<Rightarrow> ReadKernelTable_loop num_kernels r1)"

text \<open>
  \<^verbatim>\<open>ReadResultRegs\<close> reads one register index per declared result type of the function,
  and keeps it in \<^verbatim>\<open>result_regs_\<close>, a vector of \<^verbatim>\<open>int\<close>.
\<close>

fun ReadResultRegs_loop :: "nat \<Rightarrow> BEFReader \<Rightarrow> (int list \<times> BEFReader) option" where
  "ReadResultRegs_loop 0 r = Some ([], r)"
| "ReadResultRegs_loop (Suc n) r =
     (case ReadInt r of
        (None, r1) \<Rightarrow> None
      | (Some register_index, r1) \<Rightarrow>
     (case ReadResultRegs_loop n r1 of
        None \<Rightarrow> None
      | Some (regs, r2) \<Rightarrow> Some (int_of_size_t register_index # regs, r2)))"

definition ReadResultRegs :: "BEFFunction \<Rightarrow> BEFReader \<Rightarrow> (int list \<times> BEFReader) option" where
  "ReadResultRegs bef_function r = ReadResultRegs_loop (length (result_types bef_function)) r"

text \<open>
  The values of a list of registers, as the loops over the arguments of a kernel and over
  the result registers of the function look them up: \<open>Failed\<close> at the first register that
  has no value yet. The indices are those that \<^verbatim>\<open>GetRegister\<close> receives.
\<close>

fun register_values :: "RegisterInfo list \<Rightarrow> int list \<Rightarrow> failure + mlir_value list" where
  "register_values table [] = Inr []"
| "register_values table (register_index # rest) =
     (case GetRegister table register_index of
        Inl e \<Rightarrow> Inl e
      | Inr reg_info \<Rightarrow>
          (case reg_value reg_info of
             None \<Rightarrow> Inl Failed
           | Some v \<Rightarrow>
               (case register_values table rest of
                  Inl e \<Rightarrow> Inl e
                | Inr vs \<Rightarrow> Inr (v # vs))))"

fun register_result_types :: "RegisterInfo list \<Rightarrow> int list \<Rightarrow> failure + mlir_type list" where
  "register_result_types table [] = Inr []"
| "register_result_types table (register_index # rest) =
     (case GetRegister table register_index of
        Inl e \<Rightarrow> Inl e
      | Inr reg_info \<Rightarrow>
          (case register_result_types table rest of
             Inl e \<Rightarrow> Inl e
           | Inr ts \<Rightarrow> Inr (reg_type reg_info # ts)))"

text \<open>
  The attributes of a kernel: attribute \<open>i\<close> is named \<^verbatim>\<open>attr\<close>\<open>i\<close> unless a name offset can
  be read from the attribute names and is the offset of a string; an offset with no
  attribute in the file's table gets the 32-bit integer attribute \<^verbatim>\<open>0xdeadbeef\<close>.
\<close>

definition dummy_attribute :: attribute where
  "dummy_attribute = IntegerAttr (IntegerType 32) 0xdeadbeef"

fun ResolveAttributes ::
  "BEFFile \<Rightarrow> nat \<Rightarrow> nat list \<Rightarrow> BEFReader \<Rightarrow> (string_view \<times> attribute) list \<times> BEFReader" where
  "ResolveAttributes bef_file i [] r = ([], r)"
| "ResolveAttributes bef_file i (attribute_offset # rest) r =
     (case ReadInt r of
        (attribute_name_offset, r1) \<Rightarrow>
     (case ResolveAttributes bef_file (i + 1) rest r1 of
        (attrs, r2) \<Rightarrow>
          ((case attribute_name_offset of
              None \<Rightarrow> string_bytes ''attr'' @ utostr i
            | Some name_offset \<Rightarrow>
                (case GetString bef_file name_offset of
                   None \<Rightarrow> string_bytes ''attr'' @ utostr i
                 | Some n \<Rightarrow> n),
            case GetAttribute bef_file attribute_offset of
              None \<Rightarrow> dummy_attribute
            | Some attr \<Rightarrow> attr) # attrs, r2)))"

text \<open>
  The function references of a kernel: a named function gives a \<^verbatim>\<open>callee\<close> attribute, an
  unnamed one a region slot (the second component counts them).
\<close>

fun ResolveFunctionReferences ::
  "BEFFile \<Rightarrow> nat list \<Rightarrow> failure + ((string_view \<times> attribute) list \<times> nat)" where
  "ResolveFunctionReferences bef_file [] = Inr ([], 0)"
| "ResolveFunctionReferences bef_file (fn_idx # rest) =
     (case GetFunction bef_file fn_idx of
        None \<Rightarrow> Inl Failed
      | Some bef_function \<Rightarrow>
          (case ResolveFunctionReferences bef_file rest of
             Inl e \<Rightarrow> Inl e
           | Inr (callees, num_regions) \<Rightarrow>
               if IsNamedFunction bef_function
               then Inr ((string_bytes ''callee'', SymbolRefAttr (function_name bef_function))
                         # callees, num_regions)
               else Inr (callees, Suc num_regions)))"

text \<open>
  The loop that adds the definitions of the results of operation \<open>op\<close>, from result
  \<open>i\<close> on, and records the used-by entries of each result register.
\<close>

fun AddDefinitions ::
  "u32 list \<Rightarrow> nat \<Rightarrow> mlir_type list \<Rightarrow> nat \<Rightarrow> nat \<Rightarrow> nat list \<Rightarrow> reader_state \<Rightarrow>
     (failure + unit) \<times> reader_state" where
  "AddDefinitions kern op ts i entry_offset [] st = (Inr (), st)"
| "AddDefinitions kern op ts i entry_offset (register_index # rest) st =
     (case AddDefinition (OpResult op i (ts ! i)) register_index st of
        (Inl e, st1) \<Rightarrow> (Inl e, st1)
      | (Inr u, st1) \<Rightarrow>
     (case num_used_bys kern i of
        Inl e \<Rightarrow> (Inl e, st1)
      | Inr n \<Rightarrow>
     (case GetRegister (register_table st1) (int_of_size_t register_index) of
        Inl e \<Rightarrow> (Inl e, st1)
      | Inr reg_info \<Rightarrow>
     (case GetKernelEntries kern entry_offset n of
        Inl e \<Rightarrow> (Inl e, st1)
      | Inr entries \<Rightarrow>
          AddDefinitions kern op ts (i + 1) (entry_offset + n) rest
            (st1\<lparr>register_table :=
               (register_table st1)[nat (int_of_size_t register_index) :=
                  reg_info\<lparr>usedbys := entries\<rparr>]\<rparr>)))))"


subsection \<open>The reverse variable-byte length of an attribute\<close>

text \<open>
  \<^verbatim>\<open>BEFAttributeReader::ReadLength\<close>. \<^verbatim>\<open>attributes_[offset]\<close> is
  \<^verbatim>\<open>ArrayRef::operator[]\<close>, which asserts that the index is in range; the two
  \<^verbatim>\<open>assert(offset > 0)\<close> guard the decrements. The loop variable \<open>offset\<close> is the
  index of the byte being looked at, \<open>value\<close> the accumulator.
\<close>

function ReadLength_loop :: "u8 list \<Rightarrow> nat \<Rightarrow> u64 \<Rightarrow> failure + u64" where
  "ReadLength_loop attributes offset value =
     (if offset < length attributes then
        (if (attributes ! offset) AND 0x80 \<noteq> 0 then
           (if 0 < offset then
              ReadLength_loop attributes (offset - 1)
                (push_bit 7 value OR ucast ((attributes ! offset) AND 0x7F))
            else Inl Crashed)
         else Inr (push_bit 7 value OR ucast ((attributes ! offset) AND 0x7F)))
      else Inl Crashed)"
  by pat_completeness auto
termination
  by (relation "measure (\<lambda>(attributes, offset, value). offset)") auto

declare ReadLength_loop.simps [simp del]

definition ReadLength :: "u8 list \<Rightarrow> nat \<Rightarrow> failure + u64" where
  "ReadLength attributes offset =
     (if 0 < offset then ReadLength_loop attributes (offset - 1) 0 else Inl Crashed)"

text \<open>
  The reading of the specification, for comparison: the same walk backwards, but each
  byte's seven payload bits are placed above the bits read so far, so that the final
  byte (the one with high bit 0) ends up most significant.
\<close>

function ReadLength_final_byte_high_loop ::
  "u8 list \<Rightarrow> nat \<Rightarrow> nat \<Rightarrow> u64 \<Rightarrow> failure + u64" where
  "ReadLength_final_byte_high_loop attributes offset shift value =
     (if offset < length attributes then
        (if (attributes ! offset) AND 0x80 \<noteq> 0 then
           (if 0 < offset then
              ReadLength_final_byte_high_loop attributes (offset - 1) (shift + 7)
                (value OR push_bit shift (ucast ((attributes ! offset) AND 0x7F)))
            else Inl Crashed)
         else Inr (value OR push_bit shift (ucast ((attributes ! offset) AND 0x7F))))
      else Inl Crashed)"
  by pat_completeness auto
termination
  by (relation "measure (\<lambda>(attributes, offset, shift, value). offset)") auto

declare ReadLength_final_byte_high_loop.simps [simp del]

definition ReadLength_final_byte_high :: "u8 list \<Rightarrow> nat \<Rightarrow> failure + u64" where
  "ReadLength_final_byte_high attributes offset =
     (if 0 < offset then ReadLength_final_byte_high_loop attributes (offset - 1) 0 0
      else Inl Crashed)"

text \<open>
  The value of a run of length bytes given in memory order (lowest address first): the
  byte at the lowest address has weight 1, the next one weight 128, and so on.
\<close>

fun payload_value :: "u8 list \<Rightarrow> nat" where
  "payload_value [] = 0"
| "payload_value (b # bs) = unat (b AND 0x7F) + 128 * payload_value bs"


subsection \<open>Kernels\<close>

text \<open>
  \<^verbatim>\<open>ReadArgumentsPseudoKernel\<close>: the first kernel defines the registers of the block
  arguments and records their used-by entries.
\<close>

fun AddArgumentDefinitions ::
  "mlir_value list \<Rightarrow> nat list \<Rightarrow> reader_state \<Rightarrow> (failure + unit) \<times> reader_state" where
  "AddArgumentDefinitions args [] st = (Inr (), st)"
| "AddArgumentDefinitions args (register_index # rest) st =
     (case args of
        [] \<Rightarrow> (Inl Crashed, st)
      | arg # args' \<Rightarrow>
          (case AddDefinition arg register_index st of
             (Inl e, st1) \<Rightarrow> (Inl e, st1)
           | (Inr u, st1) \<Rightarrow> AddArgumentDefinitions args' rest st1))"

fun ReadUsedBys ::
  "u32 list \<Rightarrow> nat \<Rightarrow> nat \<Rightarrow> nat list \<Rightarrow> RegisterInfo list \<Rightarrow> failure + RegisterInfo list" where
  "ReadUsedBys kern i entry_offset [] table = Inr table"
| "ReadUsedBys kern i entry_offset (register_index # rest) table =
     (case GetRegister table (int_of_size_t register_index) of
        Inl e \<Rightarrow> Inl e
      | Inr reg_info \<Rightarrow>
     (case num_used_bys kern i of
        Inl e \<Rightarrow> Inl e
      | Inr n \<Rightarrow>
     (case GetKernelEntries kern entry_offset n of
        Inl e \<Rightarrow> Inl e
      | Inr entries \<Rightarrow>
          ReadUsedBys kern (i + 1) (entry_offset + n) rest
            (table[nat (int_of_size_t register_index) := reg_info\<lparr>usedbys := entries\<rparr>]))))"

definition ReadArgumentsPseudoKernel ::
  "u32 list \<Rightarrow> mlir_value list \<Rightarrow> reader_state \<Rightarrow> (failure + unit) \<times> reader_state" where
  "ReadArgumentsPseudoKernel kernel_words entry_arguments st =
     (case BEFKernel kernel_words 0 of
        Inl e \<Rightarrow> (Inl e, st)
      | Inr kern \<Rightarrow>
          if \<not> (num_arguments kern = 0 \<and> num_attributes kern = 0 \<and> num_functions kern = 0
                 \<and> num_results kern = length entry_arguments)
          then (Inl Crashed, st)
          else
     (case GetKernelEntries kern 0 (num_results kern) of
        Inl e \<Rightarrow> (Inl e, st)
      | Inr results \<Rightarrow>
     (case AddArgumentDefinitions entry_arguments results st of
        (Inl e, st1) \<Rightarrow> (Inl e, st1)
      | (Inr u, st1) \<Rightarrow>
     (case ReadUsedBys kern 0 (length results) results (register_table st1) of
        Inl e \<Rightarrow> (Inl e, st1)
      | Inr table \<Rightarrow> (Inr (), st1\<lparr>register_table := table\<rparr>)))))"

text \<open>
  \<^verbatim>\<open>ReadKernel\<close> gives the new operation, which is not yet in the block. The state
  left by a crash has no meaning.
\<close>

definition region_references_insert ::
  "(nat \<times> nat list) list \<Rightarrow> nat \<Rightarrow> nat list \<Rightarrow> (nat \<times> nat list) list" where
  "region_references_insert refs op functions =
     (if op \<in> fst ` set refs then refs else refs @ [(op, functions)])"

definition ReadKernel ::
  "environment \<Rightarrow> BEFFile \<Rightarrow> u32 list \<Rightarrow> nat \<Rightarrow> reader_state \<Rightarrow>
     (failure + nat) \<times> reader_state" where
  "ReadKernel env bef_file kernel_words offset st =
     (if offset mod kKernelEntryAlignment env \<noteq> 0 then (Inl Crashed, st)
      else
     (case BEFKernel kernel_words (offset div kKernelEntryAlignment env) of
        Inl e \<Rightarrow> (Inl e, st)
      | Inr kern \<Rightarrow>
          if length (bef_kernels bef_file) \<le> kernel_code kern then (Inl Crashed, st)
          else
     (case GetLocationPosition bef_file (kernel_location kern) of
        None \<Rightarrow> (Inl Crashed, st)
      | Some loc \<Rightarrow>
     (case GetKernelEntries kern 0 (num_arguments kern) of
        Inl e \<Rightarrow> (Inl e, st)
      | Inr arguments \<Rightarrow>
     (case register_values (register_table st) (map int_of_size_t arguments) of
        Inl e \<Rightarrow> (Inl e, fail_with ''Using undefined registers.'' e st)
      | Inr operands \<Rightarrow>
     (case ReadByte (attribute_names st) of
        (special_attribute, r1) \<Rightarrow>
     (case GetKernelEntries kern (length arguments) (num_attributes kern) of
        Inl e \<Rightarrow> (Inl e, st\<lparr>attribute_names := r1\<rparr>)
      | Inr attribute_offsets \<Rightarrow>
     (case ResolveAttributes bef_file 0 attribute_offsets r1 of
        (attrs, r2) \<Rightarrow>
     (case GetKernelEntries kern (length arguments + length attribute_offsets)
             (num_functions kern) of
        Inl e \<Rightarrow> (Inl e, st\<lparr>attribute_names := r2\<rparr>)
      | Inr functions \<Rightarrow>
     (case ResolveFunctionReferences bef_file functions of
        Inl e \<Rightarrow> (Inl e, fail_with ''Unknown callee.'' e (st\<lparr>attribute_names := r2\<rparr>))
      | Inr (callees, num_regions) \<Rightarrow>
     (case GetKernelEntries kern
             (length arguments + length attribute_offsets + length functions)
             (num_results kern) of
        Inl e \<Rightarrow> (Inl e, st\<lparr>attribute_names := r2\<rparr>)
      | Inr results \<Rightarrow>
     (case register_result_types (register_table st) (map int_of_size_t results) of
        Inl e \<Rightarrow> (Inl e, st\<lparr>attribute_names := r2\<rparr>)
      | Inr ts \<Rightarrow>
     (case AddDefinitions kern (length (operations st)) ts 0
             (length arguments + length attribute_offsets + length functions + length results)
             results
             (st\<lparr>attribute_names := r2,
                 operations := operations st @
                   [\<lparr>op_name = bef_kernels bef_file ! kernel_code kern,
                     op_location = loc,
                     op_operands = operands,
                     op_attributes =
                       (if special_attribute = Some (kNonStrict env)
                        then [(string_bytes ''bef.nonstrict'', UnitAttr)] else [])
                       @ attrs @ callees,
                     op_types = ts,
                     op_regions = replicate num_regions []\<rparr>]\<rparr>) of
        (Inl e, st2) \<Rightarrow> (Inl e, st2\<lparr>operations := butlast (operations st2)\<rparr>)
      | (Inr u, st2) \<Rightarrow>
          if 0 < num_regions
          then (if num_regions = length functions
                then (Inr (length (operations st)),
                      st2\<lparr>region_references :=
                        region_references_insert (region_references st2)
                          (length (operations st)) functions\<rparr>)
                else (Inl Crashed, st2))
          else (Inr (length (operations st)), st2))))))))))))))"

fun ReadKernels_loop ::
  "environment \<Rightarrow> BEFFile \<Rightarrow> u32 list \<Rightarrow> KernelTableEntry list \<Rightarrow> block \<Rightarrow> reader_state \<Rightarrow>
     (failure + block) \<times> reader_state" where
  "ReadKernels_loop env bef_file kernel_words [] blk st = (Inr blk, st)"
| "ReadKernels_loop env bef_file kernel_words (entry # entries) blk st =
     (case ReadKernel env bef_file kernel_words (fst entry) st of
        (Inl e, st1) \<Rightarrow> (Inl e, st1)
      | (Inr op, st1) \<Rightarrow>
          ReadKernels_loop env bef_file kernel_words entries
            (blk\<lparr>block_operations := block_operations blk @ [op]\<rparr>) st1)"

definition entry_arguments :: "block \<Rightarrow> mlir_value list" where
  "entry_arguments blk =
     map (\<lambda>i. BlockArgument i (block_arguments blk ! i)) [0..<length (block_arguments blk)]"

text \<open>
  The part of \<^verbatim>\<open>ReadKernels\<close> for a block with arguments. After the pseudo kernel a
  byte is read from the attribute names; the assertion on it is evaluated when the
  read returns \<^verbatim>\<open>true\<close>, that is when it failed and left the variable unset.
\<close>

definition ReadPseudoOp ::
  "environment \<Rightarrow> u32 list \<Rightarrow> block \<Rightarrow> reader_state \<Rightarrow> (failure + unit) \<times> reader_state" where
  "ReadPseudoOp env kernel_words blk st =
     (case ReadArgumentsPseudoKernel kernel_words (entry_arguments blk) st of
        (Inl e, st1) \<Rightarrow> (Inl e, fail_with ''Failed to read pseudo.'' e st1)
      | (Inr u, st1) \<Rightarrow>
          (case ReadByte (attribute_names st1) of
             (Some pseudo_op_non_strict, r1) \<Rightarrow> (Inr (), st1\<lparr>attribute_names := r1\<rparr>)
           | (None, r1) \<Rightarrow>
               if indeterminate_byte env = kUnknown env
               then (Inr (), st1\<lparr>attribute_names := r1\<rparr>)
               else (Inl Crashed, st1)))"

definition return_op :: "location \<Rightarrow> mlir_value list \<Rightarrow> operation" where
  "return_op loc results =
     \<lparr>op_name = string_bytes ''hex.return'', op_location = loc, op_operands = results,
      op_attributes = [], op_types = [], op_regions = []\<rparr>"

definition ReadKernels ::
  "environment \<Rightarrow> BEFFile \<Rightarrow> location \<Rightarrow> KernelTableEntry list \<Rightarrow> int list \<Rightarrow> u32 list \<Rightarrow>
     block \<Rightarrow> reader_state \<Rightarrow> (failure + block) \<times> reader_state" where
  "ReadKernels env bef_file loc kernel_table result_regs kernel_words blk st =
     (case ReadInt (attribute_names st) of
        (num_kernels, r1) \<Rightarrow>
          if (case num_kernels of None \<Rightarrow> False | Some n \<Rightarrow> n \<noteq> length kernel_table)
          then (Inl Crashed, st)
          else
     (case (if block_arguments blk = [] then (Inr (), st\<lparr>attribute_names := r1\<rparr>)
            else ReadPseudoOp env kernel_words blk (st\<lparr>attribute_names := r1\<rparr>)) of
        (Inl e, st1) \<Rightarrow> (Inl e, st1)
      | (Inr u, st1) \<Rightarrow>
     (case ReadKernels_loop env bef_file kernel_words
             (drop (if block_arguments blk = [] then 0 else 1) kernel_table) blk st1 of
        (Inl e, st2) \<Rightarrow> (Inl e, st2)
      | (Inr blk2, st2) \<Rightarrow>
     (case register_values (register_table st2) result_regs of
        Inl e \<Rightarrow> (Inl e, fail_with ''Using an undefined register in return op.'' e st2)
      | Inr results \<Rightarrow>
          (Inr (blk2\<lparr>block_operations := block_operations blk2 @ [length (operations st2)]\<rparr>),
           st2\<lparr>operations := operations st2 @ [return_op loc results]\<rparr>)))))"

subsection \<open>Functions\<close>

text \<open>
  \<^verbatim>\<open>ReadFunction\<close>, run by a new \<^verbatim>\<open>BEFFunctionReader\<close>: its register table starts empty.
\<close>

definition ReadFunction ::
  "environment \<Rightarrow> BEFFile \<Rightarrow> BEFFunction \<Rightarrow> ArrayRef \<Rightarrow> reader_state \<Rightarrow>
     (failure + (location \<times> region)) \<times> reader_state" where
  "ReadFunction env bef_file bef_function function_data st0 =
     (case ReadInt function_data of
        (None, r1) \<Rightarrow>
          (Inl Failed, EmitError ''Failed to read function location'' (st0\<lparr>register_table := []\<rparr>))
      | (Some location_position_offset, r1) \<Rightarrow>
     (case GetLocationPosition bef_file location_position_offset of
        None \<Rightarrow>
          (Inl Failed, EmitError ''Failed to read function location'' (st0\<lparr>register_table := []\<rparr>))
      | Some loc \<Rightarrow>
     (case ReadRegisterTable env bef_file r1 (st0\<lparr>register_table := []\<rparr>) of
        Inl e \<Rightarrow>
          (Inl e, fail_with ''Failed to read register table.'' e (st0\<lparr>register_table := []\<rparr>))
      | Inr (r2, st1) \<Rightarrow>
     (case ReadKernelTable r2 of
        None \<Rightarrow> (Inl Failed, EmitError ''Failed to read kernel table.'' st1)
      | Some (kernel_table, r3) \<Rightarrow>
     (case ReadResultRegs bef_function r3 of
        None \<Rightarrow> (Inl Failed, EmitError ''Failed to read result regs.'' st1)
      | Some (result_regs, r4) \<Rightarrow>
     (case ReadAlignment (kKernelEntryAlignment env) r4 of
        None \<Rightarrow> (Inl Failed, EmitError ''Failed to read kernels.'' st1)
      | Some r5 \<Rightarrow>
     (case ReadKernels env bef_file loc kernel_table result_regs
             (take (length (ref_bytes r5) div kKernelEntryAlignment env)
                (kernel_stream (ref_bytes r5)))
             \<lparr>block_arguments = argument_types bef_function, block_operations = []\<rparr> st1 of
        (Inl e, st2) \<Rightarrow> (Inl e, fail_with ''Failed to read kernels.'' e st2)
      | (Inr blk, st2) \<Rightarrow> (Inr (loc, [blk]), st2))))))))"

text \<open>
  \<^verbatim>\<open>ReadFunctions\<close>. The readers of the attribute names and of the register types skip
  a leading count when their section is not empty. The regions are listed in the order
  of the function index; a native function has no region.
\<close>

definition optional_table_reader :: "ArrayRef \<Rightarrow> BEFReader" where
  "optional_table_reader section = (if Empty section then section else snd (ReadInt section))"

fun ReadFunctions_loop ::
  "environment \<Rightarrow> BEFFile \<Rightarrow> ArrayRef \<Rightarrow> BEFFunction list \<Rightarrow>
     (location \<times> region option) list \<Rightarrow> reader_state \<Rightarrow>
     (failure + (location \<times> region option) list) \<times> reader_state" where
  "ReadFunctions_loop env bef_file functions [] regions st = (Inr regions, st)"
| "ReadFunctions_loop env bef_file functions (bef_function # rest) regions st =
     (if IsNativeFunction env bef_function
      then ReadFunctions_loop env bef_file functions rest (regions @ [(UnknownLoc, None)]) st
      else
     (case drop_front (function_offset bef_function) functions of
        Inl e \<Rightarrow> (Inl e, st)
      | Inr function_data \<Rightarrow>
     (case ReadFunction env bef_file bef_function function_data st of
        (Inl e, st1) \<Rightarrow> (Inl e, st1)
      | (Inr (loc, body), st1) \<Rightarrow>
          ReadFunctions_loop env bef_file functions rest (regions @ [(loc, Some body)]) st1)))"

definition ReadFunctions ::
  "environment \<Rightarrow> BEFFile \<Rightarrow> ArrayRef \<Rightarrow> ArrayRef \<Rightarrow> ArrayRef \<Rightarrow>
     (failure + (location \<times> region option) list) \<times> reader_state" where
  "ReadFunctions env bef_file functions names_section types_section =
     ReadFunctions_loop env bef_file functions (bef_function_index bef_file) []
       \<lparr>register_table = [],
        attribute_names = optional_table_reader names_section,
        register_types = optional_table_reader types_section,
        operations = [], region_references = [], diagnostics = []\<rparr>"


subsection \<open>Resolving functions\<close>

record func_op =
  func_location :: location
  func_name :: string_view
  func_argument_types :: "mlir_type list"
  func_result_types :: "mlir_type list"
  func_attributes :: "(string_view \<times> attribute) list"
  func_body :: region

text \<open>
  \<^verbatim>\<open>CreateBEFFuncOp\<close>: the result types of the function are the operand types of the
  last operation of the first block of the region. \<^verbatim>\<open>front()\<close> and \<^verbatim>\<open>back()\<close> of an
  empty list are \<open>Crashed\<close>.
\<close>

definition CreateBEFFuncOp ::
  "operation list \<Rightarrow> location \<Rightarrow> BEFFunction \<Rightarrow> region \<Rightarrow> failure + func_op" where
  "CreateBEFFuncOp ops loc bef_function body =
     (case body of
        [] \<Rightarrow> Inl Crashed
      | blk # blocks \<Rightarrow>
          if block_operations blk = [] then Inl Crashed
          else if length ops \<le> last (block_operations blk) then Inl Crashed
          else Inr \<lparr>func_location = loc,
                    func_name = function_name bef_function,
                    func_argument_types = argument_types bef_function,
                    func_result_types =
                      map value_type (op_operands (ops ! last (block_operations blk))),
                    func_attributes = [],
                    func_body = body\<rparr>)"

definition CreateNativeFuncOp ::
  "environment \<Rightarrow> location \<Rightarrow> BEFFunction \<Rightarrow> failure + func_op" where
  "CreateNativeFuncOp env loc bef_function =
     (if function_kind bef_function \<noteq> kNativeFunction env then Inl Crashed
      else Inr \<lparr>func_location = loc,
                func_name = function_name bef_function,
                func_argument_types = argument_types bef_function,
                func_result_types = result_types bef_function,
                func_attributes = [(string_bytes ''hex.native'', UnitAttr)],
                func_body = []\<rparr>)"

text \<open>
  The first loop of \<^verbatim>\<open>ResolveFunctions\<close>: function \<open>i\<close> of the index, when it is named,
  becomes a function of the module; the region of a BEF function is moved into it, which
  leaves the slot of \<^verbatim>\<open>regions\<close> null.
\<close>

fun ResolveTopLevel ::
  "environment \<Rightarrow> operation list \<Rightarrow> BEFFunction list \<Rightarrow> nat \<Rightarrow>
     (location \<times> region option) list \<Rightarrow> func_op list \<Rightarrow>
     failure + ((location \<times> region option) list \<times> func_op list)" where
  "ResolveTopLevel env ops [] i regions funcs = Inr (regions, funcs)"
| "ResolveTopLevel env ops (bef_function # rest) i regions funcs =
     (if IsNamedFunction bef_function then
        (if length regions \<le> i then Inl Crashed
         else if IsNativeFunction env bef_function then
           (case snd (regions ! i) of
              Some body \<Rightarrow> Inl Crashed
            | None \<Rightarrow>
                (case CreateNativeFuncOp env (fst (regions ! i)) bef_function of
                   Inl e \<Rightarrow> Inl e
                 | Inr f \<Rightarrow> ResolveTopLevel env ops rest (i + 1) regions (funcs @ [f])))
         else
           (case snd (regions ! i) of
              None \<Rightarrow> Inl Crashed
            | Some body \<Rightarrow>
                (case CreateBEFFuncOp ops (fst (regions ! i)) bef_function body of
                   Inl e \<Rightarrow> Inl e
                 | Inr f \<Rightarrow>
                     ResolveTopLevel env ops rest (i + 1)
                       (regions[i := (fst (regions ! i), None)]) (funcs @ [f]))))
      else ResolveTopLevel env ops rest (i + 1) regions funcs)"

text \<open>
  The second loop, over \<^verbatim>\<open>region_references\<close>: region slot \<open>i\<close> of the operation takes
  the blocks of the region of function \<open>region_indices[i]\<close>, and that slot of
  \<^verbatim>\<open>regions\<close> becomes null. \<^verbatim>\<open>regions.at\<close> throws outside the vector, the region taken
  is asserted not to be null, and \<^verbatim>\<open>getRegion\<close> asserts that the slot exists.
\<close>

fun TakeRegions ::
  "nat \<Rightarrow> nat \<Rightarrow> nat list \<Rightarrow> (location \<times> region option) list \<Rightarrow> operation list \<Rightarrow>
     failure + ((location \<times> region option) list \<times> operation list)" where
  "TakeRegions op i [] regions ops = Inr (regions, ops)"
| "TakeRegions op i (region_index # rest) regions ops =
     (if length regions \<le> region_index then Inl Crashed
      else (case snd (regions ! region_index) of
              None \<Rightarrow> Inl Crashed
            | Some child_region \<Rightarrow>
                if length ops \<le> op \<or> length (op_regions (ops ! op)) \<le> i then Inl Crashed
                else TakeRegions op (i + 1) rest
                       (regions[region_index := (fst (regions ! region_index), None)])
                       (ops[op := (ops ! op)\<lparr>op_regions :=
                                     (op_regions (ops ! op))[i := child_region]\<rparr>])))"

fun ResolveNestedRegions ::
  "(nat \<times> nat list) list \<Rightarrow> (location \<times> region option) list \<Rightarrow> operation list \<Rightarrow>
     failure + ((location \<times> region option) list \<times> operation list)" where
  "ResolveNestedRegions [] regions ops = Inr (regions, ops)"
| "ResolveNestedRegions ((op, region_indices) # rest) regions ops =
     (if length ops \<le> op then Inl Crashed
      else if length (op_regions (ops ! op)) \<noteq> length region_indices then Inl Crashed
      else (case TakeRegions op 0 region_indices regions ops of
              Inl e \<Rightarrow> Inl e
            | Inr (regions', ops') \<Rightarrow> ResolveNestedRegions rest regions' ops'))"

text \<open>
  \<^verbatim>\<open>ResolveFunctions\<close>: the two loops, then the check that no region is left. The
  references are visited in insertion order; the order of a \<^verbatim>\<open>DenseMap\<close> is another
  order of the same entries.
\<close>

definition ResolveFunctions ::
  "environment \<Rightarrow> BEFFile \<Rightarrow> (location \<times> region option) list \<Rightarrow> (nat \<times> nat list) list \<Rightarrow>
     operation list \<Rightarrow> (failure + (func_op list \<times> operation list)) \<times> diagnostic list" where
  "ResolveFunctions env bef_file regions refs ops =
     (case ResolveTopLevel env ops (bef_function_index bef_file) 0 regions [] of
        Inl e \<Rightarrow> (Inl e, [])
      | Inr (regions1, funcs) \<Rightarrow>
     (case ResolveNestedRegions refs regions1 ops of
        Inl e \<Rightarrow> (Inl e, [])
      | Inr (regions2, ops2) \<Rightarrow>
          if list_ex (\<lambda>loc_and_region. snd loc_and_region \<noteq> None) regions2
          then (Inl Failed, [Error ''Failed to resolve functions.''])
          else (Inr (funcs, ops2), [])))"

subsection \<open>The converter\<close>

record mlir_module =
  module_location :: location
  module_functions :: "func_op list"
  module_operations :: "operation list"

definition empty_file :: BEFFile where
  "empty_file =
     \<lparr>bef_location_filenames = [], bef_location_positions = Map.empty,
      bef_strings = Map.empty, bef_attributes = Map.empty, bef_kernels = [],
      bef_types = [], bef_function_index = []\<rparr>"

text \<open>
  \<^verbatim>\<open>emit_error\<close> of \<^verbatim>\<open>ConvertBEFToMLIR\<close>: an error and the null module.
\<close>

definition emit_error ::
  "string \<Rightarrow> failure \<Rightarrow> diagnostic list \<Rightarrow> (failure + 'a) \<times> diagnostic list" where
  "emit_error message e ds =
     (Inl e, ds @ (case e of Failed \<Rightarrow> [Error message] | Crashed \<Rightarrow> []))"

text \<open>
  The first phase: all sections but the functions. A failure of \<^verbatim>\<open>ReadAttributes\<close>
  is answered with a warning, and the phase goes on with the attributes read so far.
\<close>

definition attributes_warning :: "failure + unit \<Rightarrow> diagnostic list" where
  "attributes_warning attributes_result =
     (case attributes_result of
        Inl e \<Rightarrow> [Warning ''Invalid Attributes/AttributeTypes section.'']
      | Inr u \<Rightarrow> [])"

definition first_phase ::
  "environment \<Rightarrow> BEFSections \<Rightarrow> diagnostic list \<Rightarrow> (failure + BEFFile) \<times> diagnostic list" where
  "first_phase env sections ds =
     (case BEFSections_Get sections (kFormatVersion env) of
        Inl e \<Rightarrow> (Inl e, ds)
      | Inr format_version \<Rightarrow>
          if \<not> ReadFormatVersion env format_version
          then emit_error ''Invalid BEF version.'' Failed ds
          else
     (case BEFSections_Get sections (kLocationFilenames env) of
        Inl e \<Rightarrow> (Inl e, ds)
      | Inr filenames_section \<Rightarrow>
     (case ReadLocationFilenames filenames_section empty_file of
        None \<Rightarrow> emit_error ''Invalid LocationFilenames section.'' Failed ds
      | Some file1 \<Rightarrow>
     (case BEFSections_Get sections (kLocationPositions env) of
        Inl e \<Rightarrow> (Inl e, ds)
      | Inr positions_section \<Rightarrow>
     (case ReadLocationPositions positions_section file1 of
        None \<Rightarrow> emit_error ''Invalid LocationPositions section.'' Failed ds
      | Some file2 \<Rightarrow>
     (case BEFSections_Get sections (kStrings env) of
        Inl e \<Rightarrow> (Inl e, ds)
      | Inr strings_section \<Rightarrow>
     (case ReadStrings strings_section file2 of
        None \<Rightarrow> emit_error ''Invalid Strings section.'' Failed ds
      | Some file3 \<Rightarrow>
     (case BEFSections_Get sections (kTypes env) of
        Inl e \<Rightarrow> (Inl e, ds)
      | Inr types_section \<Rightarrow>
     (case ReadTypes env types_section file3 of
        Inl e \<Rightarrow> emit_error ''Invalid Types section.'' e ds
      | Inr file4 \<Rightarrow>
     (case BEFSections_Get sections (kAttributes env) of
        Inl e \<Rightarrow> (Inl e, ds)
      | Inr attributes_section \<Rightarrow>
     (case BEFSections_Get sections (kAttributeTypes env) of
        Inl e \<Rightarrow> (Inl e, ds)
      | Inr attribute_types_section \<Rightarrow>
     (case ReadAttributes env attributes_section attribute_types_section file4 of
        (attributes_result, file5, ds5) \<Rightarrow>
          if attributes_result = Inl Crashed then (Inl Crashed, ds @ ds5)
          else
     (case BEFSections_Get sections (kKernels env) of
        Inl e \<Rightarrow> (Inl e, ds @ ds5 @ attributes_warning attributes_result)
      | Inr kernels_section \<Rightarrow>
     (case Converter_ReadKernels env kernels_section file5 of
        Inl e \<Rightarrow>
          emit_error ''Invalid Kernels section.'' e
            (ds @ ds5 @ attributes_warning attributes_result)
      | Inr file6 \<Rightarrow>
     (case BEFSections_Get sections (kFunctionIndex env) of
        Inl e \<Rightarrow> (Inl e, ds @ ds5 @ attributes_warning attributes_result)
      | Inr function_index_section \<Rightarrow>
     (case ReadFunctionIndex env function_index_section file6 of
        Inl e \<Rightarrow>
          emit_error ''Invalid FunctionIndex section.'' e
            (ds @ ds5 @ attributes_warning attributes_result)
      | Inr file7 \<Rightarrow>
          (Inr file7, ds @ ds5 @ attributes_warning attributes_result)))))))))))))))))"

definition ConvertBEFToMLIR ::
  "environment \<Rightarrow> location \<Rightarrow> u8 list \<Rightarrow> (failure + mlir_module) \<times> diagnostic list" where
  "ConvertBEFToMLIR env loc bef_file_bytes =
     (case ReadHeader env \<lparr>ref_begin = 0, ref_bytes = bef_file_bytes\<rparr> of
        None \<Rightarrow> emit_error ''Invalid BEF file header.'' Failed []
      | Some file_reader \<Rightarrow>
     (case ReadSections env file_reader of
        (Inl e, ds1) \<Rightarrow> emit_error ''Invalid BEF section header.'' e ds1
      | (Inr sections, ds1) \<Rightarrow>
     (case first_phase env sections ds1 of
        (Inl e, ds2) \<Rightarrow> (Inl e, ds2)
      | (Inr bef_file, ds2) \<Rightarrow>
     (case BEFSections_Get sections (kFunctions env) of
        Inl e \<Rightarrow> (Inl e, ds2)
      | Inr functions_section \<Rightarrow>
     (case BEFSections_Get sections (kAttributeNames env) of
        Inl e \<Rightarrow> (Inl e, ds2)
      | Inr names_section \<Rightarrow>
     (case BEFSections_Get sections (kRegisterTypes env) of
        Inl e \<Rightarrow> (Inl e, ds2)
      | Inr types_section \<Rightarrow>
     (case ReadFunctions env bef_file functions_section names_section types_section of
        (Inl e, st) \<Rightarrow> emit_error ''Invalid Functions section.'' e (ds2 @ diagnostics st)
      | (Inr regions, st) \<Rightarrow>
     (case ResolveFunctions env bef_file regions (region_references st) (operations st) of
        (Inl e, ds3) \<Rightarrow>
          emit_error ''Failed to resolve functions.'' e (ds2 @ diagnostics st @ ds3)
      | (Inr (funcs, ops), ds3) \<Rightarrow>
          (Inr \<lparr>module_location = loc, module_functions = funcs, module_operations = ops\<rparr>,
           ds2 @ diagnostics st @ ds3)))))))))"


subsection \<open>An environment for concrete runs\<close>

text \<open>
  The theorems below hold for every environment. Concrete runs need one: this one has
  two magic bytes, version 0, twelve section identifiers numbered from 0, kernel entries
  aligned to 4 bytes, a type parser that knows \<^verbatim>\<open>i32\<close> and keeps any other non-empty
  string as an opaque type, an attribute decoder that reads every attribute as a
  one-byte boolean, and room for vectors of \<open>2\<^sup>2\<^sup>8\<close> integers.
\<close>

definition sample_environment :: environment where
  "sample_environment =
     \<lparr>kBEFMagic1 = 0x0B, kBEFMagic2 = 0xEF, kBEFVersion0 = 0,
      kNumSectionIDs = 12,
      kFormatVersion = 0, kLocationFilenames = 1, kLocationPositions = 2, kStrings = 3,
      kAttributes = 4, kKernels = 5, kTypes = 6, kFunctionIndex = 7, kFunctions = 8,
      kAttributeTypes = 9, kAttributeNames = 10, kRegisterTypes = 11,
      kNativeFunction = 1, kUnknown = 0, kNonStrict = 1,
      kKernelEntryAlignment = 4,
      parseType = (\<lambda>str. if str = [] then None
                          else if str = [0x69, 0x33, 0x32] then Some (IntegerType 32)
                          else Some (OtherType str)),
      ReadAttribute = (\<lambda>bef_file attribute_bytes attribute_type offset.
                         (Some (if offset < length attribute_bytes
                                then Some (BoolAttr (attribute_bytes ! offset \<noteq> 0))
                                else None), [])),
      indeterminate_byte = 0,
      max_reserve = 0x10000000\<rparr>"


text \<open>
  A file for concrete runs of kernels: one kernel name, one location, the type
  \<^verbatim>\<open>i32\<close>, no attributes, and one function \<^verbatim>\<open>main\<close> with no argument and one result.
\<close>

definition sample_tables :: BEFFile where
  "sample_tables =
     \<lparr>bef_location_filenames = [string_bytes ''f.mlir''],
      bef_location_positions = [0 \<mapsto> FileLineColLoc (string_bytes ''f.mlir'') 1 1],
      bef_strings = [0 \<mapsto> string_bytes ''main'', 5 \<mapsto> string_bytes ''k'',
                     7 \<mapsto> string_bytes ''i32'', 11 \<mapsto> []],
      bef_attributes = Map.empty,
      bef_kernels = [string_bytes ''k''],
      bef_types = [Some (IntegerType 32)],
      bef_function_index =
        [\<lparr>function_offset = 0, function_name = string_bytes ''main'', function_kind = 0,
          argument_types = [], result_types = [IntegerType 32]\<rparr>]\<rparr>"

text \<open>
  The state in which the function reader reads the kernel of \<^verbatim>\<open>main\<close>: one register
  with 7 declared uses, no attribute names and no register types.
\<close>

definition sample_state :: reader_state where
  "sample_state =
     \<lparr>register_table = [\<lparr>reg_type = NoneType, num_uses = 7, usedbys = [], reg_value = None\<rparr>],
      attribute_names = empty_ref, register_types = empty_ref,
      operations = [], region_references = [], diagnostics = []\<rparr>"

text \<open>
  A kernel with no argument, one attribute at offset 9, no function and one result in
  register 0, which has no used-by entry.
\<close>

definition sample_kernel :: "u32 list" where
  "sample_kernel = [0, 0, 0, 1, 0, 1, 0, 9, 0]"

text \<open>
  The entry of \<^verbatim>\<open>main\<close> in the function index, which declares the result type
  \<^verbatim>\<open>i32\<close>, and the bytes of its body: location 0, one register with 7 declared uses, one
  kernel at offset 0, the result register 0, one byte of padding, and the kernel above.
\<close>

definition sample_function :: BEFFunction where
  "sample_function =
     \<lparr>function_offset = 0, function_name = string_bytes ''main'', function_kind = 0,
      argument_types = [], result_types = [IntegerType 32]\<rparr>"

definition sample_function_data :: ArrayRef where
  "sample_function_data =
     \<lparr>ref_begin = 52,
      ref_bytes = [0, 1, 7, 1, 0, 0, 0, 0,
                   0, 0, 0, 0, 0, 0, 0, 0, 0, 0, 0, 0, 1, 0, 0, 0, 0, 0, 0, 0,
                   1, 0, 0, 0, 0, 0, 0, 0, 9, 0, 0, 0, 0, 0, 0, 0]\<rparr>"

definition start_state :: reader_state where
  "start_state =
     \<lparr>register_table = [], attribute_names = empty_ref, register_types = empty_ref,
      operations = [], region_references = [], diagnostics = []\<rparr>"

text \<open>The operations that reading \<^verbatim>\<open>main\<close> creates.\<close>

definition sample_operations :: "operation list" where
  "sample_operations =
     [\<lparr>op_name = string_bytes ''k'',
       op_location = FileLineColLoc (string_bytes ''f.mlir'') 1 1,
       op_operands = [],
       op_attributes = [(string_bytes ''attr0'', IntegerAttr (IntegerType 32) 0xDEADBEEF)],
       op_types = [NoneType],
       op_regions = []\<rparr>,
      return_op (FileLineColLoc (string_bytes ''f.mlir'') 1 1) [OpResult 0 0 NoneType]]"

text \<open>
  The whole file: header, FormatVersion, LocationFilenames, LocationPositions, Strings,
  Types, Kernels, FunctionIndex and Functions, with the body of \<^verbatim>\<open>main\<close> at offset 52.
\<close>

definition sample_file :: "u8 list" where
  "sample_file =
     [0x0B, 0xEF,
      0, 1, 0,
      1, 7, 0x66, 0x2E, 0x6D, 0x6C, 0x69, 0x72, 0,
      2, 3, 0, 1, 1,
      3, 0x0C, 0x6D, 0x61, 0x69, 0x6E, 0, 0x6B, 0, 0x69, 0x33, 0x32, 0, 0,
      6, 2, 1, 7,
      5, 2, 1, 5,
      7, 7, 1, 0, 0, 0, 0, 1, 0,
      8, 0x2C, 0, 1, 7, 1, 0, 0, 0, 0,
      0, 0, 0, 0, 0, 0, 0, 0, 0, 0, 0, 0, 1, 0, 0, 0, 0, 0, 0, 0,
      1, 0, 0, 0, 0, 0, 0, 0, 9, 0, 0, 0, 0, 0, 0, 0]"

text \<open>
  The same file with the three optional sections: no attribute types, the attribute
  names of \<^verbatim>\<open>main\<close> (one kernel, strict, whose attribute is named by the string at
  offset 5) and its register types (register 0 has type 0). The function reader starts
  with the two readers behind the leading counts of their sections.
\<close>

definition complete_file :: "u8 list" where
  "complete_file = sample_file @ [9, 1, 0, 10, 4, 1, 1, 0, 5, 11, 3, 1, 1, 0]"

definition complete_state :: reader_state where
  "complete_state =
     \<lparr>register_table = [],
      attribute_names = \<lparr>ref_begin = 102, ref_bytes = [1, 0, 5]\<rparr>,
      register_types = \<lparr>ref_begin = 108, ref_bytes = [1, 0]\<rparr>,
      operations = [], region_references = [], diagnostics = []\<rparr>"

definition complete_operations :: "operation list" where
  "complete_operations =
     [\<lparr>op_name = string_bytes ''k'',
       op_location = FileLineColLoc (string_bytes ''f.mlir'') 1 1,
       op_operands = [],
       op_attributes = [(string_bytes ''k'', IntegerAttr (IntegerType 32) 0xDEADBEEF)],
       op_types = [IntegerType 32],
       op_regions = []\<rparr>,
      return_op (FileLineColLoc (string_bytes ''f.mlir'') 1 1) [OpResult 0 0 (IntegerType 32)]]"

text \<open>
  A function \<^verbatim>\<open>main\<close> whose kernel has two nested regions, the unnamed functions 1
  and 2 of the function index: the operations and the regions as \<^verbatim>\<open>ReadFunctions\<close>
  leaves them, before the functions are resolved.
\<close>

definition nested_file :: BEFFile where
  "nested_file =
     sample_tables\<lparr>bef_function_index :=
       [\<lparr>function_offset = 0, function_name = string_bytes ''main'', function_kind = 0,
         argument_types = [], result_types = []\<rparr>,
        \<lparr>function_offset = 20, function_name = [], function_kind = 0,
         argument_types = [], result_types = []\<rparr>,
        \<lparr>function_offset = 28, function_name = [], function_kind = 0,
         argument_types = [], result_types = []\<rparr>]\<rparr>"

definition nested_operations :: "operation list" where
  "nested_operations =
     [\<lparr>op_name = string_bytes ''k'', op_location = UnknownLoc, op_operands = [],
       op_attributes = [], op_types = [], op_regions = [[], []]\<rparr>,
      return_op UnknownLoc [], return_op UnknownLoc [], return_op UnknownLoc []]"

definition nested_regions :: "(location \<times> region option) list" where
  "nested_regions =
     [(UnknownLoc, Some [\<lparr>block_arguments = [], block_operations = [0, 1]\<rparr>]),
      (UnknownLoc, Some [\<lparr>block_arguments = [], block_operations = [2]\<rparr>]),
      (UnknownLoc, Some [\<lparr>block_arguments = [], block_operations = [3]\<rparr>])]"

text \<open>A kernel with one argument, register 0, and no attribute, function or result.\<close>

definition use_kernel :: "u32 list" where
  "use_kernel = [0, 0, 1, 0, 0, 0, 0]"


text \<open>
  A file whose function \<^verbatim>\<open>main\<close> has one argument of type \<^verbatim>\<open>i32\<close> and no result, and
  none of the three optional sections. Its body, at offset 52: location 0, one register
  with no declared use, one kernel at offset 0, two bytes of padding, and the pseudo
  kernel that defines register 0 as the argument.
\<close>

definition argument_file :: "u8 list" where
  "argument_file =
     [0x0B, 0xEF,
      0, 1, 0,
      1, 7, 0x66, 0x2E, 0x6D, 0x6C, 0x69, 0x72, 0,
      2, 3, 0, 1, 1,
      3, 0x0C, 0x6D, 0x61, 0x69, 0x6E, 0, 0x6B, 0, 0x69, 0x33, 0x32, 0, 0,
      6, 2, 1, 7,
      5, 2, 1, 5,
      7, 7, 1, 0, 0, 0, 1, 0, 0,
      8, 0x28, 0, 1, 0, 1, 0, 0, 0, 0,
      0, 0, 0, 0, 0, 0, 0, 0, 0, 0, 0, 0, 0, 0, 0, 0, 0, 0, 0, 0,
      1, 0, 0, 0, 0, 0, 0, 0, 0, 0, 0, 0]"

definition argument_function :: BEFFunction where
  "argument_function =
     \<lparr>function_offset = 0, function_name = string_bytes ''main'', function_kind = 0,
      argument_types = [IntegerType 32], result_types = []\<rparr>"

definition argument_tables :: BEFFile where
  "argument_tables = sample_tables\<lparr>bef_function_index := [argument_function]\<rparr>"

definition argument_function_data :: ArrayRef where
  "argument_function_data =
     \<lparr>ref_begin = 52,
      ref_bytes = [0, 1, 0, 1, 0, 0, 0, 0,
                   0, 0, 0, 0, 0, 0, 0, 0, 0, 0, 0, 0, 0, 0, 0, 0, 0, 0, 0, 0,
                   1, 0, 0, 0, 0, 0, 0, 0, 0, 0, 0, 0]\<rparr>"

text \<open>The sample environment with another content of the unset byte.\<close>

definition unset_environment :: environment where
  "unset_environment = sample_environment\<lparr>indeterminate_byte := 1\<rparr>"

text \<open>
  Two bodies for \<^verbatim>\<open>main\<close> that are not decoded. The first has the one kernel
  \<open>use_kernel\<close>, which uses register 0 before any kernel has defined it. The second has
  the sample kernel twice, at offsets 0 and 36: both define register 0.
\<close>

definition undefined_use_data :: ArrayRef where
  "undefined_use_data =
     \<lparr>ref_begin = 52,
      ref_bytes = [0, 1, 7, 1, 0, 0, 0, 0,
                   0, 0, 0, 0, 0, 0, 0, 0, 1, 0, 0, 0, 0, 0, 0, 0, 0, 0, 0, 0, 0, 0, 0, 0,
                   0, 0, 0, 0]\<rparr>"

definition redefinition_data :: ArrayRef where
  "redefinition_data =
     \<lparr>ref_begin = 52,
      ref_bytes = [0, 1, 7, 2, 0, 0, 36, 0, 0, 0, 0, 0,
                   0, 0, 0, 0, 0, 0, 0, 0, 0, 0, 0, 0, 1, 0, 0, 0, 0, 0, 0, 0,
                   1, 0, 0, 0, 0, 0, 0, 0, 9, 0, 0, 0, 0, 0, 0, 0,
                   0, 0, 0, 0, 0, 0, 0, 0, 0, 0, 0, 0, 1, 0, 0, 0, 0, 0, 0, 0,
                   1, 0, 0, 0, 0, 0, 0, 0, 9, 0, 0, 0, 0, 0, 0, 0]\<rparr>"

subsection \<open>Notions for the properties\<close>

text \<open>
  The reader state with the declared use counts of all registers erased, and the number
  of operand positions of a list of operations that hold a given value.
\<close>

definition forget_uses :: "reader_state \<Rightarrow> reader_state" where
  "forget_uses st = st\<lparr>register_table := map (\<lambda>reg. reg\<lparr>num_uses := 0\<rparr>) (register_table st)\<rparr>"

definition actual_uses :: "operation list \<Rightarrow> mlir_value \<Rightarrow> nat" where
  "actual_uses ops v = sum_list (map (\<lambda>op. count_list (op_operands op) v) ops)"

text \<open>
  A value is available in a block of operations \<open>earlier\<close> with argument types \<open>args\<close>
  when it is an argument of the block, or a result of one of these operations. The
  operands of a block are defined earlier when every operand of the operation at
  position \<open>k\<close> is available in the operations before position \<open>k\<close>.
\<close>

fun value_available :: "mlir_type list \<Rightarrow> operation list \<Rightarrow> nat list \<Rightarrow> mlir_value \<Rightarrow> bool" where
  "value_available args ops earlier (BlockArgument i t) = (i < length args \<and> args ! i = t)"
| "value_available args ops earlier (OpResult op i t) =
     (op \<in> set earlier \<and> op < length ops \<and>
      i < length (op_types (ops ! op)) \<and> op_types (ops ! op) ! i = t)"

definition operands_defined_earlier :: "operation list \<Rightarrow> block \<Rightarrow> bool" where
  "operands_defined_earlier ops blk =
     (\<forall>k < length (block_operations blk).
        \<forall>v \<in> set (op_operands (ops ! (block_operations blk ! k))).
          value_available (block_arguments blk) ops (take k (block_operations blk)) v)"

text \<open>The values that the registers of a table hold.\<close>

definition defined_values :: "RegisterInfo list \<Rightarrow> mlir_value set" where
  "defined_values table = {v. \<exists>reg \<in> set table. reg_value reg = Some v}"


subsection \<open>Unfolding the readers on concrete input\<close>

lemmas reader_defs = ReadByte_def ReadInt_def ReadSection_def SkipPast_def drop_front_def
  Empty_def drained_def ReadIntArray_def ReadAlignment_def

lemmas sections_defs = ReadSections_def ReadSections_loop.simps ReadNextSection_def
  BEFSections_Set_def BEFSections_Get_def BEFSections_init_def empty_ref_def section_empty_def

text \<open>The counted loops and list operations at numerals.\<close>

lemma list_update_numeral:
  "(x # xs)[numeral v := y] = x # xs[numeral v - 1 := y]"
  by (simp add: numeral_eq_Suc)

lemma replicate_numeral:
  "replicate (numeral v) x = x # replicate (numeral v - 1) x"
  by (simp add: numeral_eq_Suc)

lemma ReadIntArray_items_numeral:
  "ReadIntArray_items (numeral v) r =
     (case ReadInt r of
        (None, r1) \<Rightarrow> (None, r1)
      | (Some item, r1) \<Rightarrow>
          (case ReadIntArray_items (pred_numeral v) r1 of
             (None, r2) \<Rightarrow> (None, r2)
           | (Some items, r2) \<Rightarrow> (Some (item # items), r2)))"
  by (simp add: numeral_eq_Suc)

lemma ReadKernelTable_loop_numeral:
  "ReadKernelTable_loop (numeral v) r =
     (case ReadInt r of
        (None, r1) \<Rightarrow> None
      | (Some offset, r1) \<Rightarrow>
     (case ReadInt r1 of
        (None, r2) \<Rightarrow> None
      | (Some num_operands, r2) \<Rightarrow>
     (case ReadKernelTable_loop (pred_numeral v) r2 of
        None \<Rightarrow> None
      | Some (entries, r3) \<Rightarrow> Some ((offset, num_operands) # entries, r3))))"
  by (simp add: numeral_eq_Suc)

lemma ReadResultRegs_loop_numeral:
  "ReadResultRegs_loop (numeral v) r =
     (case ReadInt r of
        (None, r1) \<Rightarrow> None
      | (Some register_index, r1) \<Rightarrow>
     (case ReadResultRegs_loop (pred_numeral v) r1 of
        None \<Rightarrow> None
      | Some (regs, r2) \<Rightarrow> Some (int_of_size_t register_index # regs, r2)))"
  by (simp add: numeral_eq_Suc)

lemmas numeral_unfolds = list_update_numeral replicate_numeral ReadIntArray_items_numeral
  ReadKernelTable_loop_numeral ReadResultRegs_loop_numeral

lemmas tables_defs = first_phase_def ReadFormatVersion_def ReadLocationFilenames_def
  ReadLocationPositions_def ReadLocationPositions_loop.simps ReadStrings_def
  ReadNullTerminatedStrings.simps ReadTypes_def ReadStringOffsetSection_def ReadAttributes_def
  Converter_ReadKernels_def ReadFunctionIndex_def attributes_warning_def emit_error_def
  empty_file_def

lemmas convert_defs = ConvertBEFToMLIR_def ReadHeader_def ReadFunctions_def
  optional_table_reader_def ResolveFunctions_def


lemmas function_defs = ReadFunction_def ReadRegisterTable_def ReadKernelTable_def ReadResultRegs_def
  ReadKernels_def ReadKernel_def BEFKernel_def kernel_code_def kernel_location_def num_arguments_def
  num_attributes_def num_functions_def num_results_def num_used_bys_def GetKernelEntries_def
  GetLocationPosition_def GetString_def GetAttribute_def GetType_def GetFunction_def GetRegister_def
  GetLocationFilename_def IsNamedFunction_def IsNativeFunction_def DenseMap_insert_def
  AddDefinition_def EmitError_def fail_with_def register_type_of_def dummy_attribute_def
  ReadArgumentsPseudoKernel_def ReadPseudoOp_def entry_arguments_def return_op_def
  region_references_insert_def string_bytes_def utostr.simps read_types_def int_of_size_t_def
  CreateBEFFuncOp_def CreateNativeFuncOp_def


section \<open>Properties\<close>

subsection \<open>The length prefix\<close>

lemma low7_take_bit: "(b::u8) AND 0x7F = take_bit 7 b"
proof -
  have "(0x7F::u8) = mask 7" by (simp add: mask_eq_exp_minus_1)
  then show ?thesis by (simp add: take_bit_eq_mask)
qed

lemma low7_bound: "unat ((b::u8) AND 0x7F) < 128"
  using take_bit_nat_less_exp [of 7 "unat b"]
  by (simp add: low7_take_bit unsigned_take_bit_eq)

lemma low7_ucast: "unat (ucast ((b::u8) AND 0x7F) :: u64) = unat (b AND 0x7F)"
proof -
  have "unat (b AND 0x7F) < 2 ^ 64"
    using low7_bound [of b] by simp
  then show ?thesis
    by (simp add: unsigned_ucast_eq take_bit_nat_eq_self)
qed

lemma low7_disjoint: "push_bit 7 (acc::u64) AND ucast ((b::u8) AND 0x7F) = 0"
  unfolding low7_take_bit
  by (rule bit_word_eqI) (auto simp: bit_simps)

lemma step_unat:
  "unat (push_bit 7 (acc::u64) OR ucast ((b::u8) AND 0x7F)) = (unat acc * 128 + unat (b AND 0x7F)) mod 2 ^ 64"
proof -
  have "push_bit 7 acc OR ucast (b AND 0x7F) = push_bit 7 acc + (ucast (b AND 0x7F) :: u64)"
    by (rule disjunctive_add_eq_or [symmetric]) (rule low7_disjoint)
  moreover have "unat (push_bit 7 acc) = (unat acc * 128) mod 2 ^ 64"
    by (simp add: push_bit_eq_mult unat_word_ariths)
  ultimately show ?thesis
    by (simp add: unat_word_ariths low7_ucast mod_add_left_eq)
qed

lemma mod_acc: "((a mod M) * c + d) mod M = (a * c + d) mod (M::nat)"
  by (metis mod_add_left_eq mod_mult_left_eq)

lemma payload_value_snoc:
  "payload_value (bs @ [b]) = payload_value bs + 128 ^ length bs * unat (b AND 0x7F)"
  by (induction bs) (simp_all add: algebra_simps)

lemma payload_value_mod_128:
  "bs \<noteq> [] \<Longrightarrow> payload_value bs mod 128 = unat (hd bs AND 0x7F)"
  using low7_bound by (cases bs) simp_all

lemma ReadLength_loop_value:
  "ReadLength_loop attributes k acc = Inr v \<Longrightarrow>
     \<exists>m\<le>k. k < length attributes \<and>
       (\<forall>i. m < i \<and> i \<le> k \<longrightarrow> attributes ! i AND 0x80 \<noteq> 0) \<and>
       attributes ! m AND 0x80 = 0 \<and>
       unat v = (unat acc * 128 ^ (Suc k - m)
                  + payload_value (take (Suc k - m) (drop m attributes))) mod 2 ^ 64"
proof (induction attributes k acc rule: ReadLength_loop.induct)
  case (1 attributes offset "value")
  note unfold = ReadLength_loop.simps [of attributes offset "value"]
  from "1.prems" have in_range: "offset < length attributes"
    by (simp add: unfold split: if_splits)
  show ?case
  proof (cases "attributes ! offset AND 0x80 \<noteq> 0")
    case False
    with "1.prems" in_range
    have "v = push_bit 7 value OR ucast (attributes ! offset AND 0x7F)"
      by (simp add: unfold)
    then have "unat v = (unat value * 128 + unat (attributes ! offset AND 0x7F)) mod 2 ^ 64"
      by (simp only: step_unat)
    moreover have "take (Suc 0) (drop offset attributes) = [attributes ! offset]"
      using in_range by (simp add: take_Suc_conv_app_nth)
    ultimately show ?thesis
      using False in_range by (intro exI [of _ offset]) auto
  next
    case True
    with "1.prems" in_range have pos: "0 < offset"
      by (simp add: unfold split: if_splits)
    let ?acc = "push_bit 7 value OR ucast (attributes ! offset AND 0x7F)"
    from "1.prems" in_range True pos
    have rec: "ReadLength_loop attributes (offset - 1) ?acc = Inr v"
      by (simp add: unfold)
    from "1.IH" [OF in_range True pos rec]
    obtain m where m: "m \<le> offset - 1" "offset - 1 < length attributes"
      "\<forall>i. m < i \<and> i \<le> offset - 1 \<longrightarrow> attributes ! i AND 0x80 \<noteq> 0"
      "attributes ! m AND 0x80 = 0"
      "unat v = (unat ?acc * 128 ^ (Suc (offset - 1) - m)
                  + payload_value (take (Suc (offset - 1) - m) (drop m attributes))) mod 2 ^ 64"
      by blast
    let ?n = "offset - m"
    let ?p = "unat (attributes ! offset AND 0x7F)"
    let ?low = "payload_value (take ?n (drop m attributes))"
    have n: "Suc (offset - 1) - m = ?n" "Suc offset - m = Suc ?n"
      using pos m(1) by simp_all
    have "take (Suc ?n) (drop m attributes) = take ?n (drop m attributes) @ [attributes ! offset]"
      using in_range m(1) pos by (simp add: take_Suc_conv_app_nth)
    then have high: "payload_value (take (Suc ?n) (drop m attributes)) = ?low + 128 ^ ?n * ?p"
      using in_range m(1) pos by (simp add: payload_value_snoc)
    have "unat v = ((unat value * 128 + ?p) mod 2 ^ 64 * 128 ^ ?n + ?low) mod 2 ^ 64"
      using m(5) by (simp only: n step_unat)
    also have "\<dots> = ((unat value * 128 + ?p) * 128 ^ ?n + ?low) mod 2 ^ 64"
      by (rule mod_acc)
    also have "\<dots> = (unat value * 128 ^ Suc ?n + (?low + 128 ^ ?n * ?p)) mod 2 ^ 64"
      by (simp add: algebra_simps)
    finally have val: "unat v = (unat value * 128 ^ (Suc offset - m)
        + payload_value (take (Suc offset - m) (drop m attributes))) mod 2 ^ 64"
      by (simp only: n high)
    have bits: "\<forall>i. m < i \<and> i \<le> offset \<longrightarrow> attributes ! i AND 0x80 \<noteq> 0"
    proof (intro allI impI)
      fix i assume "m < i \<and> i \<le> offset"
      then have "i = offset \<or> (m < i \<and> i \<le> offset - 1)" by arith
      then show "attributes ! i AND 0x80 \<noteq> 0"
        using True m(3) by blast
    qed
    from m(1) pos have "m \<le> offset" by simp
    with in_range bits m(4) val show ?thesis
      by blast
  qed
qed

text \<open>
  Claim C2, as the code has it. When \<^verbatim>\<open>ReadLength\<close> returns, it has read the bytes at
  \<open>offset - 1\<close> down to some index \<open>m\<close>: every byte above \<open>m\<close> has its high bit set,
  the byte at \<open>m\<close> (the final byte, at the smallest address) has it clear, each byte
  contributes its seven low bits, and the length is their value with the byte at
  \<open>offset - 1\<close> most significant. The final byte gives the least significant seven
  bits of the length, not the most significant ones.
\<close>

theorem ReadLength_final_byte_low:
  assumes "ReadLength attributes offset = Inr v"
  shows "\<exists>m<offset. offset \<le> length attributes \<and>
           (\<forall>i. m < i \<and> i < offset \<longrightarrow> attributes ! i AND 0x80 \<noteq> 0) \<and>
           attributes ! m AND 0x80 = 0 \<and>
           unat v = payload_value (take (offset - m) (drop m attributes)) mod 2 ^ 64 \<and>
           unat v mod 128 = unat (attributes ! m AND 0x7F)"
proof -
  from assms have pos: "0 < offset" and loop: "ReadLength_loop attributes (offset - 1) 0 = Inr v"
    by (auto simp: ReadLength_def split: if_splits)
  from ReadLength_loop_value [OF loop]
  obtain m where m: "m \<le> offset - 1" "offset - 1 < length attributes"
      "\<forall>i. m < i \<and> i \<le> offset - 1 \<longrightarrow> attributes ! i AND 0x80 \<noteq> 0"
      "attributes ! m AND 0x80 = 0"
      "unat v = (unat (0::u64) * 128 ^ (Suc (offset - 1) - m)
                  + payload_value (take (Suc (offset - 1) - m) (drop m attributes))) mod 2 ^ 64"
    by blast
  let ?bs = "take (offset - m) (drop m attributes)"
  have lt: "m < offset" using m(1) pos by simp
  have val: "unat v = payload_value ?bs mod 2 ^ 64"
    using m(5) pos by simp
  have ne: "?bs \<noteq> []" and hd: "hd ?bs = attributes ! m"
    using lt m(2) by (simp_all add: hd_drop_conv_nth)
  have "(128::nat) dvd 2 ^ 64" by simp
  then have "unat v mod 128 = payload_value ?bs mod 128"
    unfolding val by (rule mod_mod_cancel)
  then have low: "unat v mod 128 = unat (attributes ! m AND 0x7F)"
    using payload_value_mod_128 [OF ne] hd by simp
  have bits: "\<forall>i. m < i \<and> i < offset \<longrightarrow> attributes ! i AND 0x80 \<noteq> 0"
  proof (intro allI impI)
    fix i assume "m < i \<and> i < offset"
    then have "m < i \<and> i \<le> offset - 1" by arith
    then show "attributes ! i AND 0x80 \<noteq> 0"
      using m(3) by blast
  qed
  from lt m(2) pos bits m(4) val low show ?thesis
    by (intro exI [of _ m]) simp
qed

text \<open>The theorem at the two-byte length \<open>82 01\<close> (read backwards), which is 257.\<close>

theorem ReadLength_final_byte_low_witness:
  "ReadLength [0x01, 0x82] 2 = Inr 257 \<and>
   (\<exists>m<2. 2 \<le> length [0x01, 0x82 :: u8] \<and>
      (\<forall>i. m < i \<and> i < 2 \<longrightarrow> [0x01, 0x82 :: u8] ! i AND 0x80 \<noteq> 0) \<and>
      [0x01, 0x82 :: u8] ! m AND 0x80 = 0 \<and>
      unat (257 :: u64) = payload_value (take (2 - m) (drop m [0x01, 0x82])) mod 2 ^ 64 \<and>
      unat (257 :: u64) mod 128 = unat ([0x01, 0x82 :: u8] ! m AND 0x7F))"
proof (intro conjI)
  show run: "ReadLength [0x01, 0x82] 2 = Inr 257"
    by (simp add: ReadLength_def ReadLength_loop.simps)
  show "\<exists>m<2. 2 \<le> length [0x01, 0x82 :: u8] \<and>
      (\<forall>i. m < i \<and> i < 2 \<longrightarrow> [0x01, 0x82 :: u8] ! i AND 0x80 \<noteq> 0) \<and>
      [0x01, 0x82 :: u8] ! m AND 0x80 = 0 \<and>
      unat (257 :: u64) = payload_value (take (2 - m) (drop m [0x01, 0x82])) mod 2 ^ 64 \<and>
      unat (257 :: u64) mod 128 = unat ([0x01, 0x82 :: u8] ! m AND 0x7F)"
    by (rule ReadLength_final_byte_low [OF run])
qed

text \<open>
  Against claim C2 as stated: with the final byte most significant, the same two bytes
  would give 130.
\<close>

theorem ReadLength_final_byte_not_most_significant:
  "ReadLength [0x01, 0x82] 2 = Inr 257 \<and> ReadLength_final_byte_high [0x01, 0x82] 2 = Inr 130"
  by (simp add: ReadLength_def ReadLength_final_byte_high_def ReadLength_loop.simps
      ReadLength_final_byte_high_loop.simps)


subsection \<open>Header and format version\<close>

lemma ReadHeader_magic:
  "ReadHeader env \<lparr>ref_begin = 0, ref_bytes = bytes\<rparr> =
     (case bytes of
        b1 # b2 # rest \<Rightarrow>
          if b1 = kBEFMagic1 env \<and> b2 = kBEFMagic2 env
          then Some \<lparr>ref_begin = 2, ref_bytes = rest\<rparr> else None
      | _ \<Rightarrow> None)"
  by (simp add: ReadHeader_def ReadByte_def split: list.splits)

lemma ReadFormatVersion_first_byte:
  "ReadFormatVersion env payload =
     (ref_bytes payload \<noteq> [] \<and> hd (ref_bytes payload) = kBEFVersion0 env)"
  by (simp add: ReadFormatVersion_def ReadByte_def split: list.splits)

lemma BEFSections_Get_update:
  "BEFSections_Get (sections[k := section_data]) j =
     (if j = k \<and> k < length sections then Inr section_data else BEFSections_Get sections j)"
  by (simp add: BEFSections_Get_def)

lemma first_phase_version_tail:
  assumes "kFormatVersion env < length sections"
    and "kFormatVersion env \<notin> {kLocationFilenames env, kLocationPositions env, kStrings env,
           kTypes env, kAttributes env, kAttributeTypes env, kKernels env, kFunctionIndex env}"
    and "ref_bytes (sections ! kFormatVersion env) = b # tail"
  shows "first_phase env (sections[kFormatVersion env := \<lparr>ref_begin = p, ref_bytes = [b]\<rparr>]) ds =
         first_phase env sections ds"
proof -
  from assms(1) have g:
    "BEFSections_Get sections (kFormatVersion env) = Inr (sections ! kFormatVersion env)"
    by (simp add: BEFSections_Get_def)
  from assms(3) have v: "ReadFormatVersion env (sections ! kFormatVersion env) =
      ReadFormatVersion env \<lparr>ref_begin = p, ref_bytes = [b]\<rparr>"
    by (simp add: ReadFormatVersion_first_byte)
  from assms(1,2) show ?thesis
    unfolding first_phase_def g
    by (simp add: BEFSections_Get_update v
          cong del: sum.case_cong_weak option.case_cong_weak prod.case_cong_weak if_weak_cong)
qed

text \<open>
  Claim C9, as the code has it. Decoding produces no module when the input does not start
  with the two magic bytes (a shorter input included). When the payload of the
  FormatVersion section is empty or starts with a byte that is not the supported version,
  decoding produces no module either, and reports an invalid version. Only the first
  byte of the payload is read: the first phase of the decode gives the same result for a
  payload of that byte alone as for a payload in which other bytes follow it.
\<close>

theorem magic_and_first_version_byte_decide:
  "(\<not> (\<exists>rest. bytes = kBEFMagic1 env # kBEFMagic2 env # rest) \<longrightarrow>
      ConvertBEFToMLIR env loc bytes = (Inl Failed, [Error ''Invalid BEF file header.''])) \<and>
   (bytes = kBEFMagic1 env # kBEFMagic2 env # rest \<and>
    ReadSections env \<lparr>ref_begin = 2, ref_bytes = rest\<rparr> = (Inr sections, ds) \<and>
    BEFSections_Get sections (kFormatVersion env) = Inr payload \<and>
    (ref_bytes payload = [] \<or> hd (ref_bytes payload) \<noteq> kBEFVersion0 env) \<longrightarrow>
      ConvertBEFToMLIR env loc bytes = (Inl Failed, ds @ [Error ''Invalid BEF version.''])) \<and>
   (kFormatVersion env < length split \<and>
    kFormatVersion env \<notin> {kLocationFilenames env, kLocationPositions env, kStrings env,
       kTypes env, kAttributes env, kAttributeTypes env, kKernels env, kFunctionIndex env} \<and>
    ref_bytes (split ! kFormatVersion env) = b # tail \<longrightarrow>
      first_phase env (split[kFormatVersion env := \<lparr>ref_begin = p, ref_bytes = [b]\<rparr>]) ds1 =
      first_phase env split ds1)"
proof (intro conjI impI)
  assume "\<not> (\<exists>rest. bytes = kBEFMagic1 env # kBEFMagic2 env # rest)"
  then have "ReadHeader env \<lparr>ref_begin = 0, ref_bytes = bytes\<rparr> = None"
    by (auto simp: ReadHeader_magic split: list.splits)
  then show "ConvertBEFToMLIR env loc bytes = (Inl Failed, [Error ''Invalid BEF file header.''])"
    by (simp add: ConvertBEFToMLIR_def emit_error_def)
next
  assume a: "bytes = kBEFMagic1 env # kBEFMagic2 env # rest \<and>
    ReadSections env \<lparr>ref_begin = 2, ref_bytes = rest\<rparr> = (Inr sections, ds) \<and>
    BEFSections_Get sections (kFormatVersion env) = Inr payload \<and>
    (ref_bytes payload = [] \<or> hd (ref_bytes payload) \<noteq> kBEFVersion0 env)"
  then have hdr: "ReadHeader env \<lparr>ref_begin = 0, ref_bytes = bytes\<rparr>
      = Some \<lparr>ref_begin = 2, ref_bytes = rest\<rparr>"
    by (simp add: ReadHeader_magic)
  from a have "\<not> ReadFormatVersion env payload"
    by (auto simp: ReadFormatVersion_first_byte)
  with a have "first_phase env sections ds = (Inl Failed, ds @ [Error ''Invalid BEF version.''])"
    by (simp add: first_phase_def emit_error_def)
  with a hdr show "ConvertBEFToMLIR env loc bytes = (Inl Failed, ds @ [Error ''Invalid BEF version.''])"
    by (simp add: ConvertBEFToMLIR_def)
next
  assume "kFormatVersion env < length split \<and>
    kFormatVersion env \<notin> {kLocationFilenames env, kLocationPositions env, kStrings env,
       kTypes env, kAttributes env, kAttributeTypes env, kKernels env, kFunctionIndex env} \<and>
    ref_bytes (split ! kFormatVersion env) = b # tail"
  then show "first_phase env (split[kFormatVersion env := \<lparr>ref_begin = p, ref_bytes = [b]\<rparr>]) ds1 =
      first_phase env split ds1"
    by (intro first_phase_version_tail) simp_all
qed

text \<open>
  The theorem at a file of two bytes with a wrong second byte, at a file whose only
  section is a FormatVersion section holding the byte 1, and at the sections of a file
  whose FormatVersion section, the last of the file, holds the bytes 0 and 5.
\<close>

lemma unsupported_version_sections:
  "ReadSections sample_environment \<lparr>ref_begin = 2, ref_bytes = [0, 1, 1]\<rparr> =
     (Inr (\<lparr>ref_begin = 4, ref_bytes = [1]\<rparr> # replicate 11 empty_ref),
      [Warning ''Missing AttributeTypes, AttributeNames or RegisterTypes sections.''])"
  by (simp add: sections_defs reader_defs sample_environment_def numeral_unfolds)

lemma long_version_first_phase:
  "first_phase sample_environment
     [\<lparr>ref_begin = 13, ref_bytes = [0, 5]\<rparr>, empty_ref, empty_ref, empty_ref, empty_ref,
      \<lparr>ref_begin = 7, ref_bytes = [0]\<rparr>, \<lparr>ref_begin = 4, ref_bytes = [0]\<rparr>,
      \<lparr>ref_begin = 10, ref_bytes = [0]\<rparr>, empty_ref, empty_ref, empty_ref, empty_ref] [] =
   (Inr empty_file, [])"
  by (simp add: tables_defs sections_defs reader_defs sample_environment_def numeral_unfolds)

theorem magic_and_first_version_byte_decide_witness:
  "ConvertBEFToMLIR sample_environment CallerLoc [0x0B, 0x00]
     = (Inl Failed, [Error ''Invalid BEF file header.'']) \<and>
   ConvertBEFToMLIR sample_environment CallerLoc [0x0B, 0xEF, 0, 1, 1]
     = (Inl Failed, [Warning ''Missing AttributeTypes, AttributeNames or RegisterTypes sections.'',
                     Error ''Invalid BEF version.'']) \<and>
   first_phase sample_environment
     [\<lparr>ref_begin = 13, ref_bytes = [0]\<rparr>, empty_ref, empty_ref, empty_ref, empty_ref,
      \<lparr>ref_begin = 7, ref_bytes = [0]\<rparr>, \<lparr>ref_begin = 4, ref_bytes = [0]\<rparr>,
      \<lparr>ref_begin = 10, ref_bytes = [0]\<rparr>, empty_ref, empty_ref, empty_ref, empty_ref] [] =
   (Inr empty_file, [])"
proof -
  let ?sections = "\<lparr>ref_begin = 4, ref_bytes = [1]\<rparr> # replicate 11 empty_ref"
  let ?ds = "[Warning ''Missing AttributeTypes, AttributeNames or RegisterTypes sections.'']"
  let ?split = "[\<lparr>ref_begin = 13, ref_bytes = [0, 5]\<rparr>, empty_ref, empty_ref, empty_ref, empty_ref,
      \<lparr>ref_begin = 7, ref_bytes = [0]\<rparr>, \<lparr>ref_begin = 4, ref_bytes = [0]\<rparr>,
      \<lparr>ref_begin = 10, ref_bytes = [0::u8]\<rparr>, empty_ref, empty_ref, empty_ref, empty_ref]"
  note t1 = magic_and_first_version_byte_decide
    [where bytes = "[0x0B, 0x00]" and env = sample_environment and loc = CallerLoc]
  note t2 = magic_and_first_version_byte_decide
    [where bytes = "[0x0B, 0xEF, 0, 1, 1]" and env = sample_environment and loc = CallerLoc
       and rest = "[0, 1, 1]" and sections = ?sections and ds = ?ds
       and payload = "\<lparr>ref_begin = 4, ref_bytes = [1]\<rparr>"
       and split = ?split and b = 0 and tail = "[5]" and p = 13 and ?ds1.0 = "[]"]
  have "\<not> (\<exists>rest. [0x0B, 0x00] = kBEFMagic1 sample_environment # kBEFMagic2 sample_environment # rest)"
    by (simp add: sample_environment_def)
  with t1 have 1: "ConvertBEFToMLIR sample_environment CallerLoc [0x0B, 0x00]
     = (Inl Failed, [Error ''Invalid BEF file header.''])"
    by blast
  have "[0x0B, 0xEF, 0, 1, 1] = kBEFMagic1 sample_environment # kBEFMagic2 sample_environment # [0, 1, 1] \<and>
      ReadSections sample_environment \<lparr>ref_begin = 2, ref_bytes = [0, 1, 1]\<rparr> = (Inr ?sections, ?ds) \<and>
      BEFSections_Get ?sections (kFormatVersion sample_environment) = Inr \<lparr>ref_begin = 4, ref_bytes = [1]\<rparr> \<and>
      (ref_bytes \<lparr>ref_begin = 4, ref_bytes = [1::u8]\<rparr> = [] \<or>
       hd (ref_bytes \<lparr>ref_begin = 4, ref_bytes = [1::u8]\<rparr>) \<noteq> kBEFVersion0 sample_environment)"
    by (simp add: unsupported_version_sections) (simp add: sample_environment_def BEFSections_Get_def)
  with t2 have "ConvertBEFToMLIR sample_environment CallerLoc [0x0B, 0xEF, 0, 1, 1] =
      (Inl Failed, ?ds @ [Error ''Invalid BEF version.''])"
    by blast
  then have 2: "ConvertBEFToMLIR sample_environment CallerLoc [0x0B, 0xEF, 0, 1, 1]
     = (Inl Failed, [Warning ''Missing AttributeTypes, AttributeNames or RegisterTypes sections.'',
                     Error ''Invalid BEF version.''])"
    by simp
  have "kFormatVersion sample_environment < length ?split \<and>
    kFormatVersion sample_environment \<notin> {kLocationFilenames sample_environment,
       kLocationPositions sample_environment, kStrings sample_environment,
       kTypes sample_environment, kAttributes sample_environment,
       kAttributeTypes sample_environment, kKernels sample_environment,
       kFunctionIndex sample_environment} \<and>
    ref_bytes (?split ! kFormatVersion sample_environment) = 0 # [5]"
    by (simp add: sample_environment_def)
  with t2 have "first_phase sample_environment
      (?split[kFormatVersion sample_environment := \<lparr>ref_begin = 13, ref_bytes = [0]\<rparr>]) [] =
      first_phase sample_environment ?split []"
    by blast
  with long_version_first_phase have 3: "first_phase sample_environment
     [\<lparr>ref_begin = 13, ref_bytes = [0]\<rparr>, empty_ref, empty_ref, empty_ref, empty_ref,
      \<lparr>ref_begin = 7, ref_bytes = [0]\<rparr>, \<lparr>ref_begin = 4, ref_bytes = [0]\<rparr>,
      \<lparr>ref_begin = 10, ref_bytes = [0]\<rparr>, empty_ref, empty_ref, empty_ref, empty_ref] [] =
   (Inr empty_file, [])"
    by (simp add: sample_environment_def)
  from 1 2 3 show ?thesis
    by blast
qed

text \<open>
  Against claim C9 as stated: a file whose FormatVersion section holds two bytes, the
  supported version 0 and then 5, is decoded.
\<close>

theorem format_version_of_two_bytes_decodes:
  "ConvertBEFToMLIR sample_environment CallerLoc
     [0x0B, 0xEF, 6, 1, 0, 5, 1, 0, 7, 1, 0, 0, 2, 0, 5]
     = (Inr \<lparr>module_location = CallerLoc, module_functions = [], module_operations = []\<rparr>,
        [Warning ''Missing AttributeTypes, AttributeNames or RegisterTypes sections.''])"
  by (simp add: convert_defs tables_defs sections_defs reader_defs sample_environment_def
        numeral_unfolds)


subsection \<open>Malformed sections\<close>

lemma first_phase_Inr:
  assumes "first_phase env sections ds = (Inr file7, ds2)"
  shows "\<exists>format_version s1 file1 s2 file2 s3 file3 s4 file4 s5 s6 attributes_result file5 ds5 s7 file6 s8.
      BEFSections_Get sections (kFormatVersion env) = Inr format_version \<and>
      ReadFormatVersion env format_version \<and>
      BEFSections_Get sections (kLocationFilenames env) = Inr s1 \<and>
      ReadLocationFilenames s1 empty_file = Some file1 \<and>
      BEFSections_Get sections (kLocationPositions env) = Inr s2 \<and>
      ReadLocationPositions s2 file1 = Some file2 \<and>
      BEFSections_Get sections (kStrings env) = Inr s3 \<and>
      ReadStrings s3 file2 = Some file3 \<and>
      BEFSections_Get sections (kTypes env) = Inr s4 \<and>
      ReadTypes env s4 file3 = Inr file4 \<and>
      BEFSections_Get sections (kAttributes env) = Inr s5 \<and>
      BEFSections_Get sections (kAttributeTypes env) = Inr s6 \<and>
      ReadAttributes env s5 s6 file4 = (attributes_result, file5, ds5) \<and>
      attributes_result \<noteq> Inl Crashed \<and>
      BEFSections_Get sections (kKernels env) = Inr s7 \<and>
      Converter_ReadKernels env s7 file5 = Inr file6 \<and>
      BEFSections_Get sections (kFunctionIndex env) = Inr s8 \<and>
      ReadFunctionIndex env s8 file6 = Inr file7 \<and>
      ds2 = ds @ ds5 @ attributes_warning attributes_result"
  using assms unfolding first_phase_def emit_error_def
  by (auto split: sum.splits option.splits prod.splits if_splits)

lemma ConvertBEFToMLIR_Inr:
  assumes "ConvertBEFToMLIR env loc bytes = (Inr m, ds)"
  shows "\<exists>file_reader sections ds1 file7 ds2 functions_section names_section types_section
        regions st funcs ops ds3.
      ReadHeader env \<lparr>ref_begin = 0, ref_bytes = bytes\<rparr> = Some file_reader \<and>
      ReadSections env file_reader = (Inr sections, ds1) \<and>
      first_phase env sections ds1 = (Inr file7, ds2) \<and>
      BEFSections_Get sections (kFunctions env) = Inr functions_section \<and>
      BEFSections_Get sections (kAttributeNames env) = Inr names_section \<and>
      BEFSections_Get sections (kRegisterTypes env) = Inr types_section \<and>
      ReadFunctions env file7 functions_section names_section types_section = (Inr regions, st) \<and>
      ResolveFunctions env file7 regions (region_references st) (operations st)
        = (Inr (funcs, ops), ds3) \<and>
      m = \<lparr>module_location = loc, module_functions = funcs, module_operations = ops\<rparr> \<and>
      ds = ds2 @ diagnostics st @ ds3"
  using assms unfolding ConvertBEFToMLIR_def emit_error_def
  by (auto split: sum.splits option.splits prod.splits if_splits)

lemma attributes_warning_cases:
  "attributes_result \<noteq> Inl Crashed \<Longrightarrow>
     attributes_warning attributes_result =
       (if attributes_result = Inl Failed
        then [Warning ''Invalid Attributes/AttributeTypes section.''] else [])"
  by (cases attributes_result) (auto simp: attributes_warning_def intro: failure.exhaust)

lemma ConvertBEFToMLIR_module:
  assumes "ReadHeader env \<lparr>ref_begin = 0, ref_bytes = bytes\<rparr> = Some file_reader"
    and "ReadSections env file_reader = (Inr sections, ds1)"
    and "BEFSections_Get sections (kFormatVersion env) = Inr format_version"
    and "ReadFormatVersion env format_version"
    and "BEFSections_Get sections (kLocationFilenames env) = Inr s1"
    and "ReadLocationFilenames s1 empty_file = Some file1"
    and "BEFSections_Get sections (kLocationPositions env) = Inr s2"
    and "ReadLocationPositions s2 file1 = Some file2"
    and "BEFSections_Get sections (kStrings env) = Inr s3"
    and "ReadStrings s3 file2 = Some file3"
    and "BEFSections_Get sections (kTypes env) = Inr s4"
    and "ReadTypes env s4 file3 = Inr file4"
    and "BEFSections_Get sections (kAttributes env) = Inr s5"
    and "BEFSections_Get sections (kAttributeTypes env) = Inr s6"
    and "ReadAttributes env s5 s6 file4 = (attributes_result, file5, ds5)"
    and "attributes_result \<noteq> Inl Crashed"
    and "BEFSections_Get sections (kKernels env) = Inr s7"
    and "Converter_ReadKernels env s7 file5 = Inr file6"
    and "BEFSections_Get sections (kFunctionIndex env) = Inr s8"
    and "ReadFunctionIndex env s8 file6 = Inr file7"
    and "BEFSections_Get sections (kFunctions env) = Inr functions_section"
    and "BEFSections_Get sections (kAttributeNames env) = Inr names_section"
    and "BEFSections_Get sections (kRegisterTypes env) = Inr types_section"
    and "ReadFunctions env file7 functions_section names_section types_section = (Inr regions, st)"
    and "ResolveFunctions env file7 regions (region_references st) (operations st) =
        (Inr (funcs, ops), ds3)"
    and "m = \<lparr>module_location = loc, module_functions = funcs, module_operations = ops\<rparr>"
    and "ds = ds1 @ ds5 @
        (if attributes_result = Inl Failed
         then [Warning ''Invalid Attributes/AttributeTypes section.''] else []) @
        diagnostics st @ ds3"
  shows "ConvertBEFToMLIR env loc bytes = (Inr m, ds)"
proof -
  from assms(3-20) have "first_phase env sections ds1 =
      (Inr file7, ds1 @ ds5 @ attributes_warning attributes_result)"
    by (simp add: first_phase_def)
  with assms(1,2,16,21-27) show ?thesis
    by (simp add: ConvertBEFToMLIR_def attributes_warning_cases)
qed

text \<open>The attribute types run out: in the count, or in the records.\<close>

lemma ReadAttributes_truncated_count:
  "ref_bytes s6 \<noteq> [] \<Longrightarrow> fst (ReadInt s6) = None \<Longrightarrow>
     ReadAttributes env s5 s6 bef_file = (Inl Failed, bef_file, [])"
  by (cases "ReadInt s6") (simp add: ReadAttributes_def)

lemma ReadAttributes_loop_truncated:
  assumes "fst (ReadIntArray_items (2 * n) r) = None"
    and "\<forall>f bs t off. fst (ReadAttribute env f bs t off) \<noteq> None"
  shows "fst (ReadAttributes_loop env attribute_bytes n r bef_file) = Inl Failed"
  using assms(1)
proof (induction n arbitrary: r bef_file)
  case 0
  then show ?case by simp
next
  case (Suc n)
  obtain o1 r1 where 1: "ReadInt r = (o1, r1)"
    by (cases "ReadInt r")
  obtain o2 r2 where 2: "ReadInt r1 = (o2, r2)"
    by (cases "ReadInt r1")
  show ?case
  proof (cases o1)
    case None
    with 1 show ?thesis by simp
  next
    case offset: (Some offset)
    show ?thesis
    proof (cases o2)
      case None
      with 1 2 offset show ?thesis by simp
    next
      case attribute_type: (Some attribute_type)
      obtain oa ds where a: "ReadAttribute env bef_file attribute_bytes attribute_type offset = (oa, ds)"
        by (cases "ReadAttribute env bef_file attribute_bytes attribute_type offset")
      with assms(2) obtain attr where attr: "oa = Some attr"
        by (metis fst_conv not_None_eq)
      from Suc.prems 1 2 offset attribute_type
      have "fst (ReadIntArray_items (2 * n) r2) = None"
        by (auto split: prod.splits option.splits)
      from Suc.IH [OF this, of "bef_file\<lparr>bef_attributes :=
          DenseMap_insert (bef_attributes bef_file) offset attr\<rparr>"]
        1 2 offset attribute_type a attr show ?thesis
        by (auto split: prod.splits)
    qed
  qed
qed

text \<open>
  Claim C7, as the code has it. Decoding produces a module exactly when the header, the
  section headers, the format version, the location filenames and positions, the
  strings, the types, the kernel names, the function index, the functions and the
  resolution of the functions all succeed and \<^verbatim>\<open>ReadAttributes\<close> does not crash: a failure
  of any of these readers ends the decode without a module, and a failure of
  \<^verbatim>\<open>ReadAttributes\<close> does not: the decode goes on with the attributes read so far, and the
  diagnostics carry the warning \<^verbatim>\<open>Invalid Attributes/AttributeTypes section.\<close> in its
  place. \<^verbatim>\<open>ReadAttributes\<close> fails when the count of a non-empty AttributeTypes section
  is truncated, and, with a decoder of attributes that returns, when the section holds
  fewer than the two integers per record that its count announces.
\<close>

theorem only_attribute_failures_are_survived:
  "(ConvertBEFToMLIR env loc bytes = (Inr m, ds)) =
     (\<exists>file_reader sections ds1 format_version s1 file1 s2 file2 s3 file3 s4 file4 s5 s6
        attributes_result file5 ds5 s7 file6 s8 file7 functions_section names_section
        types_section regions st funcs ops ds3.
      ReadHeader env \<lparr>ref_begin = 0, ref_bytes = bytes\<rparr> = Some file_reader \<and>
      ReadSections env file_reader = (Inr sections, ds1) \<and>
      BEFSections_Get sections (kFormatVersion env) = Inr format_version \<and>
      ReadFormatVersion env format_version \<and>
      BEFSections_Get sections (kLocationFilenames env) = Inr s1 \<and>
      ReadLocationFilenames s1 empty_file = Some file1 \<and>
      BEFSections_Get sections (kLocationPositions env) = Inr s2 \<and>
      ReadLocationPositions s2 file1 = Some file2 \<and>
      BEFSections_Get sections (kStrings env) = Inr s3 \<and>
      ReadStrings s3 file2 = Some file3 \<and>
      BEFSections_Get sections (kTypes env) = Inr s4 \<and>
      ReadTypes env s4 file3 = Inr file4 \<and>
      BEFSections_Get sections (kAttributes env) = Inr s5 \<and>
      BEFSections_Get sections (kAttributeTypes env) = Inr s6 \<and>
      ReadAttributes env s5 s6 file4 = (attributes_result, file5, ds5) \<and>
      attributes_result \<noteq> Inl Crashed \<and>
      BEFSections_Get sections (kKernels env) = Inr s7 \<and>
      Converter_ReadKernels env s7 file5 = Inr file6 \<and>
      BEFSections_Get sections (kFunctionIndex env) = Inr s8 \<and>
      ReadFunctionIndex env s8 file6 = Inr file7 \<and>
      BEFSections_Get sections (kFunctions env) = Inr functions_section \<and>
      BEFSections_Get sections (kAttributeNames env) = Inr names_section \<and>
      BEFSections_Get sections (kRegisterTypes env) = Inr types_section \<and>
      ReadFunctions env file7 functions_section names_section types_section = (Inr regions, st) \<and>
      ResolveFunctions env file7 regions (region_references st) (operations st) =
        (Inr (funcs, ops), ds3) \<and>
      m = \<lparr>module_location = loc, module_functions = funcs, module_operations = ops\<rparr> \<and>
      ds = ds1 @ ds5 @
        (if attributes_result = Inl Failed
         then [Warning ''Invalid Attributes/AttributeTypes section.''] else []) @
        diagnostics st @ ds3) \<and>
   (ref_bytes t6 \<noteq> [] \<and> fst (ReadInt t6) = None \<longrightarrow>
      ReadAttributes env t5 t6 bef_file = (Inl Failed, bef_file, [])) \<and>
   (ref_bytes t6 \<noteq> [] \<and> ReadInt t6 = (Some n, r1) \<and>
    fst (ReadIntArray_items (2 * n) r1) = None \<and>
    (\<forall>f bs t off. fst (ReadAttribute env f bs t off) \<noteq> None) \<longrightarrow>
      fst (ReadAttributes env t5 t6 bef_file) = Inl Failed)"
proof (intro conjI impI iffI)
  assume a: "ConvertBEFToMLIR env loc bytes = (Inr m, ds)"
  from ConvertBEFToMLIR_Inr [OF a]
  obtain file_reader sections ds1 file7 ds2 functions_section names_section types_section
        regions st funcs ops ds3 where c:
      "ReadHeader env \<lparr>ref_begin = 0, ref_bytes = bytes\<rparr> = Some file_reader"
      "ReadSections env file_reader = (Inr sections, ds1)"
      "first_phase env sections ds1 = (Inr file7, ds2)"
      "BEFSections_Get sections (kFunctions env) = Inr functions_section"
      "BEFSections_Get sections (kAttributeNames env) = Inr names_section"
      "BEFSections_Get sections (kRegisterTypes env) = Inr types_section"
      "ReadFunctions env file7 functions_section names_section types_section = (Inr regions, st)"
      "ResolveFunctions env file7 regions (region_references st) (operations st)
        = (Inr (funcs, ops), ds3)"
      "m = \<lparr>module_location = loc, module_functions = funcs, module_operations = ops\<rparr>"
      "ds = ds2 @ diagnostics st @ ds3"
    by blast
  from first_phase_Inr [OF c(3)]
  obtain format_version s1 file1 s2 file2 s3 file3 s4 file4 s5 s6 attributes_result file5 ds5 s7 file6 s8
    where p:
      "BEFSections_Get sections (kFormatVersion env) = Inr format_version"
      "ReadFormatVersion env format_version"
      "BEFSections_Get sections (kLocationFilenames env) = Inr s1"
      "ReadLocationFilenames s1 empty_file = Some file1"
      "BEFSections_Get sections (kLocationPositions env) = Inr s2"
      "ReadLocationPositions s2 file1 = Some file2"
      "BEFSections_Get sections (kStrings env) = Inr s3"
      "ReadStrings s3 file2 = Some file3"
      "BEFSections_Get sections (kTypes env) = Inr s4"
      "ReadTypes env s4 file3 = Inr file4"
      "BEFSections_Get sections (kAttributes env) = Inr s5"
      "BEFSections_Get sections (kAttributeTypes env) = Inr s6"
      "ReadAttributes env s5 s6 file4 = (attributes_result, file5, ds5)"
      "attributes_result \<noteq> Inl Crashed"
      "BEFSections_Get sections (kKernels env) = Inr s7"
      "Converter_ReadKernels env s7 file5 = Inr file6"
      "BEFSections_Get sections (kFunctionIndex env) = Inr s8"
      "ReadFunctionIndex env s8 file6 = Inr file7"
      "ds2 = ds1 @ ds5 @ attributes_warning attributes_result"
    by blast
  from c(10) p(19) attributes_warning_cases [OF p(14)]
  have d: "ds = ds1 @ ds5 @
        (if attributes_result = Inl Failed
         then [Warning ''Invalid Attributes/AttributeTypes section.''] else []) @
        diagnostics st @ ds3"
    by simp
  from c(1,2) p(1-18) c(4-9) d
  show "\<exists>file_reader sections ds1 format_version s1 file1 s2 file2 s3 file3 s4 file4 s5 s6
        attributes_result file5 ds5 s7 file6 s8 file7 functions_section names_section
        types_section regions st funcs ops ds3.
      ReadHeader env \<lparr>ref_begin = 0, ref_bytes = bytes\<rparr> = Some file_reader \<and>
      ReadSections env file_reader = (Inr sections, ds1) \<and>
      BEFSections_Get sections (kFormatVersion env) = Inr format_version \<and>
      ReadFormatVersion env format_version \<and>
      BEFSections_Get sections (kLocationFilenames env) = Inr s1 \<and>
      ReadLocationFilenames s1 empty_file = Some file1 \<and>
      BEFSections_Get sections (kLocationPositions env) = Inr s2 \<and>
      ReadLocationPositions s2 file1 = Some file2 \<and>
      BEFSections_Get sections (kStrings env) = Inr s3 \<and>
      ReadStrings s3 file2 = Some file3 \<and>
      BEFSections_Get sections (kTypes env) = Inr s4 \<and>
      ReadTypes env s4 file3 = Inr file4 \<and>
      BEFSections_Get sections (kAttributes env) = Inr s5 \<and>
      BEFSections_Get sections (kAttributeTypes env) = Inr s6 \<and>
      ReadAttributes env s5 s6 file4 = (attributes_result, file5, ds5) \<and>
      attributes_result \<noteq> Inl Crashed \<and>
      BEFSections_Get sections (kKernels env) = Inr s7 \<and>
      Converter_ReadKernels env s7 file5 = Inr file6 \<and>
      BEFSections_Get sections (kFunctionIndex env) = Inr s8 \<and>
      ReadFunctionIndex env s8 file6 = Inr file7 \<and>
      BEFSections_Get sections (kFunctions env) = Inr functions_section \<and>
      BEFSections_Get sections (kAttributeNames env) = Inr names_section \<and>
      BEFSections_Get sections (kRegisterTypes env) = Inr types_section \<and>
      ReadFunctions env file7 functions_section names_section types_section = (Inr regions, st) \<and>
      ResolveFunctions env file7 regions (region_references st) (operations st) =
        (Inr (funcs, ops), ds3) \<and>
      m = \<lparr>module_location = loc, module_functions = funcs, module_operations = ops\<rparr> \<and>
      ds = ds1 @ ds5 @
        (if attributes_result = Inl Failed
         then [Warning ''Invalid Attributes/AttributeTypes section.''] else []) @
        diagnostics st @ ds3"
    by (intro exI conjI) assumption+
next
  assume "\<exists>file_reader sections ds1 format_version s1 file1 s2 file2 s3 file3 s4 file4 s5 s6
        attributes_result file5 ds5 s7 file6 s8 file7 functions_section names_section
        types_section regions st funcs ops ds3.
      ReadHeader env \<lparr>ref_begin = 0, ref_bytes = bytes\<rparr> = Some file_reader \<and>
      ReadSections env file_reader = (Inr sections, ds1) \<and>
      BEFSections_Get sections (kFormatVersion env) = Inr format_version \<and>
      ReadFormatVersion env format_version \<and>
      BEFSections_Get sections (kLocationFilenames env) = Inr s1 \<and>
      ReadLocationFilenames s1 empty_file = Some file1 \<and>
      BEFSections_Get sections (kLocationPositions env) = Inr s2 \<and>
      ReadLocationPositions s2 file1 = Some file2 \<and>
      BEFSections_Get sections (kStrings env) = Inr s3 \<and>
      ReadStrings s3 file2 = Some file3 \<and>
      BEFSections_Get sections (kTypes env) = Inr s4 \<and>
      ReadTypes env s4 file3 = Inr file4 \<and>
      BEFSections_Get sections (kAttributes env) = Inr s5 \<and>
      BEFSections_Get sections (kAttributeTypes env) = Inr s6 \<and>
      ReadAttributes env s5 s6 file4 = (attributes_result, file5, ds5) \<and>
      attributes_result \<noteq> Inl Crashed \<and>
      BEFSections_Get sections (kKernels env) = Inr s7 \<and>
      Converter_ReadKernels env s7 file5 = Inr file6 \<and>
      BEFSections_Get sections (kFunctionIndex env) = Inr s8 \<and>
      ReadFunctionIndex env s8 file6 = Inr file7 \<and>
      BEFSections_Get sections (kFunctions env) = Inr functions_section \<and>
      BEFSections_Get sections (kAttributeNames env) = Inr names_section \<and>
      BEFSections_Get sections (kRegisterTypes env) = Inr types_section \<and>
      ReadFunctions env file7 functions_section names_section types_section = (Inr regions, st) \<and>
      ResolveFunctions env file7 regions (region_references st) (operations st) =
        (Inr (funcs, ops), ds3) \<and>
      m = \<lparr>module_location = loc, module_functions = funcs, module_operations = ops\<rparr> \<and>
      ds = ds1 @ ds5 @
        (if attributes_result = Inl Failed
         then [Warning ''Invalid Attributes/AttributeTypes section.''] else []) @
        diagnostics st @ ds3"
  then show "ConvertBEFToMLIR env loc bytes = (Inr m, ds)"
    by (elim exE conjE) (rule ConvertBEFToMLIR_module)
next
  assume "ref_bytes t6 \<noteq> [] \<and> fst (ReadInt t6) = None"
  then show "ReadAttributes env t5 t6 bef_file = (Inl Failed, bef_file, [])"
    by (simp add: ReadAttributes_truncated_count)
next
  assume "ref_bytes t6 \<noteq> [] \<and> ReadInt t6 = (Some n, r1) \<and>
    fst (ReadIntArray_items (2 * n) r1) = None \<and>
    (\<forall>f bs t off. fst (ReadAttribute env f bs t off) \<noteq> None)"
  then show "fst (ReadAttributes env t5 t6 bef_file) = Inl Failed"
    by (simp add: ReadAttributes_def ReadAttributes_loop_truncated)
qed

text \<open>
  The theorem at a file with empty Types, Kernels and FunctionIndex tables whose
  AttributeTypes section announces one record and holds only its offset:
  \<^verbatim>\<open>ReadAttributes\<close> fails, and the file is decoded, with the warning. The last line is
  \<^verbatim>\<open>ReadAttributes\<close> on a count of which only a byte with the continuation bit is there.
\<close>

theorem only_attribute_failures_are_survived_witness:
  "ConvertBEFToMLIR sample_environment CallerLoc [0x0B, 0xEF, 0, 1, 0, 6, 1, 0, 5, 1, 0, 7, 1, 0, 9, 2, 1, 0] =
     (Inr \<lparr>module_location = CallerLoc, module_functions = [], module_operations = []\<rparr>,
      [Warning ''Missing AttributeTypes, AttributeNames or RegisterTypes sections.'',
       Warning ''Invalid Attributes/AttributeTypes section.'']) \<and>
   ReadAttributes sample_environment empty_ref \<lparr>ref_begin = 16, ref_bytes = [1, 0]\<rparr> empty_file =
     (Inl Failed, empty_file, []) \<and>
   fst (ReadAttributes sample_environment empty_ref \<lparr>ref_begin = 16, ref_bytes = [1, 0]\<rparr> empty_file) =
     Inl Failed \<and>
   ReadAttributes sample_environment empty_ref \<lparr>ref_begin = 16, ref_bytes = [0x80]\<rparr> empty_file =
     (Inl Failed, empty_file, [])"
proof -
  let ?sections = "[\<lparr>ref_begin = 4, ref_bytes = [0]\<rparr>, empty_ref, empty_ref, empty_ref, empty_ref,
         \<lparr>ref_begin = 10, ref_bytes = [0]\<rparr>, \<lparr>ref_begin = 7, ref_bytes = [0]\<rparr>,
         \<lparr>ref_begin = 13, ref_bytes = [0]\<rparr>, empty_ref, \<lparr>ref_begin = 16, ref_bytes = [1, 0]\<rparr>,
         empty_ref, empty_ref]"
  note t = only_attribute_failures_are_survived
    [where env = sample_environment and loc = CallerLoc
       and bytes = "[0x0B, 0xEF, 0, 1, 0, 6, 1, 0, 5, 1, 0, 7, 1, 0, 9, 2, 1, 0]"
       and m = "\<lparr>module_location = CallerLoc, module_functions = [], module_operations = []\<rparr>"
       and ds = "[Warning ''Missing AttributeTypes, AttributeNames or RegisterTypes sections.'',
                  Warning ''Invalid Attributes/AttributeTypes section.'']"
       and ?t5.0 = empty_ref and bef_file = empty_file]
  have c1: "ReadHeader sample_environment \<lparr>ref_begin = 0, ref_bytes = [0x0B, 0xEF, 0, 1, 0, 6, 1, 0, 5, 1, 0, 7, 1, 0, 9, 2, 1, 0]\<rparr> =
       Some \<lparr>ref_begin = 2, ref_bytes = [0, 1, 0, 6, 1, 0, 5, 1, 0, 7, 1, 0, 9, 2, 1, 0]\<rparr>"
    by (simp add: convert_defs tables_defs sections_defs reader_defs sample_environment_def
          numeral_unfolds start_state_def)
  have c2: "ReadSections sample_environment \<lparr>ref_begin = 2, ref_bytes = [0, 1, 0, 6, 1, 0, 5, 1, 0, 7, 1, 0, 9, 2, 1, 0]\<rparr> =
       (Inr ?sections, [Warning ''Missing AttributeTypes, AttributeNames or RegisterTypes sections.''])"
    by (simp add: convert_defs tables_defs sections_defs reader_defs sample_environment_def
          numeral_unfolds start_state_def)
  have c3: "BEFSections_Get ?sections (kFormatVersion sample_environment) = Inr \<lparr>ref_begin = 4, ref_bytes = [0]\<rparr>"
    by (simp add: convert_defs tables_defs sections_defs reader_defs sample_environment_def
          numeral_unfolds start_state_def)
  have c4: "ReadFormatVersion sample_environment \<lparr>ref_begin = 4, ref_bytes = [0]\<rparr>"
    by (simp add: convert_defs tables_defs sections_defs reader_defs sample_environment_def
          numeral_unfolds start_state_def)
  have c5: "BEFSections_Get ?sections (kLocationFilenames sample_environment) = Inr empty_ref"
    by (simp add: convert_defs tables_defs sections_defs reader_defs sample_environment_def
          numeral_unfolds start_state_def)
  have c6: "ReadLocationFilenames empty_ref empty_file = Some empty_file"
    by (simp add: convert_defs tables_defs sections_defs reader_defs sample_environment_def
          numeral_unfolds start_state_def)
  have c7: "BEFSections_Get ?sections (kLocationPositions sample_environment) = Inr empty_ref"
    by (simp add: convert_defs tables_defs sections_defs reader_defs sample_environment_def
          numeral_unfolds start_state_def)
  have c8: "ReadLocationPositions empty_ref empty_file = Some empty_file"
    by (simp add: convert_defs tables_defs sections_defs reader_defs sample_environment_def
          numeral_unfolds start_state_def)
  have c9: "BEFSections_Get ?sections (kStrings sample_environment) = Inr empty_ref"
    by (simp add: convert_defs tables_defs sections_defs reader_defs sample_environment_def
          numeral_unfolds start_state_def)
  have c10: "ReadStrings empty_ref empty_file = Some empty_file"
    by (simp add: convert_defs tables_defs sections_defs reader_defs sample_environment_def
          numeral_unfolds start_state_def)
  have c11: "BEFSections_Get ?sections (kTypes sample_environment) = Inr \<lparr>ref_begin = 7, ref_bytes = [0]\<rparr>"
    by (simp add: convert_defs tables_defs sections_defs reader_defs sample_environment_def
          numeral_unfolds start_state_def)
  have c12: "ReadTypes sample_environment \<lparr>ref_begin = 7, ref_bytes = [0]\<rparr> empty_file = Inr empty_file"
    by (simp add: convert_defs tables_defs sections_defs reader_defs sample_environment_def
          numeral_unfolds start_state_def)
  have c13: "BEFSections_Get ?sections (kAttributes sample_environment) = Inr empty_ref"
    by (simp add: convert_defs tables_defs sections_defs reader_defs sample_environment_def
          numeral_unfolds start_state_def)
  have c14: "BEFSections_Get ?sections (kAttributeTypes sample_environment) = Inr \<lparr>ref_begin = 16, ref_bytes = [1, 0]\<rparr>"
    by (simp add: convert_defs tables_defs sections_defs reader_defs sample_environment_def
          numeral_unfolds start_state_def)
  have c15: "ReadAttributes sample_environment empty_ref \<lparr>ref_begin = 16, ref_bytes = [1, 0]\<rparr> empty_file =
       (Inl Failed, empty_file, [])"
    by (simp add: convert_defs tables_defs sections_defs reader_defs sample_environment_def
          numeral_unfolds start_state_def)
  have c16: "(Inl Failed :: failure + unit) \<noteq> Inl Crashed"
    by (simp add: convert_defs tables_defs sections_defs reader_defs sample_environment_def
          numeral_unfolds start_state_def)
  have c17: "BEFSections_Get ?sections (kKernels sample_environment) = Inr \<lparr>ref_begin = 10, ref_bytes = [0]\<rparr>"
    by (simp add: convert_defs tables_defs sections_defs reader_defs sample_environment_def
          numeral_unfolds start_state_def)
  have c18: "Converter_ReadKernels sample_environment \<lparr>ref_begin = 10, ref_bytes = [0]\<rparr> empty_file = Inr empty_file"
    by (simp add: convert_defs tables_defs sections_defs reader_defs sample_environment_def
          numeral_unfolds start_state_def)
  have c19: "BEFSections_Get ?sections (kFunctionIndex sample_environment) = Inr \<lparr>ref_begin = 13, ref_bytes = [0]\<rparr>"
    by (simp add: convert_defs tables_defs sections_defs reader_defs sample_environment_def
          numeral_unfolds start_state_def)
  have c20: "ReadFunctionIndex sample_environment \<lparr>ref_begin = 13, ref_bytes = [0]\<rparr> empty_file = Inr empty_file"
    by (simp add: convert_defs tables_defs sections_defs reader_defs sample_environment_def
          numeral_unfolds start_state_def)
  have c21: "BEFSections_Get ?sections (kFunctions sample_environment) = Inr empty_ref"
    by (simp add: convert_defs tables_defs sections_defs reader_defs sample_environment_def
          numeral_unfolds start_state_def)
  have c22: "BEFSections_Get ?sections (kAttributeNames sample_environment) = Inr empty_ref"
    by (simp add: convert_defs tables_defs sections_defs reader_defs sample_environment_def
          numeral_unfolds start_state_def)
  have c23: "BEFSections_Get ?sections (kRegisterTypes sample_environment) = Inr empty_ref"
    by (simp add: convert_defs tables_defs sections_defs reader_defs sample_environment_def
          numeral_unfolds start_state_def)
  have c24: "ReadFunctions sample_environment empty_file empty_ref empty_ref empty_ref = (Inr [], start_state)"
    by (simp add: convert_defs tables_defs sections_defs reader_defs sample_environment_def
          numeral_unfolds start_state_def)
  have c25: "ResolveFunctions sample_environment empty_file [] (region_references start_state) (operations start_state) =
       (Inr ([], []), [])"
    by (simp add: convert_defs tables_defs sections_defs reader_defs sample_environment_def
          numeral_unfolds start_state_def)
  have c26: "\<lparr>module_location = CallerLoc, module_functions = [], module_operations = []\<rparr> =
       \<lparr>module_location = CallerLoc, module_functions = [], module_operations = []\<rparr>"
    by (simp add: convert_defs tables_defs sections_defs reader_defs sample_environment_def
          numeral_unfolds start_state_def)
  have c27: "[Warning ''Missing AttributeTypes, AttributeNames or RegisterTypes sections.'',
        Warning ''Invalid Attributes/AttributeTypes section.''] =
       [Warning ''Missing AttributeTypes, AttributeNames or RegisterTypes sections.''] @ [] @
       (if (Inl Failed :: failure + unit) = Inl Failed
        then [Warning ''Invalid Attributes/AttributeTypes section.''] else []) @
       diagnostics start_state @ []"
    by (simp add: convert_defs tables_defs sections_defs reader_defs sample_environment_def
          numeral_unfolds start_state_def)
  have "\<exists>file_reader sections ds1 format_version s1 file1 s2 file2 s3 file3 s4 file4 s5 s6
        attributes_result file5 ds5 s7 file6 s8 file7 functions_section names_section
        types_section regions st funcs ops ds3.
      ReadHeader sample_environment \<lparr>ref_begin = 0, ref_bytes = [0x0B, 0xEF, 0, 1, 0, 6, 1, 0, 5, 1, 0, 7, 1, 0, 9, 2, 1, 0]\<rparr> = Some file_reader \<and>
      ReadSections sample_environment file_reader = (Inr sections, ds1) \<and>
      BEFSections_Get sections (kFormatVersion sample_environment) = Inr format_version \<and>
      ReadFormatVersion sample_environment format_version \<and>
      BEFSections_Get sections (kLocationFilenames sample_environment) = Inr s1 \<and>
      ReadLocationFilenames s1 empty_file = Some file1 \<and>
      BEFSections_Get sections (kLocationPositions sample_environment) = Inr s2 \<and>
      ReadLocationPositions s2 file1 = Some file2 \<and>
      BEFSections_Get sections (kStrings sample_environment) = Inr s3 \<and>
      ReadStrings s3 file2 = Some file3 \<and>
      BEFSections_Get sections (kTypes sample_environment) = Inr s4 \<and>
      ReadTypes sample_environment s4 file3 = Inr file4 \<and>
      BEFSections_Get sections (kAttributes sample_environment) = Inr s5 \<and>
      BEFSections_Get sections (kAttributeTypes sample_environment) = Inr s6 \<and>
      ReadAttributes sample_environment s5 s6 file4 = (attributes_result, file5, ds5) \<and>
      attributes_result \<noteq> Inl Crashed \<and>
      BEFSections_Get sections (kKernels sample_environment) = Inr s7 \<and>
      Converter_ReadKernels sample_environment s7 file5 = Inr file6 \<and>
      BEFSections_Get sections (kFunctionIndex sample_environment) = Inr s8 \<and>
      ReadFunctionIndex sample_environment s8 file6 = Inr file7 \<and>
      BEFSections_Get sections (kFunctions sample_environment) = Inr functions_section \<and>
      BEFSections_Get sections (kAttributeNames sample_environment) = Inr names_section \<and>
      BEFSections_Get sections (kRegisterTypes sample_environment) = Inr types_section \<and>
      ReadFunctions sample_environment file7 functions_section names_section types_section = (Inr regions, st) \<and>
      ResolveFunctions sample_environment file7 regions (region_references st) (operations st) =
        (Inr (funcs, ops), ds3) \<and>
      \<lparr>module_location = CallerLoc, module_functions = [], module_operations = []\<rparr> =
        \<lparr>module_location = CallerLoc, module_functions = funcs, module_operations = ops\<rparr> \<and>
      [Warning ''Missing AttributeTypes, AttributeNames or RegisterTypes sections.'',
        Warning ''Invalid Attributes/AttributeTypes section.''] = ds1 @ ds5 @
        (if attributes_result = Inl Failed
         then [Warning ''Invalid Attributes/AttributeTypes section.''] else []) @
        diagnostics st @ ds3"
    by (intro exI conjI)
       (rule c1, rule c2, rule c3, rule c4, rule c5, rule c6, rule c7, rule c8, rule c9, rule c10,
        rule c11, rule c12, rule c13, rule c14, rule c15, rule c16, rule c17, rule c18, rule c19,
        rule c20, rule c21, rule c22, rule c23, rule c24, rule c25, rule c26, rule c27)
  with t [where ?t6.0 = "\<lparr>ref_begin = 16, ref_bytes = [1, 0]\<rparr>" and n = 1
            and ?r1.0 = "\<lparr>ref_begin = 17, ref_bytes = [0]\<rparr>"]
  have 1: "ConvertBEFToMLIR sample_environment CallerLoc [0x0B, 0xEF, 0, 1, 0, 6, 1, 0, 5, 1, 0, 7, 1, 0, 9, 2, 1, 0] =
     (Inr \<lparr>module_location = CallerLoc, module_functions = [], module_operations = []\<rparr>,
      [Warning ''Missing AttributeTypes, AttributeNames or RegisterTypes sections.'',
       Warning ''Invalid Attributes/AttributeTypes section.''])"
    by blast
  have "ref_bytes \<lparr>ref_begin = 16, ref_bytes = [1, 0::u8]\<rparr> \<noteq> [] \<and>
      ReadInt \<lparr>ref_begin = 16, ref_bytes = [1, 0]\<rparr> = (Some 1, \<lparr>ref_begin = 17, ref_bytes = [0]\<rparr>) \<and>
      fst (ReadIntArray_items (2 * 1) \<lparr>ref_begin = 17, ref_bytes = [0]\<rparr>) = None \<and>
      (\<forall>f bs t off. fst (ReadAttribute sample_environment f bs t off) \<noteq> None)"
    by (simp add: reader_defs sample_environment_def numeral_unfolds)
  with t [where ?t6.0 = "\<lparr>ref_begin = 16, ref_bytes = [1, 0]\<rparr>" and n = 1
            and ?r1.0 = "\<lparr>ref_begin = 17, ref_bytes = [0]\<rparr>"]
  have 2: "fst (ReadAttributes sample_environment empty_ref
      \<lparr>ref_begin = 16, ref_bytes = [1, 0]\<rparr> empty_file) = Inl Failed"
    by blast
  have "ref_bytes \<lparr>ref_begin = 16, ref_bytes = [0x80::u8]\<rparr> \<noteq> [] \<and>
      fst (ReadInt \<lparr>ref_begin = 16, ref_bytes = [0x80]\<rparr>) = None"
    by (simp add: reader_defs)
  with t [where ?t6.0 = "\<lparr>ref_begin = 16, ref_bytes = [0x80]\<rparr>"]
  have 3: "ReadAttributes sample_environment empty_ref
      \<lparr>ref_begin = 16, ref_bytes = [0x80]\<rparr> empty_file = (Inl Failed, empty_file, [])"
    by blast
  from 1 c15 2 3 show ?thesis
    by blast
qed

text \<open>
  Against claim C7 as stated: the same file with an AttributeTypes section whose count is
  truncated (one byte with the continuation bit set), and with one whose only record is
  truncated. \<^verbatim>\<open>ReadAttributes\<close> fails on both, and the decode still yields a module, with
  a warning.
\<close>

theorem malformed_attribute_types_yield_module:
  "fst (ReadAttributes sample_environment empty_ref \<lparr>ref_begin = 16, ref_bytes = [0x80]\<rparr>
          empty_file) = Inl Failed \<and>
   ConvertBEFToMLIR sample_environment CallerLoc [0x0B, 0xEF, 0, 1, 0, 6, 1, 0, 5, 1, 0, 7, 1, 0, 9, 1, 0x80]
     = (Inr \<lparr>module_location = CallerLoc, module_functions = [], module_operations = []\<rparr>,
        [Warning ''Missing AttributeTypes, AttributeNames or RegisterTypes sections.'',
       Warning ''Invalid Attributes/AttributeTypes section.'']) \<and>
   fst (ReadAttributes sample_environment empty_ref \<lparr>ref_begin = 16, ref_bytes = [1, 0]\<rparr>
          empty_file) = Inl Failed \<and>
   ConvertBEFToMLIR sample_environment CallerLoc [0x0B, 0xEF, 0, 1, 0, 6, 1, 0, 5, 1, 0, 7, 1, 0, 9, 2, 1, 0]
     = (Inr \<lparr>module_location = CallerLoc, module_functions = [], module_operations = []\<rparr>,
        [Warning ''Missing AttributeTypes, AttributeNames or RegisterTypes sections.'',
       Warning ''Invalid Attributes/AttributeTypes section.''])"
  by (simp add: convert_defs tables_defs sections_defs reader_defs sample_environment_def
        numeral_unfolds)


subsection \<open>Unknown section identifiers\<close>

lemma ReadNextSection_unknown_id:
  assumes "ReadSection r = (Some (section_id, section_data), r1)"
    and "SkipPast section_data r1 = Inr r2"
    and "length sections \<le> unat section_id"
  shows "ReadNextSection sections r = Inl Crashed"
  using assms by (simp add: ReadNextSection_def BEFSections_Set_def)

text \<open>
  Claim C6 does not hold of the code: \<^verbatim>\<open>ReadNextSection\<close> stores every section with
  \<^verbatim>\<open>BEFSections::Set\<close>, whose \<^verbatim>\<open>vector::at\<close> throws for an identifier that is not
  below \<^verbatim>\<open>kNumSectionIDs\<close>. A file whose only section has the identifier 255 and an
  empty payload ends the decode with that exception, before any diagnostic.
\<close>

theorem unknown_section_id_crashes:
  "ConvertBEFToMLIR sample_environment CallerLoc [0x0B, 0xEF, 0xFF, 0] = (Inl Crashed, [])"
  by (simp add: convert_defs sections_defs reader_defs sample_environment_def emit_error_def
        numeral_unfolds)


subsection \<open>What reading a kernel changes\<close>

text \<open>Updates of different fields of the reader state commute; they are kept in field order.\<close>

lemma reader_state_update_order [simp]:
  "(st::reader_state)\<lparr>attribute_names := names, register_table := table\<rparr> = st\<lparr>register_table := table, attribute_names := names\<rparr>"
  "(st::reader_state)\<lparr>register_types := types, register_table := table\<rparr> = st\<lparr>register_table := table, register_types := types\<rparr>"
  "(st::reader_state)\<lparr>operations := ops, register_table := table\<rparr> = st\<lparr>register_table := table, operations := ops\<rparr>"
  "(st::reader_state)\<lparr>region_references := refs, register_table := table\<rparr> = st\<lparr>register_table := table, region_references := refs\<rparr>"
  "(st::reader_state)\<lparr>diagnostics := ds, register_table := table\<rparr> = st\<lparr>register_table := table, diagnostics := ds\<rparr>"
  "(st::reader_state)\<lparr>register_types := types, attribute_names := names\<rparr> = st\<lparr>attribute_names := names, register_types := types\<rparr>"
  "(st::reader_state)\<lparr>operations := ops, attribute_names := names\<rparr> = st\<lparr>attribute_names := names, operations := ops\<rparr>"
  "(st::reader_state)\<lparr>region_references := refs, attribute_names := names\<rparr> = st\<lparr>attribute_names := names, region_references := refs\<rparr>"
  "(st::reader_state)\<lparr>diagnostics := ds, attribute_names := names\<rparr> = st\<lparr>attribute_names := names, diagnostics := ds\<rparr>"
  "(st::reader_state)\<lparr>operations := ops, register_types := types\<rparr> = st\<lparr>register_types := types, operations := ops\<rparr>"
  "(st::reader_state)\<lparr>region_references := refs, register_types := types\<rparr> = st\<lparr>register_types := types, region_references := refs\<rparr>"
  "(st::reader_state)\<lparr>diagnostics := ds, register_types := types\<rparr> = st\<lparr>register_types := types, diagnostics := ds\<rparr>"
  "(st::reader_state)\<lparr>region_references := refs, operations := ops\<rparr> = st\<lparr>operations := ops, region_references := refs\<rparr>"
  "(st::reader_state)\<lparr>diagnostics := ds, operations := ops\<rparr> = st\<lparr>operations := ops, diagnostics := ds\<rparr>"
  "(st::reader_state)\<lparr>diagnostics := ds, region_references := refs\<rparr> = st\<lparr>region_references := refs, diagnostics := ds\<rparr>"
  by (cases st; simp)+

lemma GetKernelEntries_length:
  "GetKernelEntries kern entry_offset n = Inr entries \<Longrightarrow> length entries = n"
  by (auto simp: GetKernelEntries_def split: if_splits)

lemma AddDefinition_Inr:
  assumes "AddDefinition v register_index st = (Inr u, st')"
  shows "0 \<le> int_of_size_t register_index \<and>
         nat (int_of_size_t register_index) < length (register_table st) \<and>
         reg_value (register_table st ! nat (int_of_size_t register_index)) = None \<and>
         st' = st\<lparr>register_table := (register_table st)
                  [nat (int_of_size_t register_index) :=
                     (register_table st ! nat (int_of_size_t register_index))
                       \<lparr>reg_value := Some v\<rparr>]\<rparr>"
  using assms by (auto simp: AddDefinition_def GetRegister_def split: if_splits)

lemma AddDefinition_Inl:
  assumes "AddDefinition v register_index st = (Inl e, st')"
  shows "st' = fail_with ''Redefinition of registers'' e st"
  using assms
  by (auto simp: AddDefinition_def GetRegister_def fail_with_def split: if_splits)

lemma AddDefinitions_Inr:
  assumes "AddDefinitions kern op ts i entry_offset results st = (Inr u, st')"
  shows "attribute_names st' = attribute_names st \<and> register_types st' = register_types st \<and>
         operations st' = operations st \<and> region_references st' = region_references st \<and>
         diagnostics st' = diagnostics st \<and>
         length (register_table st') = length (register_table st)"
  using assms
proof (induction results arbitrary: i entry_offset st)
  case Nil
  then show ?case by simp
next
  case (Cons register_index rest)
  from Cons.prems obtain st1 n reg_info entries where
    d: "AddDefinition (OpResult op i (ts ! i)) register_index st = (Inr (), st1)" and
    r: "AddDefinitions kern op ts (i + 1) (entry_offset + n) rest
          (st1\<lparr>register_table :=
             (register_table st1)[nat (int_of_size_t register_index) :=
                reg_info\<lparr>usedbys := entries\<rparr>]\<rparr>) = (Inr u, st')"
    by (auto split: prod.splits sum.splits)
  from AddDefinition_Inr [OF d] Cons.IH [OF r] show ?case
    by simp
qed

lemma ReadKernel_Inr:
  assumes "ReadKernel env bef_file kernel_words offset st = (Inr op, st')"
  shows "\<exists>kern loc arguments operands special_attribute r1 attribute_offsets attrs r2 functions
           callees num_regions results ts st2.
      BEFKernel kernel_words (offset div kKernelEntryAlignment env) = Inr kern \<and>
      kernel_code kern < length (bef_kernels bef_file) \<and>
      GetLocationPosition bef_file (kernel_location kern) = Some loc \<and>
      GetKernelEntries kern 0 (num_arguments kern) = Inr arguments \<and>
      register_values (register_table st) (map int_of_size_t arguments) = Inr operands \<and>
      ReadByte (attribute_names st) = (special_attribute, r1) \<and>
      GetKernelEntries kern (length arguments) (num_attributes kern) = Inr attribute_offsets \<and>
      ResolveAttributes bef_file 0 attribute_offsets r1 = (attrs, r2) \<and>
      GetKernelEntries kern (length arguments + length attribute_offsets) (num_functions kern)
        = Inr functions \<and>
      ResolveFunctionReferences bef_file functions = Inr (callees, num_regions) \<and>
      GetKernelEntries kern (length arguments + length attribute_offsets + length functions)
        (num_results kern) = Inr results \<and>
      register_result_types (register_table st) (map int_of_size_t results) = Inr ts \<and>
      AddDefinitions kern (length (operations st)) ts 0
        (length arguments + length attribute_offsets + length functions + length results) results
        (st\<lparr>attribute_names := r2,
            operations := operations st @
              [\<lparr>op_name = bef_kernels bef_file ! kernel_code kern,
                op_location = loc,
                op_operands = operands,
                op_attributes =
                  (if special_attribute = Some (kNonStrict env)
                   then [(string_bytes ''bef.nonstrict'', UnitAttr)] else [])
                  @ attrs @ callees,
                op_types = ts,
                op_regions = replicate num_regions []\<rparr>]\<rparr>) = (Inr (), st2) \<and>
      op = length (operations st) \<and>
      st' = (if 0 < num_regions
             then st2\<lparr>region_references :=
                    region_references_insert (region_references st2) (length (operations st))
                      functions\<rparr>
             else st2)"
  using assms unfolding ReadKernel_def
  by (auto split: sum.splits option.splits prod.splits if_splits)


subsection \<open>Attributes of a kernel\<close>

lemma ResolveAttributes_length:
  "ResolveAttributes bef_file i attribute_offsets r = (attrs, r') \<Longrightarrow>
     length attrs = length attribute_offsets"
  by (induction attribute_offsets arbitrary: i r attrs r') (auto split: prod.splits)

lemma ResolveAttributes_values:
  "ResolveAttributes bef_file i attribute_offsets r = (attrs, r') \<Longrightarrow>
     map snd attrs =
       map (\<lambda>offset. case GetAttribute bef_file offset of
                        None \<Rightarrow> dummy_attribute
                      | Some attr \<Rightarrow> attr) attribute_offsets"
  by (induction attribute_offsets arbitrary: i r attrs r') (auto split: prod.splits)

lemma ResolveAttributes_other_table:
  "ResolveAttributes bef_file i attribute_offsets r = (attrs, r') \<Longrightarrow>
     \<exists>attrs'. ResolveAttributes (bef_file\<lparr>bef_attributes := table\<rparr>) i attribute_offsets r
                = (attrs', r')"
proof (induction attribute_offsets arbitrary: i r attrs r')
  case Nil
  then show ?case by simp
next
  case (Cons attribute_offset rest)
  obtain name_offset r1 where r: "ReadInt r = (name_offset, r1)"
    by (cases "ReadInt r")
  obtain attrs1 r2 where a: "ResolveAttributes bef_file (i + 1) rest r1 = (attrs1, r2)"
    by (cases "ResolveAttributes bef_file (i + 1) rest r1")
  from Cons.IH [OF a] obtain attrs1' where
    "ResolveAttributes (bef_file\<lparr>bef_attributes := table\<rparr>) (i + 1) rest r1 = (attrs1', r2)"
    by blast
  with Cons.prems r a show ?case
    by simp
qed

lemma AddDefinition_operations:
  "AddDefinition v register_index st = (res, st') \<Longrightarrow>
     AddDefinition v register_index (st\<lparr>operations := ops\<rparr>) = (res, st'\<lparr>operations := ops\<rparr>)"
  by (auto simp: AddDefinition_def EmitError_def split: sum.splits if_splits)

lemma AddDefinitions_operations:
  "AddDefinitions kern op ts i entry_offset results st = (res, st') \<Longrightarrow>
     AddDefinitions kern op ts i entry_offset results (st\<lparr>operations := ops\<rparr>)
       = (res, st'\<lparr>operations := ops\<rparr>)"
proof (induction results arbitrary: i entry_offset st)
  case Nil
  then show ?case by auto
next
  case (Cons register_index rest)
  obtain res1 st1 where d: "AddDefinition (OpResult op i (ts ! i)) register_index st = (res1, st1)"
    by (cases "AddDefinition (OpResult op i (ts ! i)) register_index st")
  note d' = AddDefinition_operations [OF d, of ops]
  show ?case
  proof (cases res1)
    case (Inl e)
    with d d' Cons.prems show ?thesis
      by auto
  next
    case (Inr u)
    show ?thesis
    proof (cases "num_used_bys kern i")
      case (Inl e)
      with d d' Inr Cons.prems show ?thesis by auto
    next
      case n: (Inr n)
      show ?thesis
      proof (cases "GetRegister (register_table st1) (int_of_size_t register_index)")
        case (Inl e)
        with d d' Inr n Cons.prems show ?thesis by auto
      next
        case g: (Inr reg_info)
        show ?thesis
        proof (cases "GetKernelEntries kern entry_offset n")
          case (Inl e)
          with d d' Inr n g Cons.prems show ?thesis by auto
        next
          case e: (Inr entries)
          let ?st2 = "st1\<lparr>register_table :=
               (register_table st1)[nat (int_of_size_t register_index) :=
                reg_info\<lparr>usedbys := entries\<rparr>]\<rparr>"
          from d Inr n g e Cons.prems
          have "AddDefinitions kern op ts (i + 1) (entry_offset + n) rest ?st2 = (res, st')"
            by simp
          from Cons.IH [OF this]
          have "AddDefinitions kern op ts (i + 1) (entry_offset + n) rest (?st2\<lparr>operations := ops\<rparr>)
                  = (res, st'\<lparr>operations := ops\<rparr>)" .
          with d' Inr n g e show ?thesis
            by simp
        qed
      qed
    qed
  qed
qed


lemma ReadKernel_effect:
  assumes "ReadKernel env bef_file kernel_words offset st = (Inr op, st')"
  shows "\<exists>kern loc arguments operands special_attribute r1 attribute_offsets attrs r2 functions
           callees num_regions results ts.
      BEFKernel kernel_words (offset div kKernelEntryAlignment env) = Inr kern \<and>
      GetKernelEntries kern 0 (num_arguments kern) = Inr arguments \<and>
      register_values (register_table st) (map int_of_size_t arguments) = Inr operands \<and>
      ReadByte (attribute_names st) = (special_attribute, r1) \<and>
      GetKernelEntries kern (num_arguments kern) (num_attributes kern) = Inr attribute_offsets \<and>
      ResolveAttributes bef_file 0 attribute_offsets r1 = (attrs, r2) \<and>
      GetKernelEntries kern (num_arguments kern + num_attributes kern) (num_functions kern)
        = Inr functions \<and>
      ResolveFunctionReferences bef_file functions = Inr (callees, num_regions) \<and>
      GetKernelEntries kern (num_arguments kern + num_attributes kern + num_functions kern)
        (num_results kern) = Inr results \<and>
      register_result_types (register_table st) (map int_of_size_t results) = Inr ts \<and>
      op = length (operations st) \<and>
      operations st' = operations st @
        [\<lparr>op_name = bef_kernels bef_file ! kernel_code kern,
          op_location = loc,
          op_operands = operands,
          op_attributes =
            (if special_attribute = Some (kNonStrict env)
             then [(string_bytes ''bef.nonstrict'', UnitAttr)] else [])
            @ attrs @ callees,
          op_types = ts,
          op_regions = replicate num_regions []\<rparr>] \<and>
      diagnostics st' = diagnostics st \<and>
      attribute_names st' = r2 \<and>
      register_types st' = register_types st \<and>
      region_references st' =
        (if 0 < num_regions
         then region_references_insert (region_references st) (length (operations st)) functions
         else region_references st) \<and>
      length (register_table st') = length (register_table st)"
proof -
  from ReadKernel_Inr [OF assms]
  obtain kern loc arguments operands special_attribute r1 attribute_offsets attrs r2 fns
    callees num_regions results ts st2 where k:
      "BEFKernel kernel_words (offset div kKernelEntryAlignment env) = Inr kern"
      "GetKernelEntries kern 0 (num_arguments kern) = Inr arguments"
      "register_values (register_table st) (map int_of_size_t arguments) = Inr operands"
      "ReadByte (attribute_names st) = (special_attribute, r1)"
      "GetKernelEntries kern (length arguments) (num_attributes kern) = Inr attribute_offsets"
      "ResolveAttributes bef_file 0 attribute_offsets r1 = (attrs, r2)"
      "GetKernelEntries kern (length arguments + length attribute_offsets) (num_functions kern)
        = Inr fns"
      "ResolveFunctionReferences bef_file fns = Inr (callees, num_regions)"
      "GetKernelEntries kern (length arguments + length attribute_offsets + length fns)
        (num_results kern) = Inr results"
      "register_result_types (register_table st) (map int_of_size_t results) = Inr ts"
      "AddDefinitions kern (length (operations st)) ts 0
        (length arguments + length attribute_offsets + length fns + length results) results
        (st\<lparr>attribute_names := r2,
            operations := operations st @
              [\<lparr>op_name = bef_kernels bef_file ! kernel_code kern,
                op_location = loc,
                op_operands = operands,
                op_attributes =
                  (if special_attribute = Some (kNonStrict env)
                   then [(string_bytes ''bef.nonstrict'', UnitAttr)] else [])
                  @ attrs @ callees,
                op_types = ts,
                op_regions = replicate num_regions []\<rparr>]\<rparr>) = (Inr (), st2)"
      "op = length (operations st)"
      "st' = (if 0 < num_regions
             then st2\<lparr>region_references :=
                    region_references_insert (region_references st2) (length (operations st))
                      fns\<rparr>
             else st2)"
    by blast
  note lens = GetKernelEntries_length [OF k(2)] GetKernelEntries_length [OF k(5)]
    GetKernelEntries_length [OF k(7)] GetKernelEntries_length [OF k(9)]
  note frame = AddDefinitions_Inr [OF k(11)]
  from k(5,7,9) lens have e:
    "GetKernelEntries kern (num_arguments kern) (num_attributes kern) = Inr attribute_offsets"
    "GetKernelEntries kern (num_arguments kern + num_attributes kern) (num_functions kern)
        = Inr fns"
    "GetKernelEntries kern (num_arguments kern + num_attributes kern + num_functions kern)
        (num_results kern) = Inr results"
    by simp_all
  from frame k(13) have s:
    "operations st' = operations st @
        [\<lparr>op_name = bef_kernels bef_file ! kernel_code kern,
          op_location = loc,
          op_operands = operands,
          op_attributes =
            (if special_attribute = Some (kNonStrict env)
             then [(string_bytes ''bef.nonstrict'', UnitAttr)] else [])
            @ attrs @ callees,
          op_types = ts,
          op_regions = replicate num_regions []\<rparr>]"
    "diagnostics st' = diagnostics st"
    "attribute_names st' = r2"
    "register_types st' = register_types st"
    "region_references st' =
        (if 0 < num_regions
         then region_references_insert (region_references st) (length (operations st)) fns
         else region_references st)"
    "length (register_table st') = length (register_table st)"
    by (simp_all split: if_splits)
  from k(1,2,3,4) e(1) k(6) e(2) k(8) e(3) k(10) k(12) s show ?thesis
    by (intro exI conjI) assumption+
qed


subsection \<open>The return operation of a function\<close>



lemma ReadKernels_Inr:
  assumes "ReadKernels env bef_file loc kernel_table result_regs kernel_words blk st = (Inr blk', st')"
  obtains r1 st1 blk2 st2 results where
    "(if block_arguments blk = [] then (Inr (), st\<lparr>attribute_names := r1\<rparr>)
      else ReadPseudoOp env kernel_words blk (st\<lparr>attribute_names := r1\<rparr>)) = (Inr (), st1)"
    "ReadKernels_loop env bef_file kernel_words
       (drop (if block_arguments blk = [] then 0 else 1) kernel_table) blk st1 = (Inr blk2, st2)"
    "register_values (register_table st2) result_regs = Inr results"
    "blk' = blk2\<lparr>block_operations := block_operations blk2 @ [length (operations st2)]\<rparr>"
    "st' = st2\<lparr>operations := operations st2 @ [return_op loc results]\<rparr>"
  using assms unfolding ReadKernels_def
  by (auto split: prod.splits sum.splits if_splits option.splits)

lemma ReadFunction_Inr:
  assumes "ReadFunction env bef_file bef_function function_data st0 = (Inr (loc, body), st')"
  obtains location_position_offset r1 r2 st1 kernel_table r3 result_regs r4 r5 blk where
    "ReadInt function_data = (Some location_position_offset, r1)"
    "GetLocationPosition bef_file location_position_offset = Some loc"
    "ReadRegisterTable env bef_file r1 (st0\<lparr>register_table := []\<rparr>) = Inr (r2, st1)"
    "ReadKernelTable r2 = Some (kernel_table, r3)"
    "ReadResultRegs bef_function r3 = Some (result_regs, r4)"
    "ReadAlignment (kKernelEntryAlignment env) r4 = Some r5"
    "ReadKernels env bef_file loc kernel_table result_regs
       (take (length (ref_bytes r5) div kKernelEntryAlignment env) (kernel_stream (ref_bytes r5)))
       \<lparr>block_arguments = argument_types bef_function, block_operations = []\<rparr> st1 = (Inr blk, st')"
    "body = [blk]"
  using assms unfolding ReadFunction_def
  by (auto split: prod.splits sum.splits if_splits option.splits)


subsection \<open>Concrete runs\<close>

lemma sample_kernel_read:
  "ReadKernel sample_environment sample_tables sample_kernel 0 sample_state =
     (Inr 0,
      sample_state
        \<lparr>register_table :=
           [\<lparr>reg_type = NoneType, num_uses = 7, usedbys = [],
             reg_value = Some (OpResult 0 0 NoneType)\<rparr>],
         operations :=
           [\<lparr>op_name = string_bytes ''k'',
             op_location = FileLineColLoc (string_bytes ''f.mlir'') 1 1,
             op_operands = [],
             op_attributes = [(string_bytes ''attr0'', IntegerAttr (IntegerType 32) 0xDEADBEEF)],
             op_types = [NoneType],
             op_regions = []\<rparr>]\<rparr>)"
  by (simp add: sample_tables_def sample_state_def sample_kernel_def function_defs reader_defs
        sample_environment_def numeral_unfolds empty_ref_def)

lemma sample_function_read:
  "ReadFunction sample_environment sample_tables sample_function sample_function_data start_state =
     (Inr (FileLineColLoc (string_bytes ''f.mlir'') 1 1,
           [\<lparr>block_arguments = [], block_operations = [0, 1]\<rparr>]),
      sample_state
        \<lparr>register_table :=
           [\<lparr>reg_type = NoneType, num_uses = 7, usedbys = [],
             reg_value = Some (OpResult 0 0 NoneType)\<rparr>],
         operations := sample_operations\<rparr>)"
  by (simp add: sample_tables_def sample_state_def sample_function_def sample_function_data_def
        start_state_def sample_operations_def function_defs reader_defs sample_environment_def
        numeral_unfolds empty_ref_def)

lemma sample_file_decodes:
  "ConvertBEFToMLIR sample_environment CallerLoc sample_file =
     (Inr \<lparr>module_location = CallerLoc,
           module_functions =
             [\<lparr>func_location = FileLineColLoc (string_bytes ''f.mlir'') 1 1,
               func_name = string_bytes ''main'', func_argument_types = [],
               func_result_types = [NoneType], func_attributes = [],
               func_body = [\<lparr>block_arguments = [], block_operations = [0, 1]\<rparr>]\<rparr>],
           module_operations = sample_operations\<rparr>,
      [Warning ''Missing AttributeTypes, AttributeNames or RegisterTypes sections.''])"
  by (simp add: sample_file_def sample_operations_def convert_defs tables_defs sections_defs
        function_defs reader_defs sample_environment_def numeral_unfolds)

lemma complete_file_decodes:
  "ConvertBEFToMLIR sample_environment CallerLoc complete_file =
     (Inr \<lparr>module_location = CallerLoc,
           module_functions =
             [\<lparr>func_location = FileLineColLoc (string_bytes ''f.mlir'') 1 1,
               func_name = string_bytes ''main'', func_argument_types = [],
               func_result_types = [IntegerType 32], func_attributes = [],
               func_body = [\<lparr>block_arguments = [], block_operations = [0, 1]\<rparr>]\<rparr>],
           module_operations = complete_operations\<rparr>,
      [])"
  by (simp add: complete_file_def sample_file_def complete_operations_def convert_defs tables_defs
        sections_defs function_defs reader_defs sample_environment_def numeral_unfolds)

lemma complete_function_read:
  "ReadFunction sample_environment sample_tables sample_function sample_function_data complete_state =
     (Inr (FileLineColLoc (string_bytes ''f.mlir'') 1 1,
           [\<lparr>block_arguments = [], block_operations = [0, 1]\<rparr>]),
      \<lparr>register_table =
         [\<lparr>reg_type = IntegerType 32, num_uses = 7, usedbys = [],
           reg_value = Some (OpResult 0 0 (IntegerType 32))\<rparr>],
       attribute_names = \<lparr>ref_begin = 105, ref_bytes = []\<rparr>,
       register_types = \<lparr>ref_begin = 110, ref_bytes = []\<rparr>,
       operations = complete_operations, region_references = [], diagnostics = []\<rparr>)"
  by (simp add: complete_state_def complete_operations_def sample_tables_def sample_function_def
        sample_function_data_def function_defs reader_defs sample_environment_def numeral_unfolds)

lemma sample_kernels_read:
  "ReadKernels sample_environment sample_tables CallerLoc [(0, 0)] [0] sample_kernel
     \<lparr>block_arguments = [], block_operations = []\<rparr>
     (sample_state\<lparr>register_table :=
        [\<lparr>reg_type = NoneType, num_uses = n, usedbys = [], reg_value = None\<rparr>]\<rparr>) =
   (Inr \<lparr>block_arguments = [], block_operations = [0, 1]\<rparr>,
    sample_state
      \<lparr>register_table :=
         [\<lparr>reg_type = NoneType, num_uses = n, usedbys = [],
           reg_value = Some (OpResult 0 0 NoneType)\<rparr>],
       operations :=
         [\<lparr>op_name = string_bytes ''k'',
           op_location = FileLineColLoc (string_bytes ''f.mlir'') 1 1,
           op_operands = [],
           op_attributes = [(string_bytes ''attr0'', IntegerAttr (IntegerType 32) 0xDEADBEEF)],
           op_types = [NoneType],
           op_regions = []\<rparr>,
          return_op CallerLoc [OpResult 0 0 NoneType]]\<rparr>)"
  by (simp add: sample_state_def sample_kernel_def sample_tables_def function_defs reader_defs
        sample_environment_def numeral_unfolds empty_ref_def)

lemma nested_top_level:
  "ResolveTopLevel sample_environment nested_operations (bef_function_index nested_file) 0
     nested_regions [] =
   Inr ([(UnknownLoc, None),
         (UnknownLoc, Some [\<lparr>block_arguments = [], block_operations = [2]\<rparr>]),
         (UnknownLoc, Some [\<lparr>block_arguments = [], block_operations = [3]\<rparr>])],
        [\<lparr>func_location = UnknownLoc, func_name = string_bytes ''main'',
          func_argument_types = [], func_result_types = [], func_attributes = [],
          func_body = [\<lparr>block_arguments = [], block_operations = [0, 1]\<rparr>]\<rparr>])"
  by (simp add: nested_file_def nested_regions_def nested_operations_def sample_tables_def
        function_defs sample_environment_def numeral_unfolds)

lemma nested_pass_two:
  "ResolveNestedRegions [(0, [1, 2])]
     [(UnknownLoc, None),
      (UnknownLoc, Some [\<lparr>block_arguments = [], block_operations = [2]\<rparr>]),
      (UnknownLoc, Some [\<lparr>block_arguments = [], block_operations = [3]\<rparr>])]
     nested_operations =
   Inr ([(UnknownLoc, None), (UnknownLoc, None), (UnknownLoc, None)],
        nested_operations[0 := (nested_operations ! 0)
          \<lparr>op_regions := [[\<lparr>block_arguments = [], block_operations = [2]\<rparr>],
                           [\<lparr>block_arguments = [], block_operations = [3]\<rparr>]]\<rparr>])"
  by (simp add: nested_operations_def function_defs numeral_unfolds)

lemma nested_resolved:
  "ResolveFunctions sample_environment nested_file nested_regions [(0, [1, 2])] nested_operations =
   (Inr ([\<lparr>func_location = UnknownLoc, func_name = string_bytes ''main'',
           func_argument_types = [], func_result_types = [], func_attributes = [],
           func_body = [\<lparr>block_arguments = [], block_operations = [0, 1]\<rparr>]\<rparr>],
         nested_operations[0 := (nested_operations ! 0)
           \<lparr>op_regions := [[\<lparr>block_arguments = [], block_operations = [2]\<rparr>],
                            [\<lparr>block_arguments = [], block_operations = [3]\<rparr>]]\<rparr>]),
    [])"
  by (simp add: ResolveFunctions_def nested_file_def nested_regions_def nested_operations_def
        sample_tables_def function_defs sample_environment_def numeral_unfolds)

lemma sample_loop_read:
  "ReadKernels_loop sample_environment sample_tables sample_kernel ([] @ (0, 0) # [])
     \<lparr>block_arguments = [], block_operations = []\<rparr> sample_state =
   (Inr \<lparr>block_arguments = [], block_operations = [0]\<rparr>,
      sample_state
        \<lparr>register_table :=
           [\<lparr>reg_type = NoneType, num_uses = 7, usedbys = [],
             reg_value = Some (OpResult 0 0 NoneType)\<rparr>],
         operations :=
           [\<lparr>op_name = string_bytes ''k'',
             op_location = FileLineColLoc (string_bytes ''f.mlir'') 1 1,
             op_operands = [],
             op_attributes = [(string_bytes ''attr0'', IntegerAttr (IntegerType 32) 0xDEADBEEF)],
             op_types = [NoneType],
             op_regions = []\<rparr>]\<rparr>)"
  by (simp add: sample_kernel_read)


subsection \<open>Attributes that are not in the table\<close>

text \<open>
  Claim C4, as the code has it. An attribute offset of a kernel that has no attribute
  in the file's table always gets the 32-bit integer attribute \<^verbatim>\<open>0xdeadbeef\<close>, and the
  other offsets get their attribute: resolving the attributes of a kernel cannot fail.
  A kernel that is read successfully carries these attributes, and reading it emits
  no diagnostic at all: there is no warning for the substitution.
\<close>

theorem missing_attribute_gets_placeholder_without_warning:
  "(\<forall>attrs r'. ResolveAttributes bef_file i attribute_offsets r = (attrs, r') \<longrightarrow>
      map snd attrs =
        map (\<lambda>attribute_offset.
               case GetAttribute bef_file attribute_offset of
                 None \<Rightarrow> IntegerAttr (IntegerType 32) 0xDEADBEEF
               | Some attr \<Rightarrow> attr) attribute_offsets) \<and>
   (\<forall>op st'. ReadKernel env bef_file kernel_words offset st = (Inr op, st') \<longrightarrow>
      diagnostics st' = diagnostics st \<and>
      (\<exists>kern offsets attrs r' before callees.
         BEFKernel kernel_words (offset div kKernelEntryAlignment env) = Inr kern \<and>
         GetKernelEntries kern (num_arguments kern) (num_attributes kern) = Inr offsets \<and>
         ResolveAttributes bef_file 0 offsets (snd (ReadByte (attribute_names st))) = (attrs, r') \<and>
         op < length (operations st') \<and>
         op_attributes (operations st' ! op) = before @ attrs @ callees))"
proof (intro conjI allI impI)
  fix attrs r'
  assume "ResolveAttributes bef_file i attribute_offsets r = (attrs, r')"
  from ResolveAttributes_values [OF this, unfolded dummy_attribute_def]
  show "map snd attrs =
        map (\<lambda>attribute_offset.
               case GetAttribute bef_file attribute_offset of
                 None \<Rightarrow> IntegerAttr (IntegerType 32) 0xDEADBEEF
               | Some attr \<Rightarrow> attr) attribute_offsets" .
next
  fix op st'
  assume a: "ReadKernel env bef_file kernel_words offset st = (Inr op, st')"
  from ReadKernel_effect [OF a] show "diagnostics st' = diagnostics st"
    by blast
  from ReadKernel_effect [OF a]
  obtain kern loc operands special_attribute r1 attribute_offsets attrs r2 callees num_regions ts
    where k:
      "BEFKernel kernel_words (offset div kKernelEntryAlignment env) = Inr kern"
      "ReadByte (attribute_names st) = (special_attribute, r1)"
      "GetKernelEntries kern (num_arguments kern) (num_attributes kern) = Inr attribute_offsets"
      "ResolveAttributes bef_file 0 attribute_offsets r1 = (attrs, r2)"
      "op = length (operations st)"
      "operations st' = operations st @
        [\<lparr>op_name = bef_kernels bef_file ! kernel_code kern,
          op_location = loc,
          op_operands = operands,
          op_attributes =
            (if special_attribute = Some (kNonStrict env)
             then [(string_bytes ''bef.nonstrict'', UnitAttr)] else [])
            @ attrs @ callees,
          op_types = ts,
          op_regions = replicate num_regions []\<rparr>]"
    by blast
  from k(2,4) have r: "ResolveAttributes bef_file 0 attribute_offsets
      (snd (ReadByte (attribute_names st))) = (attrs, r2)"
    by simp
  from k(5,6) have o: "op < length (operations st')"
    "op_attributes (operations st' ! op) =
       (if special_attribute = Some (kNonStrict env)
        then [(string_bytes ''bef.nonstrict'', UnitAttr)] else []) @ attrs @ callees"
    by simp_all
  from k(1,3) r o
  show "\<exists>kern offsets attrs r' before callees.
         BEFKernel kernel_words (offset div kKernelEntryAlignment env) = Inr kern \<and>
         GetKernelEntries kern (num_arguments kern) (num_attributes kern) = Inr offsets \<and>
         ResolveAttributes bef_file 0 offsets (snd (ReadByte (attribute_names st))) = (attrs, r') \<and>
         op < length (operations st') \<and>
         op_attributes (operations st' ! op) = before @ attrs @ callees"
    by (intro exI conjI) assumption+
qed


text \<open>
  The theorem at the sample kernel, whose attribute offset 9 is not in the table.
\<close>

theorem missing_attribute_gets_placeholder_without_warning_witness:
  "ResolveAttributes sample_tables 0 [9] empty_ref
     = ([(string_bytes ''attr0'', IntegerAttr (IntegerType 32) 0xDEADBEEF)], empty_ref) \<and>
   map snd [(string_bytes ''attr0'', IntegerAttr (IntegerType 32) 0xDEADBEEF)] =
     map (\<lambda>attribute_offset.
            case GetAttribute sample_tables attribute_offset of
              None \<Rightarrow> IntegerAttr (IntegerType 32) 0xDEADBEEF
            | Some attr \<Rightarrow> attr) [9] \<and>
   fst (ReadKernel sample_environment sample_tables sample_kernel 0 sample_state) = Inr 0 \<and>
   diagnostics (snd (ReadKernel sample_environment sample_tables sample_kernel 0 sample_state))
     = diagnostics sample_state"
proof -
  have a: "ResolveAttributes sample_tables 0 [9] empty_ref
     = ([(string_bytes ''attr0'', IntegerAttr (IntegerType 32) 0xDEADBEEF)], empty_ref)"
    by (simp add: sample_tables_def function_defs reader_defs empty_ref_def)
  obtain st' where k: "ReadKernel sample_environment sample_tables sample_kernel 0 sample_state
      = (Inr 0, st')"
    using sample_kernel_read by blast
  from missing_attribute_gets_placeholder_without_warning
    [of sample_tables 0 "[9]" empty_ref sample_environment sample_kernel 0 sample_state] a k
  have "map snd [(string_bytes ''attr0'', IntegerAttr (IntegerType 32) 0xDEADBEEF)] =
     map (\<lambda>attribute_offset.
            case GetAttribute sample_tables attribute_offset of
              None \<Rightarrow> IntegerAttr (IntegerType 32) 0xDEADBEEF
            | Some attr \<Rightarrow> attr) [9]"
    and "diagnostics st' = diagnostics sample_state"
    by blast+
  with a k show ?thesis
    by simp
qed

text \<open>
  Against claim C4 as stated: the attribute of the sample kernel is not in the table, the
  kernel is read with the placeholder in its place, and no diagnostic has been emitted.
\<close>

theorem placeholder_is_substituted_silently:
  "GetAttribute sample_tables 9 = None \<and>
   fst (ReadKernel sample_environment sample_tables sample_kernel 0 sample_state) = Inr 0 \<and>
   op_attributes
     (operations (snd (ReadKernel sample_environment sample_tables sample_kernel 0 sample_state)) ! 0)
     = [(string_bytes ''attr0'', IntegerAttr (IntegerType 32) 0xDEADBEEF)] \<and>
   diagnostics (snd (ReadKernel sample_environment sample_tables sample_kernel 0 sample_state)) = []"
  by (simp add: sample_kernel_read) (simp add: sample_tables_def sample_state_def GetAttribute_def)


subsection \<open>Missing optional tables\<close>

lemma ReadNextSection_length:
  "ReadNextSection sections r = Inr (sections', r') \<Longrightarrow> length sections' = length sections"
  by (auto simp: ReadNextSection_def BEFSections_Set_def
           split: prod.splits option.splits sum.splits if_splits)

lemma ReadSections_loop_length:
  "ReadSections_loop sections r = Inr sections' \<Longrightarrow> length sections' = length sections"
proof (induction sections r rule: ReadSections_loop.induct)
  case (1 sections r)
  show ?case
  proof (cases "Empty r")
    case True
    with "1.prems" show ?thesis
      by (simp add: ReadSections_loop.simps [of sections r])
  next
    case False
    with "1.prems" obtain sections1 r1 where
      n: "ReadNextSection sections r = Inr (sections1, r1)" and
      l: "ReadSections_loop sections1 r1 = Inr sections'"
      by (auto simp: ReadSections_loop.simps [of sections r] split: sum.splits)
    from "1.IH" [OF False n refl l] ReadNextSection_length [OF n] show ?thesis
      by simp
  qed
qed

lemma ReadSections_warning:
  assumes "ReadSections_loop (BEFSections_init env) r = Inr sections"
    and "kAttributeTypes env < kNumSectionIDs env"
    and "kAttributeNames env < kNumSectionIDs env"
    and "kRegisterTypes env < kNumSectionIDs env"
  shows "ReadSections env r =
     (Inr sections,
      if ref_bytes (sections ! kAttributeTypes env) = [] \<or>
         ref_bytes (sections ! kAttributeNames env) = [] \<or>
         ref_bytes (sections ! kRegisterTypes env) = []
      then [Warning ''Missing AttributeTypes, AttributeNames or RegisterTypes sections.'']
      else [])"
proof -
  from ReadSections_loop_length [OF assms(1)] have "length sections = kNumSectionIDs env"
    by (simp add: BEFSections_init_def)
  with assms show ?thesis
    by (auto simp: ReadSections_def section_empty_def BEFSections_Get_def
             split: sum.splits bool.splits)
qed

lemma ReadInt_empty:
  "ref_bytes r = [] \<Longrightarrow> ReadInt r = (None, r)"
  by (cases r) (simp add: ReadInt_def drained_def)

lemma ReadByte_empty:
  "ref_bytes r = [] \<Longrightarrow> ReadByte r = (None, r)"
  by (simp add: ReadByte_def)

lemma ReadIntArray_empty:
  "ref_bytes r = [] \<Longrightarrow> ReadIntArray env r = (Inl Failed, r)"
  by (simp add: ReadIntArray_def ReadInt_empty)

lemma ReadRegisterTable_no_types:
  assumes "ref_bytes (register_types st) = []"
    and "ReadIntArray env function_reader = (Inr reg_uses, r1)"
  shows "ReadRegisterTable env bef_file function_reader st =
     Inr (r1, st\<lparr>register_table := register_table st @
                map (\<lambda>uses. \<lparr>reg_type = NoneType, num_uses = uses, usedbys = [],
                              reg_value = None\<rparr>) reg_uses\<rparr>)"
proof -
  have "map (\<lambda>i. \<lparr>reg_type = NoneType, num_uses = reg_uses ! i, usedbys = [],
                   reg_value = None\<rparr>) [0..<length reg_uses] =
        map (\<lambda>uses. \<lparr>reg_type = NoneType, num_uses = uses, usedbys = [], reg_value = None\<rparr>)
          (map (\<lambda>i. reg_uses ! i) [0..<length reg_uses])"
    by simp
  also have "map (\<lambda>i. reg_uses ! i) [0..<length reg_uses] = reg_uses"
    by (rule map_nth)
  finally show ?thesis
    using assms
    by (simp add: ReadRegisterTable_def ReadIntArray_empty register_type_of_def)
qed

lemma ReadRegisterTable_attribute_names:
  "ReadRegisterTable env bef_file function_reader st = Inr (r1, st1) \<Longrightarrow>
     attribute_names st1 = attribute_names st"
  by (auto simp: ReadRegisterTable_def split: prod.splits sum.splits if_splits)

lemma AddArgumentDefinitions_attribute_names:
  "AddArgumentDefinitions args results st = (Inr u, st1) \<Longrightarrow>
     attribute_names st1 = attribute_names st"
proof (induction results arbitrary: args st)
  case Nil
  then show ?case by simp
next
  case (Cons register_index rest)
  from Cons.prems obtain arg args' st2 where
    d: "AddDefinition arg register_index st = (Inr (), st2)" and
    r: "AddArgumentDefinitions args' rest st2 = (Inr u, st1)"
    by (auto split: list.splits prod.splits sum.splits)
  from AddDefinition_Inr [OF d] Cons.IH [OF r] show ?case
    by simp
qed

lemma ReadArgumentsPseudoKernel_attribute_names:
  "ReadArgumentsPseudoKernel kernel_words args st = (Inr u, st1) \<Longrightarrow>
     attribute_names st1 = attribute_names st"
  by (auto simp: ReadArgumentsPseudoKernel_def
           dest!: AddArgumentDefinitions_attribute_names
           split: sum.splits prod.splits if_splits)

lemma ReadKernels_unset_byte:
  assumes "ref_bytes (attribute_names st) = []"
    and "block_arguments blk \<noteq> []"
    and "ReadArgumentsPseudoKernel kernel_words (entry_arguments blk) st = (Inr (), st1)"
    and "indeterminate_byte env \<noteq> kUnknown env"
  shows "ReadKernels env bef_file loc kernel_table result_regs kernel_words blk st =
           (Inl Crashed, st1)"
proof -
  from assms(1) have i: "ReadInt (attribute_names st) = (None, attribute_names st)"
    by (rule ReadInt_empty)
  from ReadArgumentsPseudoKernel_attribute_names [OF assms(3)] assms(1)
  have "ReadByte (attribute_names st1) = (None, attribute_names st1)"
    by (simp add: ReadByte_empty)
  with assms(2,3,4) i show ?thesis
    by (simp add: ReadKernels_def ReadPseudoOp_def)
qed

lemma upt_first: "[i..<i + Suc n] = i # [i + 1..<i + 1 + n]"
  by (subst upt_rec) simp

lemma ResolveAttributes_no_names:
  "ref_bytes r = [] \<Longrightarrow> ResolveAttributes bef_file i attribute_offsets r = (attrs, r') \<Longrightarrow>
     map fst attrs = map (\<lambda>j. string_bytes ''attr'' @ utostr j) [i..<i + length attribute_offsets]
     \<and> r' = r"
proof (induction attribute_offsets arbitrary: i attrs r')
  case Nil
  then show ?case by simp
next
  case (Cons attribute_offset rest)
  obtain attrs1 r2 where a: "ResolveAttributes bef_file (i + 1) rest r = (attrs1, r2)"
    by (cases "ResolveAttributes bef_file (i + 1) rest r")
  from Cons.IH [OF Cons.prems(1) a]
  have ih: "map fst attrs1 = map (\<lambda>j. string_bytes ''attr'' @ utostr j) [i + 1..<i + 1 + length rest]"
    and r2: "r2 = r"
    by simp_all
  from Cons.prems a have "fst (hd attrs) = string_bytes ''attr'' @ utostr i"
    and "tl attrs = attrs1" and "attrs \<noteq> []" and r': "r' = r2"
    by (auto simp: ReadInt_empty)
  then have "map fst attrs = (string_bytes ''attr'' @ utostr i) # map fst attrs1"
    by (cases attrs) simp_all
  also have "\<dots> = map (\<lambda>j. string_bytes ''attr'' @ utostr j) (i # [i + 1..<i + 1 + length rest])"
    by (simp only: ih list.map)
  also have "i # [i + 1..<i + 1 + length rest] = [i..<i + Suc (length rest)]"
    by (rule upt_first [symmetric])
  finally show ?case
    using r' r2 by simp
qed

text \<open>
  Claim C8. When the AttributeTypes, AttributeNames or RegisterTypes section is missing
  (empty), \<^verbatim>\<open>ReadSections\<close> succeeds and emits exactly one warning, and none otherwise.
  With no register types, \<^verbatim>\<open>ReadRegisterTable\<close> creates one register per declared use
  count, each of the none type, and the reader of the register types stays empty. With
  no attribute names, attribute number \<open>i\<close> of every kernel is named \<^verbatim>\<open>attr\<close>\<open>i\<close>, and the
  reader of the names stays empty. But the decode of a function does not always go on:
  when the attribute names are missing and the function has arguments, \<^verbatim>\<open>ReadKernels\<close>
  tests, in an assertion, the byte that its failed read did not set; unless that byte
  happens to be \<^verbatim>\<open>kUnknown\<close>, the run of \<^verbatim>\<open>ReadFunction\<close> ends there, after the pseudo
  kernel has defined the arguments.
\<close>

theorem missing_attribute_names_reach_unset_byte:
  "(ReadSections_loop (BEFSections_init env) r = Inr sections \<and>
    kAttributeTypes env < kNumSectionIDs env \<and>
    kAttributeNames env < kNumSectionIDs env \<and>
    kRegisterTypes env < kNumSectionIDs env \<longrightarrow>
      ReadSections env r =
        (Inr sections,
         if ref_bytes (sections ! kAttributeTypes env) = [] \<or>
            ref_bytes (sections ! kAttributeNames env) = [] \<or>
            ref_bytes (sections ! kRegisterTypes env) = []
         then [Warning ''Missing AttributeTypes, AttributeNames or RegisterTypes sections.'']
         else [])) \<and>
   (ref_bytes types_section = [] \<longrightarrow> ref_bytes (optional_table_reader types_section) = []) \<and>
   (ref_bytes (register_types st) = [] \<and>
    ReadIntArray env function_reader = (Inr reg_uses, r1) \<longrightarrow>
      ReadRegisterTable env bef_file function_reader st =
        Inr (r1, st\<lparr>register_table := register_table st @
                   map (\<lambda>uses. \<lparr>reg_type = NoneType, num_uses = uses, usedbys = [],
                                 reg_value = None\<rparr>) reg_uses\<rparr>)) \<and>
   (ref_bytes (attribute_names st) = [] \<and>
    ReadKernel env bef_file kernel_words offset st = (Inr op, st') \<longrightarrow>
      (\<exists>kern vals callees.
         BEFKernel kernel_words (offset div kKernelEntryAlignment env) = Inr kern \<and>
         length vals = num_attributes kern \<and>
         op_attributes (operations st' ! op) =
           zip (map (\<lambda>i. string_bytes ''attr'' @ utostr i) [0..<num_attributes kern]) vals
           @ callees) \<and>
      ref_bytes (attribute_names st') = []) \<and>
   (ref_bytes (attribute_names st0) = [] \<and>
    argument_types bef_function \<noteq> [] \<and>
    indeterminate_byte env \<noteq> kUnknown env \<and>
    ReadInt function_data = (Some location_position_offset, f1) \<and>
    GetLocationPosition bef_file location_position_offset = Some loc \<and>
    ReadRegisterTable env bef_file f1 (st0\<lparr>register_table := []\<rparr>) = Inr (f2, st1) \<and>
    ReadKernelTable f2 = Some (kernel_table, f3) \<and>
    ReadResultRegs bef_function f3 = Some (result_regs, f4) \<and>
    ReadAlignment (kKernelEntryAlignment env) f4 = Some f5 \<and>
    ReadArgumentsPseudoKernel
      (take (length (ref_bytes f5) div kKernelEntryAlignment env) (kernel_stream (ref_bytes f5)))
      (entry_arguments \<lparr>block_arguments = argument_types bef_function, block_operations = []\<rparr>)
      st1 = (Inr (), st2) \<longrightarrow>
      ReadFunction env bef_file bef_function function_data st0 = (Inl Crashed, st2))"
proof (intro conjI impI)
  assume "ReadSections_loop (BEFSections_init env) r = Inr sections \<and>
    kAttributeTypes env < kNumSectionIDs env \<and>
    kAttributeNames env < kNumSectionIDs env \<and>
    kRegisterTypes env < kNumSectionIDs env"
  then show "ReadSections env r =
        (Inr sections,
         if ref_bytes (sections ! kAttributeTypes env) = [] \<or>
            ref_bytes (sections ! kAttributeNames env) = [] \<or>
            ref_bytes (sections ! kRegisterTypes env) = []
         then [Warning ''Missing AttributeTypes, AttributeNames or RegisterTypes sections.'']
         else [])"
    using ReadSections_warning by blast
next
  assume "ref_bytes types_section = []"
  then show "ref_bytes (optional_table_reader types_section) = []"
    by (simp add: optional_table_reader_def Empty_def)
next
  assume "ref_bytes (register_types st) = [] \<and>
    ReadIntArray env function_reader = (Inr reg_uses, r1)"
  then show "ReadRegisterTable env bef_file function_reader st =
        Inr (r1, st\<lparr>register_table := register_table st @
                   map (\<lambda>uses. \<lparr>reg_type = NoneType, num_uses = uses, usedbys = [],
                                 reg_value = None\<rparr>) reg_uses\<rparr>)"
    using ReadRegisterTable_no_types by blast
next
  assume a: "ref_bytes (attribute_names st) = [] \<and>
    ReadKernel env bef_file kernel_words offset st = (Inr op, st')"
  then have e: "ref_bytes (attribute_names st) = []"
    and k: "ReadKernel env bef_file kernel_words offset st = (Inr op, st')"
    by simp_all
  from ReadKernel_effect [OF k]
  obtain kern loc operands special_attribute r1 attribute_offsets attrs r2 callees num_regions ts
    where f:
      "BEFKernel kernel_words (offset div kKernelEntryAlignment env) = Inr kern"
      "ReadByte (attribute_names st) = (special_attribute, r1)"
      "GetKernelEntries kern (num_arguments kern) (num_attributes kern) = Inr attribute_offsets"
      "ResolveAttributes bef_file 0 attribute_offsets r1 = (attrs, r2)"
      "op = length (operations st)"
      "operations st' = operations st @
        [\<lparr>op_name = bef_kernels bef_file ! kernel_code kern,
          op_location = loc,
          op_operands = operands,
          op_attributes =
            (if special_attribute = Some (kNonStrict env)
             then [(string_bytes ''bef.nonstrict'', UnitAttr)] else [])
            @ attrs @ callees,
          op_types = ts,
          op_regions = replicate num_regions []\<rparr>]"
      "attribute_names st' = r2"
    by blast
  from f(2) e have s: "special_attribute = None" "r1 = attribute_names st"
    by (simp_all add: ReadByte_empty)
  from ResolveAttributes_no_names [OF _ f(4)] s e
  have n: "map fst attrs = map (\<lambda>j. string_bytes ''attr'' @ utostr j) [0..<length attribute_offsets]"
    and r: "r2 = attribute_names st"
    by simp_all
  from GetKernelEntries_length [OF f(3)] have l: "length attribute_offsets = num_attributes kern" .
  from ResolveAttributes_length [OF f(4)] l have la: "length (map snd attrs) = num_attributes kern"
    by simp
  have "attrs = zip (map fst attrs) (map snd attrs)"
    by (simp add: zip_map_fst_snd)
  with n l have z: "attrs =
      zip (map (\<lambda>i. string_bytes ''attr'' @ utostr i) [0..<num_attributes kern]) (map snd attrs)"
    by simp
  from f(5,6) s z have o: "op_attributes (operations st' ! op) =
      zip (map (\<lambda>i. string_bytes ''attr'' @ utostr i) [0..<num_attributes kern]) (map snd attrs)
      @ callees"
    by simp
  from f(1) la o
  show "\<exists>kern vals callees.
         BEFKernel kernel_words (offset div kKernelEntryAlignment env) = Inr kern \<and>
         length vals = num_attributes kern \<and>
         op_attributes (operations st' ! op) =
           zip (map (\<lambda>i. string_bytes ''attr'' @ utostr i) [0..<num_attributes kern]) vals
           @ callees"
    by (intro exI conjI) assumption+
  from f(7) r e show "ref_bytes (attribute_names st') = []"
    by simp
next
  let ?words = "take (length (ref_bytes f5) div kKernelEntryAlignment env)
                  (kernel_stream (ref_bytes f5))"
  let ?blk = "\<lparr>block_arguments = argument_types bef_function, block_operations = []\<rparr>"
  assume a: "ref_bytes (attribute_names st0) = [] \<and>
    argument_types bef_function \<noteq> [] \<and>
    indeterminate_byte env \<noteq> kUnknown env \<and>
    ReadInt function_data = (Some location_position_offset, f1) \<and>
    GetLocationPosition bef_file location_position_offset = Some loc \<and>
    ReadRegisterTable env bef_file f1 (st0\<lparr>register_table := []\<rparr>) = Inr (f2, st1) \<and>
    ReadKernelTable f2 = Some (kernel_table, f3) \<and>
    ReadResultRegs bef_function f3 = Some (result_regs, f4) \<and>
    ReadAlignment (kKernelEntryAlignment env) f4 = Some f5 \<and>
    ReadArgumentsPseudoKernel ?words (entry_arguments ?blk) st1 = (Inr (), st2)"
  then have t: "ReadRegisterTable env bef_file f1 (st0\<lparr>register_table := []\<rparr>) = Inr (f2, st1)"
    and p: "ReadArgumentsPseudoKernel ?words (entry_arguments ?blk) st1 = (Inr (), st2)"
    by simp_all
  from ReadRegisterTable_attribute_names [OF t] a
  have "ref_bytes (attribute_names st1) = []"
    by simp
  from ReadKernels_unset_byte [OF this _ p, of env bef_file loc kernel_table result_regs] a
  have "ReadKernels env bef_file loc kernel_table result_regs ?words ?blk st1 = (Inl Crashed, st2)"
    by simp
  with a show "ReadFunction env bef_file bef_function function_data st0 = (Inl Crashed, st2)"
    by (simp add: ReadFunction_def fail_with_def)
qed

text \<open>
  The theorem at runs of the code: a file with none of the three sections is split with
  the warning; the register table of the sample function is read into one register of
  the none type; the attribute of the sample kernel is named \<^verbatim>\<open>attr0\<close>; and the function
  with one argument is not decoded when the unset byte is 1, alone or in its file, while
  it is decoded when the byte is 0, or when the AttributeNames section is there.
\<close>

lemma smallest_file_sections:
  "ReadSections_loop (BEFSections_init sample_environment)
     \<lparr>ref_begin = 2, ref_bytes = [0, 1, 0, 6, 1, 0, 5, 1, 0, 7, 1, 0]\<rparr> =
   Inr [\<lparr>ref_begin = 4, ref_bytes = [0]\<rparr>, empty_ref, empty_ref, empty_ref, empty_ref,
        \<lparr>ref_begin = 10, ref_bytes = [0]\<rparr>, \<lparr>ref_begin = 7, ref_bytes = [0]\<rparr>,
        \<lparr>ref_begin = 13, ref_bytes = [0]\<rparr>, empty_ref, empty_ref, empty_ref, empty_ref]"
  by (simp add: sections_defs reader_defs sample_environment_def numeral_unfolds)

lemma argument_function_steps:
  "ReadInt argument_function_data =
     (Some 0, \<lparr>ref_begin = 53, ref_bytes = drop 1 (ref_bytes argument_function_data)\<rparr>)"
  "GetLocationPosition argument_tables 0 = Some (FileLineColLoc (string_bytes ''f.mlir'') 1 1)"
  "ReadRegisterTable unset_environment argument_tables
     \<lparr>ref_begin = 53, ref_bytes = drop 1 (ref_bytes argument_function_data)\<rparr>
     (start_state\<lparr>register_table := []\<rparr>) =
   Inr (\<lparr>ref_begin = 55, ref_bytes = drop 3 (ref_bytes argument_function_data)\<rparr>,
        start_state\<lparr>register_table :=
          [\<lparr>reg_type = NoneType, num_uses = 0, usedbys = [], reg_value = None\<rparr>]\<rparr>)"
  "ReadKernelTable \<lparr>ref_begin = 55, ref_bytes = drop 3 (ref_bytes argument_function_data)\<rparr> =
     Some ([(0, 0)], \<lparr>ref_begin = 58, ref_bytes = drop 6 (ref_bytes argument_function_data)\<rparr>)"
  "ReadResultRegs argument_function
     \<lparr>ref_begin = 58, ref_bytes = drop 6 (ref_bytes argument_function_data)\<rparr> =
     Some ([], \<lparr>ref_begin = 58, ref_bytes = drop 6 (ref_bytes argument_function_data)\<rparr>)"
  "ReadAlignment (kKernelEntryAlignment unset_environment)
     \<lparr>ref_begin = 58, ref_bytes = drop 6 (ref_bytes argument_function_data)\<rparr> =
     Some \<lparr>ref_begin = 60, ref_bytes = drop 8 (ref_bytes argument_function_data)\<rparr>"
  "ReadArgumentsPseudoKernel
     (take (length (ref_bytes \<lparr>ref_begin = 60,
                      ref_bytes = drop 8 (ref_bytes argument_function_data)\<rparr>)
            div kKernelEntryAlignment unset_environment)
        (kernel_stream (ref_bytes \<lparr>ref_begin = 60,
                      ref_bytes = drop 8 (ref_bytes argument_function_data)\<rparr>)))
     (entry_arguments \<lparr>block_arguments = argument_types argument_function,
                       block_operations = []\<rparr>)
     (start_state\<lparr>register_table :=
        [\<lparr>reg_type = NoneType, num_uses = 0, usedbys = [], reg_value = None\<rparr>]\<rparr>) =
   (Inr (),
    start_state\<lparr>register_table :=
      [\<lparr>reg_type = NoneType, num_uses = 0, usedbys = [],
        reg_value = Some (BlockArgument 0 (IntegerType 32))\<rparr>]\<rparr>)"
  by (simp_all add: argument_function_data_def argument_tables_def argument_function_def
        unset_environment_def start_state_def sample_tables_def function_defs reader_defs
        tables_defs sample_environment_def numeral_unfolds empty_ref_def)

lemma argument_file_decodes:
  "ConvertBEFToMLIR unset_environment CallerLoc argument_file =
     (Inl Crashed,
      [Warning ''Missing AttributeTypes, AttributeNames or RegisterTypes sections.''])"
  "ConvertBEFToMLIR sample_environment CallerLoc argument_file =
     (Inr \<lparr>module_location = CallerLoc,
           module_functions =
             [\<lparr>func_location = FileLineColLoc (string_bytes ''f.mlir'') 1 1,
               func_name = string_bytes ''main'', func_argument_types = [IntegerType 32],
               func_result_types = [], func_attributes = [],
               func_body = [\<lparr>block_arguments = [IntegerType 32], block_operations = [0]\<rparr>]\<rparr>],
           module_operations = [return_op (FileLineColLoc (string_bytes ''f.mlir'') 1 1) []]\<rparr>,
      [Warning ''Missing AttributeTypes, AttributeNames or RegisterTypes sections.''])"
  "ConvertBEFToMLIR unset_environment CallerLoc (argument_file @ [10, 3, 1, 1, 0]) =
     (Inr \<lparr>module_location = CallerLoc,
           module_functions =
             [\<lparr>func_location = FileLineColLoc (string_bytes ''f.mlir'') 1 1,
               func_name = string_bytes ''main'', func_argument_types = [IntegerType 32],
               func_result_types = [], func_attributes = [],
               func_body = [\<lparr>block_arguments = [IntegerType 32], block_operations = [0]\<rparr>]\<rparr>],
           module_operations = [return_op (FileLineColLoc (string_bytes ''f.mlir'') 1 1) []]\<rparr>,
      [Warning ''Missing AttributeTypes, AttributeNames or RegisterTypes sections.''])"
  by (simp_all add: argument_file_def unset_environment_def convert_defs tables_defs sections_defs
        function_defs reader_defs sample_environment_def numeral_unfolds)

theorem missing_attribute_names_reach_unset_byte_witness:
  "ReadSections sample_environment
     \<lparr>ref_begin = 2, ref_bytes = [0, 1, 0, 6, 1, 0, 5, 1, 0, 7, 1, 0]\<rparr> =
     (Inr [\<lparr>ref_begin = 4, ref_bytes = [0]\<rparr>, empty_ref, empty_ref, empty_ref, empty_ref,
           \<lparr>ref_begin = 10, ref_bytes = [0]\<rparr>, \<lparr>ref_begin = 7, ref_bytes = [0]\<rparr>,
           \<lparr>ref_begin = 13, ref_bytes = [0]\<rparr>, empty_ref, empty_ref, empty_ref, empty_ref],
      [Warning ''Missing AttributeTypes, AttributeNames or RegisterTypes sections.'']) \<and>
   ref_bytes (optional_table_reader empty_ref) = [] \<and>
   ReadRegisterTable sample_environment sample_tables
     \<lparr>ref_begin = 53, ref_bytes = [1, 7, 1, 0, 0, 0]\<rparr> start_state =
     Inr (\<lparr>ref_begin = 55, ref_bytes = [1, 0, 0, 0]\<rparr>,
          start_state\<lparr>register_table :=
            [\<lparr>reg_type = NoneType, num_uses = 7, usedbys = [], reg_value = None\<rparr>]\<rparr>) \<and>
   op_attributes
     (operations (snd (ReadKernel sample_environment sample_tables sample_kernel 0 sample_state)) ! 0)
     = [(string_bytes ''attr0'', IntegerAttr (IntegerType 32) 0xDEADBEEF)] \<and>
   ref_bytes (attribute_names
     (snd (ReadKernel sample_environment sample_tables sample_kernel 0 sample_state))) = [] \<and>
   ReadFunction unset_environment argument_tables argument_function argument_function_data
     start_state =
     (Inl Crashed,
      start_state\<lparr>register_table :=
        [\<lparr>reg_type = NoneType, num_uses = 0, usedbys = [],
          reg_value = Some (BlockArgument 0 (IntegerType 32))\<rparr>]\<rparr>) \<and>
   ConvertBEFToMLIR unset_environment CallerLoc argument_file =
     (Inl Crashed,
      [Warning ''Missing AttributeTypes, AttributeNames or RegisterTypes sections.'']) \<and>
   (\<exists>m. fst (ConvertBEFToMLIR sample_environment CallerLoc argument_file) = Inr m) \<and>
   (\<exists>m. fst (ConvertBEFToMLIR unset_environment CallerLoc (argument_file @ [10, 3, 1, 1, 0]))
          = Inr m)"
proof -
  let ?sections = "[\<lparr>ref_begin = 4, ref_bytes = [0]\<rparr>, empty_ref, empty_ref, empty_ref, empty_ref,
        \<lparr>ref_begin = 10, ref_bytes = [0]\<rparr>, \<lparr>ref_begin = 7, ref_bytes = [0]\<rparr>,
        \<lparr>ref_begin = 13, ref_bytes = [0::u8]\<rparr>, empty_ref, empty_ref, empty_ref, empty_ref]"
  let ?d = "ref_bytes argument_function_data"
  obtain st' where k: "ReadKernel sample_environment sample_tables sample_kernel 0 sample_state
      = (Inr 0, st')"
    using sample_kernel_read by blast
  note t = missing_attribute_names_reach_unset_byte
    [where r = "\<lparr>ref_begin = 2, ref_bytes = [0, 1, 0, 6, 1, 0, 5, 1, 0, 7, 1, 0]\<rparr>"
       and sections = ?sections
       and types_section = empty_ref
       and kernel_words = sample_kernel and offset = 0 and op = 0 and st' = st'
       and bef_function = argument_function and function_data = argument_function_data
       and ?st0.0 = start_state and location_position_offset = 0
       and ?f1.0 = "\<lparr>ref_begin = 53, ref_bytes = drop 1 ?d\<rparr>"
       and loc = "FileLineColLoc (string_bytes ''f.mlir'') 1 1"
       and ?f2.0 = "\<lparr>ref_begin = 55, ref_bytes = drop 3 ?d\<rparr>"
       and ?st1.0 = "start_state\<lparr>register_table :=
          [\<lparr>reg_type = NoneType, num_uses = 0, usedbys = [], reg_value = None\<rparr>]\<rparr>"
       and kernel_table = "[(0, 0)]"
       and ?f3.0 = "\<lparr>ref_begin = 58, ref_bytes = drop 6 ?d\<rparr>"
       and result_regs = "[]"
       and ?f4.0 = "\<lparr>ref_begin = 58, ref_bytes = drop 6 ?d\<rparr>"
       and ?f5.0 = "\<lparr>ref_begin = 60, ref_bytes = drop 8 ?d\<rparr>"
       and ?st2.0 = "start_state\<lparr>register_table :=
          [\<lparr>reg_type = NoneType, num_uses = 0, usedbys = [],
            reg_value = Some (BlockArgument 0 (IntegerType 32))\<rparr>]\<rparr>"]
  note s = t [where env = sample_environment and st = sample_state and bef_file = sample_tables]
  note u = t [where env = unset_environment and st = start_state and bef_file = argument_tables
                and function_reader = "\<lparr>ref_begin = 53, ref_bytes = [1, 7, 1, 0, 0, 0]\<rparr>"
                and reg_uses = "[7]" and ?r1.0 = "\<lparr>ref_begin = 55, ref_bytes = [1, 0, 0, 0]\<rparr>"]
  note v = t [where env = sample_environment and st = start_state and bef_file = sample_tables
                and function_reader = "\<lparr>ref_begin = 53, ref_bytes = [1, 7, 1, 0, 0, 0]\<rparr>"
                and reg_uses = "[7]" and ?r1.0 = "\<lparr>ref_begin = 55, ref_bytes = [1, 0, 0, 0]\<rparr>"]
  have ids: "kAttributeTypes sample_environment < kNumSectionIDs sample_environment"
    "kAttributeNames sample_environment < kNumSectionIDs sample_environment"
    "kRegisterTypes sample_environment < kNumSectionIDs sample_environment"
    by (simp_all add: sample_environment_def)
  have e: "ref_bytes (register_types start_state) = []"
    "ref_bytes (attribute_names sample_state) = []" "ref_bytes empty_ref = []"
    "ref_bytes (attribute_names start_state) = []"
    by (simp_all add: sample_state_def start_state_def empty_ref_def)
  from s smallest_file_sections ids
  have 1: "ReadSections sample_environment
     \<lparr>ref_begin = 2, ref_bytes = [0, 1, 0, 6, 1, 0, 5, 1, 0, 7, 1, 0]\<rparr> =
     (Inr ?sections,
      if ref_bytes (?sections ! kAttributeTypes sample_environment) = [] \<or>
         ref_bytes (?sections ! kAttributeNames sample_environment) = [] \<or>
         ref_bytes (?sections ! kRegisterTypes sample_environment) = []
      then [Warning ''Missing AttributeTypes, AttributeNames or RegisterTypes sections.'']
      else [])"
    by blast
  from s e(3) have 2: "ref_bytes (optional_table_reader empty_ref) = []"
    by blast
  have "ReadIntArray sample_environment \<lparr>ref_begin = 53, ref_bytes = [1, 7, 1, 0, 0, 0]\<rparr> =
      (Inr [7], \<lparr>ref_begin = 55, ref_bytes = [1, 0, 0, 0]\<rparr>)"
    by (simp add: reader_defs sample_environment_def numeral_unfolds)
  with v e(1)
  have 3: "ReadRegisterTable sample_environment sample_tables
     \<lparr>ref_begin = 53, ref_bytes = [1, 7, 1, 0, 0, 0]\<rparr> start_state =
     Inr (\<lparr>ref_begin = 55, ref_bytes = [1, 0, 0, 0]\<rparr>,
          start_state\<lparr>register_table := register_table start_state @
            map (\<lambda>uses. \<lparr>reg_type = NoneType, num_uses = uses, usedbys = [],
                          reg_value = None\<rparr>) [7]\<rparr>)"
    by blast
  from s e(2) k obtain kern vals callees where 4:
    "BEFKernel sample_kernel (0 div kKernelEntryAlignment sample_environment) = Inr kern"
    "length vals = num_attributes kern"
    "op_attributes (operations st' ! 0) =
       zip (map (\<lambda>i. string_bytes ''attr'' @ utostr i) [0..<num_attributes kern]) vals @ callees"
    and 5: "ref_bytes (attribute_names st') = []"
    by blast
  have "argument_types argument_function \<noteq> []"
    "indeterminate_byte unset_environment \<noteq> kUnknown unset_environment"
    by (simp_all add: argument_function_def unset_environment_def sample_environment_def)
  with u e(4) argument_function_steps
  have 6: "ReadFunction unset_environment argument_tables argument_function
      argument_function_data start_state =
     (Inl Crashed,
      start_state\<lparr>register_table :=
        [\<lparr>reg_type = NoneType, num_uses = 0, usedbys = [],
          reg_value = Some (BlockArgument 0 (IntegerType 32))\<rparr>]\<rparr>)"
    by blast
  from 1 have "ReadSections sample_environment
     \<lparr>ref_begin = 2, ref_bytes = [0, 1, 0, 6, 1, 0, 5, 1, 0, 7, 1, 0]\<rparr> =
     (Inr ?sections, [Warning ''Missing AttributeTypes, AttributeNames or RegisterTypes sections.''])"
    by (simp add: sample_environment_def empty_ref_def)
  moreover from 3 have "ReadRegisterTable sample_environment sample_tables
     \<lparr>ref_begin = 53, ref_bytes = [1, 7, 1, 0, 0, 0]\<rparr> start_state =
     Inr (\<lparr>ref_begin = 55, ref_bytes = [1, 0, 0, 0]\<rparr>,
          start_state\<lparr>register_table :=
            [\<lparr>reg_type = NoneType, num_uses = 7, usedbys = [], reg_value = None\<rparr>]\<rparr>)"
    by (simp add: start_state_def)
  moreover from k sample_kernel_read have "op_attributes (operations st' ! 0)
     = [(string_bytes ''attr0'', IntegerAttr (IntegerType 32) 0xDEADBEEF)]"
    by (simp add: sample_state_def)
  ultimately show ?thesis
    using 2 5 6 k argument_file_decodes by simp
qed


subsection \<open>Result types of a function\<close>




subsection \<open>Stitching nested regions\<close>

lemma count_list_distinct:
  "distinct xs \<Longrightarrow> x \<in> set xs \<Longrightarrow> count_list xs x = 1"
  by (induction xs) auto

lemma TakeRegions_Inr:
  assumes "TakeRegions op i indices regions ops = Inr (regions', ops')"
  shows "length regions' = length regions \<and> length ops' = length ops \<and>
         (\<forall>op2. op2 \<noteq> op \<longrightarrow> ops' ! op2 = ops ! op2) \<and>
         length (op_regions (ops' ! op)) = length (op_regions (ops ! op)) \<and>
         (\<forall>k < length indices. indices ! k < length regions \<and>
            snd (regions ! (indices ! k)) = Some (op_regions (ops' ! op) ! (i + k))) \<and>
         (\<forall>k < i. op_regions (ops' ! op) ! k = op_regions (ops ! op) ! k) \<and>
         distinct indices \<and>
         (\<forall>j < length regions. regions' ! j =
            (if j \<in> set indices then (fst (regions ! j), None) else regions ! j))"
  using assms
proof (induction indices arbitrary: i regions ops)
  case Nil
  then show ?case by simp
next
  case (Cons region_index rest)
  let ?regions = "regions[region_index := (fst (regions ! region_index), None)]"
  from Cons.prems obtain child_region where
    b: "region_index < length regions" and
    c: "snd (regions ! region_index) = Some child_region" and
    o: "op < length ops" and
    s: "i < length (op_regions (ops ! op))"
    by (auto split: if_splits option.splits)
  let ?ops = "ops[op := (ops ! op)\<lparr>op_regions := (op_regions (ops ! op))[i := child_region]\<rparr>]"
  from Cons.prems b c o s have
    r: "TakeRegions op (i + 1) rest ?regions ?ops = Inr (regions', ops')"
    by simp
  note ih = Cons.IH [OF r]
  from ih have l: "length regions' = length regions" "length ops' = length ops"
    by simp_all
  from ih have other: "\<forall>op2. op2 \<noteq> op \<longrightarrow> ops' ! op2 = ops ! op2"
    by simp
  from ih o have len: "length (op_regions (ops' ! op)) = length (op_regions (ops ! op))"
    by simp
  from ih have rest: "\<forall>k < length rest. rest ! k < length regions \<and>
      snd (?regions ! (rest ! k)) = Some (op_regions (ops' ! op) ! (i + 1 + k))"
    by simp
  have fresh: "region_index \<notin> set rest"
  proof
    assume "region_index \<in> set rest"
    then obtain k where "k < length rest" "rest ! k = region_index"
      by (auto simp: in_set_conv_nth)
    with rest b show False
      by auto
  qed
  from ih o s have below: "\<forall>k < i + 1. op_regions (ops' ! op) ! k = op_regions (?ops ! op) ! k"
    by simp
  from below o s have head: "op_regions (ops' ! op) ! i = child_region"
    by simp
  have taken: "\<forall>k < length (region_index # rest). (region_index # rest) ! k < length regions \<and>
      snd (regions ! ((region_index # rest) ! k)) = Some (op_regions (ops' ! op) ! (i + k))"
  proof (intro allI impI)
    fix k
    assume k: "k < length (region_index # rest)"
    show "(region_index # rest) ! k < length regions \<and>
      snd (regions ! ((region_index # rest) ! k)) = Some (op_regions (ops' ! op) ! (i + k))"
    proof (cases k)
      case 0
      with b c head show ?thesis
        by simp
    next
      case (Suc k')
      with k have k': "k' < length rest"
        by simp
      with fresh have "rest ! k' \<noteq> region_index"
        by (metis nth_mem)
      moreover from rest k' have "rest ! k' < length regions \<and>
          snd (?regions ! (rest ! k')) = Some (op_regions (ops' ! op) ! (i + 1 + k'))"
        by blast
      ultimately show ?thesis
        using Suc by simp
    qed
  qed
  from below o s have kept: "\<forall>k < i. op_regions (ops' ! op) ! k = op_regions (ops ! op) ! k"
    by simp
  from ih fresh have d: "distinct (region_index # rest)"
    by simp
  from ih b have slots: "\<forall>j < length regions. regions' ! j =
      (if j \<in> set (region_index # rest) then (fst (regions ! j), None) else regions ! j)"
    by (auto simp: nth_list_update)
  from l other len taken kept d slots show ?case
    by blast
qed

lemma ResolveNestedRegions_Inr:
  assumes "ResolveNestedRegions refs regions ops = Inr (regions', ops')"
    and "distinct (map fst refs)"
  shows "length regions' = length regions \<and> length ops' = length ops \<and>
         (\<forall>op2. op2 \<notin> fst ` set refs \<longrightarrow> ops' ! op2 = ops ! op2) \<and>
         (\<forall>(op, indices) \<in> set refs.
            length (op_regions (ops' ! op)) = length indices \<and>
            (\<forall>k < length indices. indices ! k < length regions \<and>
               snd (regions ! (indices ! k)) = Some (op_regions (ops' ! op) ! k))) \<and>
         distinct (concat (map snd refs)) \<and>
         (\<forall>j < length regions. regions' ! j =
            (if j \<in> set (concat (map snd refs)) then (fst (regions ! j), None) else regions ! j))"
  using assms
proof (induction refs arbitrary: regions ops)
  case Nil
  then show ?case by simp
next
  case (Cons ref rest)
  obtain op indices where ref: "ref = (op, indices)"
    by (cases ref)
  from Cons.prems(1) ref obtain regions1 ops1 where
    o: "op < length ops" and
    n: "length (op_regions (ops ! op)) = length indices" and
    t: "TakeRegions op 0 indices regions ops = Inr (regions1, ops1)" and
    r: "ResolveNestedRegions rest regions1 ops1 = Inr (regions', ops')"
    by (auto split: if_splits sum.splits)
  from Cons.prems(2) ref have d: "distinct (map fst rest)" and f: "op \<notin> fst ` set rest"
    by simp_all
  note ih = Cons.IH [OF r d]
  note tk = TakeRegions_Inr [OF t]
  from tk have t_len: "length regions1 = length regions" "length ops1 = length ops"
    by simp_all
  from tk have t_other: "\<forall>op2. op2 \<noteq> op \<longrightarrow> ops1 ! op2 = ops ! op2"
    by simp
  from tk have t_slots: "length (op_regions (ops1 ! op)) = length (op_regions (ops ! op))"
    "\<forall>k < length indices. indices ! k < length regions \<and>
        snd (regions ! (indices ! k)) = Some (op_regions (ops1 ! op) ! k)"
    by simp_all
  from tk have t_distinct: "distinct indices"
    by simp
  from tk have t_regions: "\<forall>j < length regions. regions1 ! j =
      (if j \<in> set indices then (fst (regions ! j), None) else regions ! j)"
    by simp
  from ih have i_len: "length regions' = length regions1" "length ops' = length ops1"
    by simp_all
  from ih have i_other: "\<forall>op2. op2 \<notin> fst ` set rest \<longrightarrow> ops' ! op2 = ops1 ! op2"
    by simp
  from ih have i_slots: "\<forall>(op2, indices2) \<in> set rest.
      length (op_regions (ops' ! op2)) = length indices2 \<and>
      (\<forall>k < length indices2. indices2 ! k < length regions1 \<and>
         snd (regions1 ! (indices2 ! k)) = Some (op_regions (ops' ! op2) ! k))"
    by simp
  from ih have i_distinct: "distinct (concat (map snd rest))"
    by simp
  from ih have i_regions: "\<forall>j < length regions1. regions' ! j =
      (if j \<in> set (concat (map snd rest)) then (fst (regions1 ! j), None) else regions1 ! j)"
    by simp
  have later: "j < length regions \<and> j \<notin> set indices" if "j \<in> set (concat (map snd rest))" for j
  proof -
    from that obtain op2 indices2 k where
      m: "(op2, indices2) \<in> set rest" and k: "k < length indices2" and j: "j = indices2 ! k"
      by (auto simp: in_set_conv_nth)
    from i_slots m k j have "j < length regions1" "snd (regions1 ! j) \<noteq> None"
      by auto
    with t_len t_regions show ?thesis
      by auto
  qed
  have 1: "length regions' = length regions \<and> length ops' = length ops"
    using t_len i_len by simp
  have 2: "\<forall>op2. op2 \<notin> fst ` set (ref # rest) \<longrightarrow> ops' ! op2 = ops ! op2"
    using t_other i_other ref by simp
  have 3: "\<forall>(op2, indices2) \<in> set (ref # rest).
      length (op_regions (ops' ! op2)) = length indices2 \<and>
      (\<forall>k < length indices2. indices2 ! k < length regions \<and>
         snd (regions ! (indices2 ! k)) = Some (op_regions (ops' ! op2) ! k))"
  proof (intro ballI, clarify)
    fix op2 indices2
    assume "(op2, indices2) \<in> set (ref # rest)"
    then consider "op2 = op" "indices2 = indices" | "(op2, indices2) \<in> set rest"
      using ref by auto
    then show "length (op_regions (ops' ! op2)) = length indices2 \<and>
      (\<forall>k < length indices2. indices2 ! k < length regions \<and>
         snd (regions ! (indices2 ! k)) = Some (op_regions (ops' ! op2) ! k))"
    proof cases
      case 1
      from i_other f have "ops' ! op = ops1 ! op"
        by simp
      with 1 t_slots n show ?thesis
        by simp
    next
      case 2
      with i_slots have s: "length (op_regions (ops' ! op2)) = length indices2"
        "\<forall>k < length indices2. snd (regions1 ! (indices2 ! k)) = Some (op_regions (ops' ! op2) ! k)"
        by auto
      have "indices2 ! k < length regions \<and>
          snd (regions ! (indices2 ! k)) = Some (op_regions (ops' ! op2) ! k)"
        if k: "k < length indices2" for k
      proof -
        from 2 k have "indices2 ! k \<in> set (concat (map snd rest))"
          by (auto intro!: bexI [of _ "(op2, indices2)"])
        from later [OF this] t_regions s(2) k show ?thesis
          by auto
      qed
      with s(1) show ?thesis
        by simp
    qed
  qed
  have 4: "distinct (concat (map snd (ref # rest)))"
    using t_distinct i_distinct later ref by auto
  have 5: "\<forall>j < length regions. regions' ! j =
      (if j \<in> set (concat (map snd (ref # rest))) then (fst (regions ! j), None) else regions ! j)"
    using t_regions i_regions t_len ref by auto
  from 1 2 3 4 5 show ?case
    by blast
qed


subsection \<open>Regions after the second loop\<close>

text \<open>
  Claim C3. When the second loop of \<^verbatim>\<open>ResolveFunctions\<close> succeeds on region references
  with distinct operations, every referenced operation has as many region slots as it has
  function indices, and slot \<open>i\<close> holds the region that function \<open>indices ! i\<close> had before
  the loop; no function index is taken twice; the slots of \<^verbatim>\<open>regions\<close> that were taken are
  null and the others are unchanged. When \<^verbatim>\<open>ResolveFunctions\<close> succeeds, every region
  that the first loop left is taken exactly once. When a region is left after the second
  loop, \<^verbatim>\<open>ResolveFunctions\<close> fails with the error \<^verbatim>\<open>Failed to resolve functions.\<close>
\<close>

theorem nested_regions_are_stitched_in_order:
  "(ResolveNestedRegions refs regions ops = Inr (regions', ops') \<and> distinct (map fst refs) \<longrightarrow>
      (\<forall>(op, indices) \<in> set refs.
          length (op_regions (ops' ! op)) = length indices \<and>
          (\<forall>i < length indices.
              snd (regions ! (indices ! i)) = Some (op_regions (ops' ! op) ! i))) \<and>
      distinct (concat (map snd refs)) \<and>
      (\<forall>j < length regions. regions' ! j =
          (if j \<in> set (concat (map snd refs)) then (fst (regions ! j), None) else regions ! j))) \<and>
   (ResolveFunctions env bef_file regions0 refs ops = (Inr (funcs, ops'), ds) \<and>
    distinct (map fst refs) \<longrightarrow>
      (\<exists>regions1.
          ResolveTopLevel env ops (bef_function_index bef_file) 0 regions0 [] = Inr (regions1, funcs) \<and>
          (\<forall>j < length regions1. snd (regions1 ! j) \<noteq> None \<longrightarrow>
              count_list (concat (map snd refs)) j = 1))) \<and>
   (ResolveTopLevel env ops (bef_function_index bef_file) 0 regions0 [] = Inr (left, funcs1) \<and>
    ResolveNestedRegions pending left ops = Inr (regions2, ops2) \<and>
    j < length regions2 \<and> snd (regions2 ! j) \<noteq> None \<longrightarrow>
      ResolveFunctions env bef_file regions0 pending ops =
        (Inl Failed, [Error ''Failed to resolve functions.'']))"
proof (intro conjI impI)
  assume a: "ResolveNestedRegions refs regions ops = Inr (regions', ops') \<and> distinct (map fst refs)"
  then have r: "ResolveNestedRegions refs regions ops = Inr (regions', ops')" and
    d: "distinct (map fst refs)"
    by simp_all
  note n = ResolveNestedRegions_Inr [OF r d]
  from n show "\<forall>(op, indices) \<in> set refs.
          length (op_regions (ops' ! op)) = length indices \<and>
          (\<forall>i < length indices.
              snd (regions ! (indices ! i)) = Some (op_regions (ops' ! op) ! i))"
    by fastforce
  from n show "distinct (concat (map snd refs))"
    by simp
  from n show "\<forall>j < length regions. regions' ! j =
          (if j \<in> set (concat (map snd refs)) then (fst (regions ! j), None) else regions ! j)"
    by simp
next
  assume a: "ResolveFunctions env bef_file regions0 refs ops = (Inr (funcs, ops'), ds) \<and>
    distinct (map fst refs)"
  then obtain regions1 regions2 where
    t: "ResolveTopLevel env ops (bef_function_index bef_file) 0 regions0 [] = Inr (regions1, funcs)" and
    r: "ResolveNestedRegions refs regions1 ops = Inr (regions2, ops')" and
    e: "\<not> list_ex (\<lambda>loc_and_region. snd loc_and_region \<noteq> None) regions2"
    by (auto simp: ResolveFunctions_def split: sum.splits prod.splits if_splits)
  from a have d: "distinct (map fst refs)"
    by simp
  note n = ResolveNestedRegions_Inr [OF r d]
  have "count_list (concat (map snd refs)) j = 1"
    if j: "j < length regions1" and s: "snd (regions1 ! j) \<noteq> None" for j
  proof -
    from n j have "j < length regions2"
      by simp
    with e have "snd (regions2 ! j) = None"
      by (auto simp: list_ex_iff)
    with n j s have "j \<in> set (concat (map snd refs))"
      by (auto split: if_splits)
    moreover from n have "distinct (concat (map snd refs))"
      by simp
    ultimately show ?thesis
      by (simp add: count_list_distinct)
  qed
  with t show "\<exists>regions1.
          ResolveTopLevel env ops (bef_function_index bef_file) 0 regions0 [] = Inr (regions1, funcs) \<and>
          (\<forall>j < length regions1. snd (regions1 ! j) \<noteq> None \<longrightarrow>
              count_list (concat (map snd refs)) j = 1)"
    by blast
next
  assume "ResolveTopLevel env ops (bef_function_index bef_file) 0 regions0 [] = Inr (left, funcs1) \<and>
    ResolveNestedRegions pending left ops = Inr (regions2, ops2) \<and>
    j < length regions2 \<and> snd (regions2 ! j) \<noteq> None"
  then show "ResolveFunctions env bef_file regions0 pending ops =
        (Inl Failed, [Error ''Failed to resolve functions.''])"
    by (auto simp: ResolveFunctions_def list_ex_iff)
qed

text \<open>
  The kernel of the sample with nested regions refers to the functions 1 and 2, in this
  order. Without the reference the two regions are left, and resolving fails.
\<close>

theorem nested_regions_are_stitched_in_order_witness:
  "op_regions (nested_operations[0 := (nested_operations ! 0)
       \<lparr>op_regions := [[\<lparr>block_arguments = [], block_operations = [2]\<rparr>],
                        [\<lparr>block_arguments = [], block_operations = [3]\<rparr>]]\<rparr>] ! 0) =
     [the (snd (nested_regions ! 1)), the (snd (nested_regions ! 2))] \<and>
   count_list (concat (map snd [(0::nat, [1::nat, 2])])) 1 = 1 \<and>
   ResolveFunctions sample_environment nested_file nested_regions [] nested_operations =
     (Inl Failed, [Error ''Failed to resolve functions.''])"
proof -
  let ?left = "[(UnknownLoc, None),
      (UnknownLoc, Some [\<lparr>block_arguments = [], block_operations = [2]\<rparr>]),
      (UnknownLoc, Some [\<lparr>block_arguments = [], block_operations = [3]\<rparr>])]"
  let ?ops = "nested_operations[0 := (nested_operations ! 0)
       \<lparr>op_regions := [[\<lparr>block_arguments = [], block_operations = [2]\<rparr>],
                        [\<lparr>block_arguments = [], block_operations = [3]\<rparr>]]\<rparr>]"
  let ?main = "[\<lparr>func_location = UnknownLoc, func_name = string_bytes ''main'',
          func_argument_types = [], func_result_types = [], func_attributes = [],
          func_body = [\<lparr>block_arguments = [], block_operations = [0, 1]\<rparr>]\<rparr>]"
  note t = nested_regions_are_stitched_in_order
    [where refs = "[(0, [1, 2])]" and regions = ?left and ops = nested_operations
       and regions' = "[(UnknownLoc, None), (UnknownLoc, None), (UnknownLoc, None)]"
       and ops' = ?ops and env = sample_environment and bef_file = nested_file
       and ?regions0.0 = nested_regions and funcs = ?main and ds = "[]"
       and left = ?left and ?funcs1.0 = ?main and pending = "[]" and ?regions2.0 = ?left
       and ?ops2.0 = nested_operations and j = 1]
  have d: "distinct (map fst [(0::nat, [1::nat, 2])])"
    by simp
  from t nested_pass_two d
  have "\<forall>(op, indices) \<in> set [(0::nat, [1::nat, 2])].
          length (op_regions (?ops ! op)) = length indices \<and>
          (\<forall>i < length indices. snd (?left ! (indices ! i)) = Some (op_regions (?ops ! op) ! i))"
    by blast
  then have 1: "op_regions (?ops ! 0) =
      [the (snd (nested_regions ! 1)), the (snd (nested_regions ! 2))]"
    by (simp add: nested_regions_def nested_operations_def)
  from t nested_resolved d obtain regions1 where
    "ResolveTopLevel sample_environment nested_operations (bef_function_index nested_file) 0
       nested_regions [] = Inr (regions1, ?main)"
    "\<forall>j < length regions1. snd (regions1 ! j) \<noteq> None \<longrightarrow>
        count_list (concat (map snd [(0::nat, [1::nat, 2])])) j = 1"
    by blast
  with nested_top_level have 2: "count_list (concat (map snd [(0::nat, [1::nat, 2])])) 1 = 1"
    by simp
  have "ResolveNestedRegions [] ?left nested_operations = Inr (?left, nested_operations)"
    by simp
  moreover have "(1::nat) < length ?left \<and> snd (?left ! 1) \<noteq> None"
    by simp
  ultimately have 3: "ResolveFunctions sample_environment nested_file nested_regions [] nested_operations =
     (Inl Failed, [Error ''Failed to resolve functions.''])"
    using t nested_top_level by blast
  from 1 2 3 show ?thesis
    by blast
qed


subsection \<open>The values of the registers\<close>

lemma defined_values_update:
  "defined_values (table[i := reg]) \<subseteq> defined_values table \<union> {v. reg_value reg = Some v}"
  using set_update_subset_insert [of table i reg]
  by (auto simp: defined_values_def)

lemma defined_values_nth:
  "i < length table \<Longrightarrow> reg_value (table ! i) = Some v \<Longrightarrow> v \<in> defined_values table"
  by (auto simp: defined_values_def)

lemma register_values_defined:
  "register_values table regs = Inr vs \<Longrightarrow>
     list_all2 (\<lambda>a v. 0 \<le> a \<and> nat a < length table \<and> reg_value (table ! nat a) = Some v)
       regs vs"
  by (induction regs arbitrary: vs)
     (auto simp: GetRegister_def split: sum.splits option.splits if_splits)

lemma register_values_subset:
  assumes "register_values table regs = Inr vs"
  shows "set vs \<subseteq> defined_values table"
proof
  fix v
  assume "v \<in> set vs"
  then obtain k where k: "k < length vs" "vs ! k = v"
    by (auto simp: in_set_conv_nth)
  from register_values_defined [OF assms] k
  have "nat (regs ! k) < length table \<and> reg_value (table ! nat (regs ! k)) = Some v"
    by (auto simp: list_all2_conv_all_nth)
  then show "v \<in> defined_values table"
    by (auto intro: defined_values_nth)
qed

lemma register_result_types_length:
  "register_result_types table regs = Inr ts \<Longrightarrow> length ts = length regs"
  by (induction regs arbitrary: ts) (auto split: sum.splits)

lemma AddDefinition_values:
  assumes "AddDefinition v register_index st = (Inr u, st')"
  shows "defined_values (register_table st') \<subseteq> insert v (defined_values (register_table st))"
  using AddDefinition_Inr [OF assms]
    defined_values_update [of "register_table st" "nat (int_of_size_t register_index)"
      "(register_table st ! nat (int_of_size_t register_index))\<lparr>reg_value := Some v\<rparr>"]
  by auto

lemma AddDefinitions_values:
  assumes "AddDefinitions kern op ts i entry_offset results st = (Inr u, st')"
  shows "defined_values (register_table st') \<subseteq>
           defined_values (register_table st) \<union>
           {OpResult op k (ts ! k) | k. i \<le> k \<and> k < i + length results}"
  using assms
proof (induction results arbitrary: i entry_offset st)
  case Nil
  then show ?case by simp
next
  case (Cons register_index rest)
  from Cons.prems obtain st1 n reg_info entries where
    d: "AddDefinition (OpResult op i (ts ! i)) register_index st = (Inr (), st1)" and
    g: "GetRegister (register_table st1) (int_of_size_t register_index) = Inr reg_info" and
    r: "AddDefinitions kern op ts (i + 1) (entry_offset + n) rest
          (st1\<lparr>register_table :=
             (register_table st1)[nat (int_of_size_t register_index) :=
                reg_info\<lparr>usedbys := entries\<rparr>]\<rparr>) = (Inr u, st')"
    by (auto split: prod.splits sum.splits)
  from g have reg: "nat (int_of_size_t register_index) < length (register_table st1)"
    "reg_info = register_table st1 ! nat (int_of_size_t register_index)"
    by (auto simp: GetRegister_def split: if_splits)
  have "defined_values ((register_table st1)[nat (int_of_size_t register_index) :=
        reg_info\<lparr>usedbys := entries\<rparr>])
      \<subseteq> defined_values (register_table st1)"
    using defined_values_update [of "register_table st1" "nat (int_of_size_t register_index)"
      "reg_info\<lparr>usedbys := entries\<rparr>"] reg
    by (auto intro: defined_values_nth)
  with Cons.IH [OF r] AddDefinition_values [OF d]
  have "defined_values (register_table st') \<subseteq>
      insert (OpResult op i (ts ! i)) (defined_values (register_table st)) \<union>
      {OpResult op k (ts ! k) | k. i + 1 \<le> k \<and> k < i + 1 + length rest}"
    by auto
  also have "\<dots> \<subseteq> defined_values (register_table st) \<union>
      {OpResult op k (ts ! k) | k. i \<le> k \<and> k < i + length (register_index # rest)}"
    by auto
  finally show ?case .
qed

lemma AddArgumentDefinitions_values:
  assumes "AddArgumentDefinitions args regs st = (Inr u, st')"
  shows "defined_values (register_table st') \<subseteq> defined_values (register_table st) \<union> set args \<and>
         operations st' = operations st"
  using assms
proof (induction regs arbitrary: args st)
  case Nil
  then show ?case by simp
next
  case (Cons register_index rest)
  from Cons.prems obtain arg args' st1 where
    a: "args = arg # args'" and
    d: "AddDefinition arg register_index st = (Inr (), st1)" and
    r: "AddArgumentDefinitions args' rest st1 = (Inr u, st')"
    by (auto split: list.splits prod.splits sum.splits)
  from AddDefinition_Inr [OF d] have "operations st1 = operations st"
    by simp
  with Cons.IH [OF r] AddDefinition_values [OF d] a show ?case
    by auto
qed

lemma ReadUsedBys_values:
  "ReadUsedBys kern i entry_offset regs table = Inr table' \<Longrightarrow>
     defined_values table' \<subseteq> defined_values table"
proof (induction regs arbitrary: i entry_offset table)
  case Nil
  then show ?case by simp
next
  case (Cons register_index rest)
  from Cons.prems obtain n entries where
    b: "nat (int_of_size_t register_index) < length table" and
    r: "ReadUsedBys kern (i + 1) (entry_offset + n) rest
          (table[nat (int_of_size_t register_index) :=
             (table ! nat (int_of_size_t register_index))\<lparr>usedbys := entries\<rparr>]) = Inr table'"
    by (auto simp: GetRegister_def split: sum.splits if_splits)
  have "defined_values (table[nat (int_of_size_t register_index) :=
        (table ! nat (int_of_size_t register_index))\<lparr>usedbys := entries\<rparr>])
      \<subseteq> defined_values table"
    using defined_values_update [of table "nat (int_of_size_t register_index)"
      "(table ! nat (int_of_size_t register_index))\<lparr>usedbys := entries\<rparr>"] b
    by (auto intro: defined_values_nth)
  with Cons.IH [OF r] show ?case
    by auto
qed

lemma ReadPseudoOp_values:
  assumes "ReadPseudoOp env kernel_words blk st = (Inr u, st')"
  shows "defined_values (register_table st') \<subseteq>
           defined_values (register_table st) \<union> set (entry_arguments blk) \<and>
         operations st' = operations st"
proof -
  from assms obtain kern results st1 table u1 where
    a: "AddArgumentDefinitions (entry_arguments blk) results st = (Inr u1, st1)" and
    b: "ReadUsedBys kern 0 (length results) results (register_table st1) = Inr table" and
    c: "register_table st' = table" "operations st' = operations st1"
    by (auto simp: ReadPseudoOp_def ReadArgumentsPseudoKernel_def
             split: prod.splits sum.splits option.splits if_splits)
  from AddArgumentDefinitions_values [OF a] ReadUsedBys_values [OF b] c show ?thesis
    by auto
qed

lemma ReadKernel_values:
  assumes "ReadKernel env bef_file kernel_words offset st = (Inr op, st')"
  shows "\<exists>new_op. op = length (operations st) \<and> operations st' = operations st @ [new_op] \<and>
           set (op_operands new_op) \<subseteq> defined_values (register_table st) \<and>
           defined_values (register_table st') \<subseteq>
             defined_values (register_table st) \<union>
             {OpResult op k (op_types new_op ! k) | k. k < length (op_types new_op)}"
proof -
  from ReadKernel_Inr [OF assms]
  obtain kern loc arguments operands special_attribute and attribute_offsets :: "nat list"
    and attrs r2 fns callees num_regions results ts st2 where k:
      "register_values (register_table st) (map int_of_size_t arguments) = Inr operands"
      "register_result_types (register_table st) (map int_of_size_t results) = Inr ts"
      "AddDefinitions kern (length (operations st)) ts 0
        (length arguments + length attribute_offsets + length fns + length results) results
        (st\<lparr>attribute_names := r2,
            operations := operations st @
              [\<lparr>op_name = bef_kernels bef_file ! kernel_code kern,
                op_location = loc,
                op_operands = operands,
                op_attributes =
                  (if special_attribute = Some (kNonStrict env)
                   then [(string_bytes ''bef.nonstrict'', UnitAttr)] else [])
                  @ attrs @ callees,
                op_types = ts,
                op_regions = replicate num_regions []\<rparr>]\<rparr>) = (Inr (), st2)"
      "op = length (operations st)"
      "st' = (if 0 < num_regions
             then st2\<lparr>region_references :=
                    region_references_insert (region_references st2) (length (operations st))
                      fns\<rparr>
             else st2)"
    by blast
  let ?new = "\<lparr>op_name = bef_kernels bef_file ! kernel_code kern,
                op_location = loc,
                op_operands = operands,
                op_attributes =
                  (if special_attribute = Some (kNonStrict env)
                   then [(string_bytes ''bef.nonstrict'', UnitAttr)] else [])
                  @ attrs @ callees,
                op_types = ts,
                op_regions = replicate num_regions []\<rparr>"
  from AddDefinitions_Inr [OF k(3)] k(5) have o: "operations st' = operations st @ [?new]"
    by (simp split: if_splits)
  from k(5) have t: "register_table st' = register_table st2"
    by (simp split: if_splits)
  from AddDefinitions_values [OF k(3)] register_result_types_length [OF k(2)] t k(4)
  have "defined_values (register_table st') \<subseteq>
      defined_values (register_table st) \<union> {OpResult op k (ts ! k) | k. k < length ts}"
    by simp
  with o register_values_subset [OF k(1)] k(4) show ?thesis
    by (intro exI [of _ ?new]) simp
qed

subsection \<open>Operands are defined earlier in the block\<close>

lemma value_available_mono:
  "value_available args ops earlier v \<Longrightarrow> set earlier \<subseteq> set earlier' \<Longrightarrow>
     value_available args (ops @ later) earlier' v"
  by (cases v) (auto simp: nth_append)

lemma operands_defined_earlier_append:
  assumes "operands_defined_earlier ops blk"
    and "\<forall>id \<in> set (block_operations blk). id < length ops"
  shows "operands_defined_earlier (ops @ later) blk"
  unfolding operands_defined_earlier_def
proof (intro allI impI ballI)
  fix k v
  assume k: "k < length (block_operations blk)"
    and v: "v \<in> set (op_operands ((ops @ later) ! (block_operations blk ! k)))"
  from assms(2) k have "block_operations blk ! k < length ops"
    by simp
  with v have "v \<in> set (op_operands (ops ! (block_operations blk ! k)))"
    by (simp add: nth_append)
  with assms(1) k
  have "value_available (block_arguments blk) ops (take k (block_operations blk)) v"
    by (simp add: operands_defined_earlier_def)
  then show "value_available (block_arguments blk) (ops @ later) (take k (block_operations blk)) v"
    by (rule value_available_mono) auto
qed

lemma operands_defined_earlier_step:
  assumes "operands_defined_earlier ops blk"
    and "\<forall>id \<in> set (block_operations blk). id < length ops"
    and "\<forall>v \<in> set (op_operands new_op).
           value_available (block_arguments blk) ops (block_operations blk) v"
  shows "operands_defined_earlier (ops @ [new_op])
           (blk\<lparr>block_operations := block_operations blk @ [length ops]\<rparr>)"
  unfolding operands_defined_earlier_def
proof (intro allI impI ballI)
  let ?blk = "blk\<lparr>block_operations := block_operations blk @ [length ops]\<rparr>"
  fix k v
  assume k: "k < length (block_operations ?blk)"
    and v: "v \<in> set (op_operands ((ops @ [new_op]) ! (block_operations ?blk ! k)))"
  show "value_available (block_arguments ?blk) (ops @ [new_op]) (take k (block_operations ?blk)) v"
  proof (cases "k < length (block_operations blk)")
    case True
    with assms(2) have "block_operations blk ! k < length ops"
      by simp
    with v True have "v \<in> set (op_operands (ops ! (block_operations blk ! k)))"
      by (simp add: nth_append)
    with assms(1) True
    have "value_available (block_arguments blk) ops (take k (block_operations blk)) v"
      by (simp add: operands_defined_earlier_def)
    then have "value_available (block_arguments blk) (ops @ [new_op])
        (take k (block_operations blk)) v"
      by (rule value_available_mono) auto
    with True show ?thesis
      by simp
  next
    case False
    with k have e: "k = length (block_operations blk)"
      by simp
    with v have "v \<in> set (op_operands new_op)"
      by (simp add: nth_append)
    with assms(3) have "value_available (block_arguments blk) ops (block_operations blk) v"
      by simp
    then have "value_available (block_arguments blk) (ops @ [new_op]) (block_operations blk) v"
      by (rule value_available_mono) auto
    with e show ?thesis
      by simp
  qed
qed

lemma ReadKernels_loop_operands:
  assumes "ReadKernels_loop env bef_file kernel_words entries blk st = (Inr blk', st')"
    and "\<forall>id \<in> set (block_operations blk). id < length (operations st)"
    and "\<forall>v \<in> defined_values (register_table st).
           value_available (block_arguments blk) (operations st) (block_operations blk) v"
    and "operands_defined_earlier (operations st) blk"
  shows "block_arguments blk' = block_arguments blk \<and>
         (\<forall>id \<in> set (block_operations blk'). id < length (operations st')) \<and>
         (\<forall>v \<in> defined_values (register_table st').
            value_available (block_arguments blk') (operations st') (block_operations blk') v) \<and>
         operands_defined_earlier (operations st') blk'"
  using assms
proof (induction entries arbitrary: blk st)
  case Nil
  then show ?case by simp
next
  case (Cons entry entries)
  from Cons.prems(1) obtain op st1 where
    k: "ReadKernel env bef_file kernel_words (fst entry) st = (Inr op, st1)" and
    r: "ReadKernels_loop env bef_file kernel_words entries
          (blk\<lparr>block_operations := block_operations blk @ [op]\<rparr>) st1 = (Inr blk', st')"
    by (auto split: prod.splits sum.splits)
  let ?blk = "blk\<lparr>block_operations := block_operations blk @ [op]\<rparr>"
  from ReadKernel_values [OF k] obtain new_op where n:
    "op = length (operations st)" "operations st1 = operations st @ [new_op]"
    "set (op_operands new_op) \<subseteq> defined_values (register_table st)"
    "defined_values (register_table st1) \<subseteq>
       defined_values (register_table st) \<union>
       {OpResult op k (op_types new_op ! k) | k. k < length (op_types new_op)}"
    by blast
  from Cons.prems(2) n(1,2) have ids: "\<forall>id \<in> set (block_operations ?blk). id < length (operations st1)"
    by auto
  have inv: "\<forall>v \<in> defined_values (register_table st1).
      value_available (block_arguments ?blk) (operations st1) (block_operations ?blk) v"
  proof
    fix v
    assume "v \<in> defined_values (register_table st1)"
    with n(4) consider "v \<in> defined_values (register_table st)" |
      k where "k < length (op_types new_op)" "v = OpResult op k (op_types new_op ! k)"
      by auto
    then show "value_available (block_arguments ?blk) (operations st1) (block_operations ?blk) v"
    proof cases
      case 1
      with Cons.prems(3)
      have "value_available (block_arguments blk) (operations st) (block_operations blk) v"
        by simp
      then have "value_available (block_arguments blk) (operations st @ [new_op])
          (block_operations blk @ [op]) v"
        by (rule value_available_mono) auto
      with n(2) show ?thesis
        by simp
    next
      case 2
      with n(1,2) show ?thesis
        by simp
    qed
  qed
  from Cons.prems(2,3,4) n(1,2,3)
  have ode: "operands_defined_earlier (operations st1) ?blk"
    using operands_defined_earlier_step [of "operations st" blk new_op]
    by auto
  from Cons.IH [OF r ids inv ode] show ?case
    by auto
qed

lemma entry_arguments_available:
  "v \<in> set (entry_arguments blk) \<Longrightarrow> value_available (block_arguments blk) ops earlier v"
  by (auto simp: entry_arguments_def)

lemma ReadKernels_operands:
  assumes "ReadKernels env bef_file loc kernel_table result_regs kernel_words blk st = (Inr blk', st')"
    and "block_operations blk = []"
    and "defined_values (register_table st) = {}"
  shows "block_arguments blk' = block_arguments blk \<and>
         (\<forall>id \<in> set (block_operations blk'). id < length (operations st')) \<and>
         operands_defined_earlier (operations st') blk'"
proof -
  from assms(1) obtain r1 st1 blk2 st2 results where
    p: "(if block_arguments blk = [] then (Inr (), st\<lparr>attribute_names := r1\<rparr>)
         else ReadPseudoOp env kernel_words blk (st\<lparr>attribute_names := r1\<rparr>)) = (Inr (), st1)" and
    l: "ReadKernels_loop env bef_file kernel_words
         (drop (if block_arguments blk = [] then 0 else 1) kernel_table) blk st1 = (Inr blk2, st2)" and
    v: "register_values (register_table st2) result_regs = Inr results" and
    blk': "blk' = blk2\<lparr>block_operations := block_operations blk2 @ [length (operations st2)]\<rparr>" and
    st': "st' = st2\<lparr>operations := operations st2 @ [return_op loc results]\<rparr>"
    by (elim ReadKernels_Inr)
  have d: "defined_values (register_table st1) \<subseteq> set (entry_arguments blk)"
  proof (cases "block_arguments blk = []")
    case True
    with p assms(3) show ?thesis
      by auto
  next
    case False
    with p have "ReadPseudoOp env kernel_words blk (st\<lparr>attribute_names := r1\<rparr>) = (Inr (), st1)"
      by simp
    from ReadPseudoOp_values [OF this] assms(3) show ?thesis
      by simp
  qed
  from assms(2) have ids: "\<forall>id \<in> set (block_operations blk). id < length (operations st1)"
    by simp
  from d have inv: "\<forall>v \<in> defined_values (register_table st1).
      value_available (block_arguments blk) (operations st1) (block_operations blk) v"
    by (auto intro: entry_arguments_available)
  from assms(2) have ode: "operands_defined_earlier (operations st1) blk"
    by (simp add: operands_defined_earlier_def)
  from ReadKernels_loop_operands [OF l ids inv ode] have loop:
    "block_arguments blk2 = block_arguments blk"
    "\<forall>id \<in> set (block_operations blk2). id < length (operations st2)"
    "\<forall>v \<in> defined_values (register_table st2).
       value_available (block_arguments blk2) (operations st2) (block_operations blk2) v"
    "operands_defined_earlier (operations st2) blk2"
    by auto
  from register_values_subset [OF v] loop(3)
  have "\<forall>v \<in> set (op_operands (return_op loc results)).
      value_available (block_arguments blk2) (operations st2) (block_operations blk2) v"
    by (auto simp: return_op_def)
  from operands_defined_earlier_step [OF loop(4) loop(2) this] blk' st'
  have "operands_defined_earlier (operations st') blk'"
    by simp
  moreover from loop(2) blk' st'
  have "\<forall>id \<in> set (block_operations blk'). id < length (operations st')"
    by auto
  moreover from loop(1) blk' have "block_arguments blk' = block_arguments blk"
    by simp
  ultimately show ?thesis
    by simp
qed

lemma ReadRegisterTable_values:
  "ReadRegisterTable env bef_file function_reader (st\<lparr>register_table := []\<rparr>) = Inr (r1, st1) \<Longrightarrow>
     defined_values (register_table st1) = {}"
  by (auto simp: ReadRegisterTable_def defined_values_def
           split: prod.splits sum.splits option.splits if_splits)

lemma ReadFunction_operands:
  assumes "ReadFunction env bef_file bef_function function_data st0 = (Inr (loc, body), st')"
  shows "\<exists>blk. body = [blk] \<and> block_arguments blk = argument_types bef_function \<and>
           (\<forall>id \<in> set (block_operations blk). id < length (operations st')) \<and>
           operands_defined_earlier (operations st') blk"
proof -
  from assms obtain r1 r2 st1 kernel_table result_regs kernel_words blk where
    t: "ReadRegisterTable env bef_file r1 (st0\<lparr>register_table := []\<rparr>) = Inr (r2, st1)" and
    k: "ReadKernels env bef_file loc kernel_table result_regs kernel_words
       \<lparr>block_arguments = argument_types bef_function, block_operations = []\<rparr> st1 = (Inr blk, st')" and
    b: "body = [blk]"
    by (elim ReadFunction_Inr)
  from ReadKernels_operands [OF k _ ReadRegisterTable_values [OF t]] b show ?thesis
    by simp
qed

subsection \<open>Undefined and redefined registers\<close>

lemma ReadKernels_loop_split:
  "ReadKernels_loop env bef_file kernel_words (entries1 @ entry # entries2) blk st = (Inr blk', st') \<Longrightarrow>
     \<exists>blk1 st1 op st2.
       ReadKernels_loop env bef_file kernel_words entries1 blk st = (Inr blk1, st1) \<and>
       ReadKernel env bef_file kernel_words (fst entry) st1 = (Inr op, st2)"
proof (induction entries1 arbitrary: blk st)
  case Nil
  then show ?case
    by (auto split: prod.splits sum.splits)
next
  case (Cons first entries1)
  from Cons.prems obtain op st1 where
    k: "ReadKernel env bef_file kernel_words (fst first) st = (Inr op, st1)" and
    r: "ReadKernels_loop env bef_file kernel_words (entries1 @ entry # entries2)
          (blk\<lparr>block_operations := block_operations blk @ [op]\<rparr>) st1 = (Inr blk', st')"
    by (auto split: prod.splits sum.splits)
  from Cons.IH [OF r] k show ?case
    by simp
qed

lemma AddDefinitions_fresh:
  assumes "AddDefinitions kern op ts i entry_offset results st = (Inr u, st')"
  shows "\<forall>r \<in> set results. 0 \<le> int_of_size_t r \<and>
           nat (int_of_size_t r) < length (register_table st) \<and>
           reg_value (register_table st ! nat (int_of_size_t r)) = None"
  using assms
proof (induction results arbitrary: i entry_offset st)
  case Nil
  then show ?case by simp
next
  case (Cons register_index rest)
  from Cons.prems obtain st1 n reg_info entries where
    d: "AddDefinition (OpResult op i (ts ! i)) register_index st = (Inr (), st1)" and
    g: "GetRegister (register_table st1) (int_of_size_t register_index) = Inr reg_info" and
    r: "AddDefinitions kern op ts (i + 1) (entry_offset + n) rest
          (st1\<lparr>register_table :=
             (register_table st1)[nat (int_of_size_t register_index) :=
                reg_info\<lparr>usedbys := entries\<rparr>]\<rparr>) = (Inr u, st')"
    by (auto split: prod.splits sum.splits)
  note a = AddDefinition_Inr [OF d]
  from g have reg: "reg_info = register_table st1 ! nat (int_of_size_t register_index)"
    by (auto simp: GetRegister_def split: if_splits)
  have "0 \<le> int_of_size_t r \<and> nat (int_of_size_t r) < length (register_table st) \<and>
      reg_value (register_table st ! nat (int_of_size_t r)) = None"
    if "r \<in> set rest" for r
  proof -
    let ?i = "nat (int_of_size_t register_index)"
    from Cons.IH [OF r] that a reg
    have p: "0 \<le> int_of_size_t r" and b: "nat (int_of_size_t r) < length (register_table st)" and
      v: "reg_value (((register_table st)
              [?i := (register_table st ! ?i)\<lparr>reg_value :=
                  Some (OpResult op i (ts ! i))\<rparr>])
              [?i := (register_table st ! ?i)\<lparr>reg_value :=
                  Some (OpResult op i (ts ! i)), usedbys := entries\<rparr>] ! nat (int_of_size_t r)) = None"
      by auto
    from v b a have "nat (int_of_size_t r) \<noteq> ?i"
      by auto
    with v b p show ?thesis
      by simp
  qed
  with a show ?case
    by simp
qed

lemma ReadKernel_registers:
  assumes "ReadKernel env bef_file kernel_words offset st = (Inr op, st')"
  shows "\<exists>kern arguments results.
      BEFKernel kernel_words (offset div kKernelEntryAlignment env) = Inr kern \<and>
      GetKernelEntries kern 0 (num_arguments kern) = Inr arguments \<and>
      (\<forall>a \<in> set arguments. 0 \<le> int_of_size_t a \<and>
         nat (int_of_size_t a) < length (register_table st) \<and>
         reg_value (register_table st ! nat (int_of_size_t a)) \<noteq> None) \<and>
      GetKernelEntries kern (num_arguments kern + num_attributes kern + num_functions kern)
        (num_results kern) = Inr results \<and>
      (\<forall>r \<in> set results. 0 \<le> int_of_size_t r \<and>
         nat (int_of_size_t r) < length (register_table st) \<and>
         reg_value (register_table st ! nat (int_of_size_t r)) = None)"
proof -
  from ReadKernel_Inr [OF assms]
  obtain kern loc arguments operands special_attribute r1 attribute_offsets attrs r2 fns
    callees num_regions results ts st2 where k:
      "BEFKernel kernel_words (offset div kKernelEntryAlignment env) = Inr kern"
      "GetKernelEntries kern 0 (num_arguments kern) = Inr arguments"
      "register_values (register_table st) (map int_of_size_t arguments) = Inr operands"
      "GetKernelEntries kern (length arguments) (num_attributes kern) = Inr attribute_offsets"
      "ResolveAttributes bef_file 0 attribute_offsets r1 = (attrs, r2)"
      "GetKernelEntries kern (length arguments + length attribute_offsets) (num_functions kern)
        = Inr fns"
      "GetKernelEntries kern (length arguments + length attribute_offsets + length fns)
        (num_results kern) = Inr results"
      "AddDefinitions kern (length (operations st)) ts 0
        (length arguments + length attribute_offsets + length fns + length results) results
        (st\<lparr>attribute_names := r2,
            operations := operations st @
              [\<lparr>op_name = bef_kernels bef_file ! kernel_code kern,
                op_location = loc,
                op_operands = operands,
                op_attributes =
                  (if special_attribute = Some (kNonStrict env)
                   then [(string_bytes ''bef.nonstrict'', UnitAttr)] else [])
                  @ attrs @ callees,
                op_types = ts,
                op_regions = replicate num_regions []\<rparr>]\<rparr>) = (Inr (), st2)"
    by blast
  from k(7) GetKernelEntries_length [OF k(2)] GetKernelEntries_length [OF k(4)]
    GetKernelEntries_length [OF k(6)]
  have e: "GetKernelEntries kern (num_arguments kern + num_attributes kern + num_functions kern)
        (num_results kern) = Inr results"
    by simp
  from register_values_defined [OF k(3)]
  have a: "\<forall>a \<in> set arguments. 0 \<le> int_of_size_t a \<and>
      nat (int_of_size_t a) < length (register_table st) \<and>
      reg_value (register_table st ! nat (int_of_size_t a)) \<noteq> None"
    by (auto simp: list_all2_conv_all_nth in_set_conv_nth)
  from AddDefinitions_fresh [OF k(8)]
  have r: "\<forall>r \<in> set results. 0 \<le> int_of_size_t r \<and>
      nat (int_of_size_t r) < length (register_table st) \<and>
      reg_value (register_table st ! nat (int_of_size_t r)) = None"
    by simp
  from k(1,2) a e r show ?thesis
    by blast
qed

lemma register_values_undefined:
  "a \<in> set regs \<Longrightarrow> (0 \<le> a \<Longrightarrow> nat a < length table \<Longrightarrow> reg_value (table ! nat a) = None) \<Longrightarrow>
     \<exists>e. register_values table regs = Inl e"
  by (induction regs) (auto simp: GetRegister_def split: sum.splits option.splits)

lemma ReadKernel_undefined:
  assumes "BEFKernel kernel_words (offset div kKernelEntryAlignment env) = Inr kern"
    and "GetKernelEntries kern 0 (num_arguments kern) = Inr arguments"
    and "a \<in> set arguments"
    and "0 \<le> int_of_size_t a \<Longrightarrow> nat (int_of_size_t a) < length (register_table st) \<Longrightarrow>
           reg_value (register_table st ! nat (int_of_size_t a)) = None"
  shows "\<exists>e. ReadKernel env bef_file kernel_words offset st =
           (Inl e, fail_with ''Using undefined registers.'' e st)"
proof -
  from assms(3) have "int_of_size_t a \<in> set (map int_of_size_t arguments)"
    by simp
  from register_values_undefined [OF this assms(4)] obtain e where
    "register_values (register_table st) (map int_of_size_t arguments) = Inl e"
    by blast
  with assms(1,2) show ?thesis
    by (auto simp: ReadKernel_def fail_with_def split: option.splits)
qed

lemma AddDefinition_redefinition:
  "0 \<le> int_of_size_t register_index \<Longrightarrow>
   nat (int_of_size_t register_index) < length (register_table st) \<Longrightarrow>
   reg_value (register_table st ! nat (int_of_size_t register_index)) \<noteq> None \<Longrightarrow>
     AddDefinition v register_index st = (Inl Failed, EmitError ''Redefinition of registers'' st)"
  by (simp add: AddDefinition_def GetRegister_def)


subsection \<open>Definitions before uses\<close>

lemma ReadKernels_loop_fails:
  "ReadKernels_loop env bef_file kernel_words entries1 blk st = (Inr blk1, st1) \<Longrightarrow>
   ReadKernel env bef_file kernel_words (fst entry) st1 = (Inl e, s) \<Longrightarrow>
     ReadKernels_loop env bef_file kernel_words (entries1 @ entry # entries2) blk st = (Inl e, s)"
proof (induction entries1 arbitrary: blk st)
  case Nil
  then show ?case by simp
next
  case (Cons first entries1)
  from Cons.prems(1) obtain op st2 where
    k: "ReadKernel env bef_file kernel_words (fst first) st = (Inr op, st2)" and
    r: "ReadKernels_loop env bef_file kernel_words entries1
          (blk\<lparr>block_operations := block_operations blk @ [op]\<rparr>) st2 = (Inr blk1, st1)"
    by (auto split: prod.splits sum.splits)
  from Cons.IH [OF r Cons.prems(2)] k show ?case
    by simp
qed

lemma ReadKernels_fails:
  assumes "ReadInt (attribute_names st) = (num_kernels, n1)"
    and "num_kernels = None \<or> num_kernels = Some (length kernel_table)"
    and "(if block_arguments blk = [] then (Inr (), st\<lparr>attribute_names := n1\<rparr>)
          else ReadPseudoOp env kernel_words blk (st\<lparr>attribute_names := n1\<rparr>)) = (Inr (), st2)"
    and "ReadKernels_loop env bef_file kernel_words
           (drop (if block_arguments blk = [] then 0 else 1) kernel_table) blk st2 = (Inl e, s)"
  shows "ReadKernels env bef_file loc kernel_table result_regs kernel_words blk st = (Inl e, s)"
  using assms by (auto simp: ReadKernels_def)

lemma ReadFunction_fails:
  assumes "ReadInt function_data = (Some location_position_offset, f1)"
    and "GetLocationPosition bef_file location_position_offset = Some loc"
    and "ReadRegisterTable env bef_file f1 (st0\<lparr>register_table := []\<rparr>) = Inr (f2, st1)"
    and "ReadKernelTable f2 = Some (kernel_table, f3)"
    and "ReadResultRegs bef_function f3 = Some (result_regs, f4)"
    and "ReadAlignment (kKernelEntryAlignment env) f4 = Some f5"
    and "ReadKernels env bef_file loc kernel_table result_regs
           (take (length (ref_bytes f5) div kKernelEntryAlignment env)
              (kernel_stream (ref_bytes f5)))
           \<lparr>block_arguments = argument_types bef_function, block_operations = []\<rparr> st1 = (Inl e, s)"
  shows "ReadFunction env bef_file bef_function function_data st0 =
           (Inl e, fail_with ''Failed to read kernels.'' e s)"
  using assms by (simp add: ReadFunction_def)

lemma ReadKernel_redefinition:
  assumes "BEFKernel kernel_words (offset div kKernelEntryAlignment env) = Inr kern"
    and "GetKernelEntries kern (num_arguments kern + num_attributes kern + num_functions kern)
           (num_results kern) = Inr results"
    and "r \<in> set results"
    and "reg_value (register_table st ! nat (int_of_size_t r)) \<noteq> None"
  shows "\<exists>e s. ReadKernel env bef_file kernel_words offset st = (Inl e, s)"
proof (cases "ReadKernel env bef_file kernel_words offset st")
  case (Pair res s)
  show ?thesis
  proof (cases res)
    case (Inl e)
    with Pair show ?thesis
      by blast
  next
    case (Inr op)
    from ReadKernel_registers [OF Pair [unfolded Inr]] assms
    show ?thesis
      by auto
  qed
qed

text \<open>
  Claim C1. When a function body is read, it is one block, with the argument types of
  the function, and every operand of each of its operations is an argument of the block
  or a result of an operation at an earlier position of the block, also after further
  operations have been created. The decode of a function fails at a kernel that uses an
  undefined register or defines a register again: when the function reader has read the
  header of the body and has read the kernels before this one, which leaves it in state
  \<open>s3\<close>, and an argument register of the kernel is outside the register table or has no
  value in \<open>s3\<close>, \<^verbatim>\<open>ReadFunction\<close> fails, with the errors \<^verbatim>\<open>Using undefined registers.\<close>
  and \<^verbatim>\<open>Failed to read kernels.\<close> unless it crashes; and when a result register of the
  kernel has a value in \<open>s3\<close>, \<^verbatim>\<open>ReadFunction\<close> fails. For a single kernel: it is read
  only if all its argument registers have a value and none of its result registers has;
  it fails at an argument register without a value; and a definition for a register that
  has a value fails with the error \<^verbatim>\<open>Redefinition of registers\<close>. The register indices
  are those that \<^verbatim>\<open>GetRegister\<close> receives, as an \<^verbatim>\<open>int\<close>.
\<close>

theorem undefined_or_redefined_register_fails_function:
  "(ReadFunction env bef_file bef_function function_data st0 = (Inr (loc, body), st') \<longrightarrow>
      (\<exists>blk. body = [blk] \<and> block_arguments blk = argument_types bef_function \<and>
         operands_defined_earlier (operations st' @ later_operations) blk)) \<and>
   (ReadInt function_data = (Some location_position_offset, f1) \<and>
    GetLocationPosition bef_file location_position_offset = Some loc0 \<and>
    ReadRegisterTable env bef_file f1 (s0\<lparr>register_table := []\<rparr>) = Inr (f2, s1) \<and>
    ReadKernelTable f2 = Some (kernel_table, f3) \<and>
    ReadResultRegs bef_function f3 = Some (result_regs, f4) \<and>
    ReadAlignment (kKernelEntryAlignment env) f4 = Some f5 \<and>
    kernel_words = take (length (ref_bytes f5) div kKernelEntryAlignment env)
                     (kernel_stream (ref_bytes f5)) \<and>
    blk0 = \<lparr>block_arguments = argument_types bef_function, block_operations = []\<rparr> \<and>
    ReadInt (attribute_names s1) = (num_kernels, n1) \<and>
    (num_kernels = None \<or> num_kernels = Some (length kernel_table)) \<and>
    (if argument_types bef_function = [] then (Inr (), s1\<lparr>attribute_names := n1\<rparr>)
     else ReadPseudoOp env kernel_words blk0 (s1\<lparr>attribute_names := n1\<rparr>)) = (Inr (), s2) \<and>
    drop (if argument_types bef_function = [] then 0 else 1) kernel_table =
      entries1 @ entry # entries2 \<and>
    ReadKernels_loop env bef_file kernel_words entries1 blk0 s2 = (Inr blk3, s3) \<and>
    BEFKernel kernel_words (fst entry div kKernelEntryAlignment env) = Inr kern \<longrightarrow>
      (GetKernelEntries kern 0 (num_arguments kern) = Inr arguments \<and> a \<in> set arguments \<and>
       (0 \<le> int_of_size_t a \<and> nat (int_of_size_t a) < length (register_table s3) \<longrightarrow>
          reg_value (register_table s3 ! nat (int_of_size_t a)) = None) \<longrightarrow>
         (\<exists>e. ReadFunction env bef_file bef_function function_data s0 =
            (Inl e, fail_with ''Failed to read kernels.'' e
                      (fail_with ''Using undefined registers.'' e s3)))) \<and>
      (GetKernelEntries kern (num_arguments kern + num_attributes kern + num_functions kern)
         (num_results kern) = Inr results \<and> r \<in> set results \<and>
       reg_value (register_table s3 ! nat (int_of_size_t r)) \<noteq> None \<longrightarrow>
         (\<exists>e s. ReadFunction env bef_file bef_function function_data s0 = (Inl e, s)))) \<and>
   (ReadKernels_loop env bef_file words (before @ current # after) blk5 st5 = (Inr blk6, st6) \<longrightarrow>
      (\<exists>blk7 st7 op st8.
         ReadKernels_loop env bef_file words before blk5 st5 = (Inr blk7, st7) \<and>
         ReadKernel env bef_file words (fst current) st7 = (Inr op, st8))) \<and>
   (ReadKernel env bef_file words offset st = (Inr op, st9) \<longrightarrow>
      (\<exists>kern arguments results.
         BEFKernel words (offset div kKernelEntryAlignment env) = Inr kern \<and>
         GetKernelEntries kern 0 (num_arguments kern) = Inr arguments \<and>
         (\<forall>a \<in> set arguments. 0 \<le> int_of_size_t a \<and>
            nat (int_of_size_t a) < length (register_table st) \<and>
            reg_value (register_table st ! nat (int_of_size_t a)) \<noteq> None) \<and>
         GetKernelEntries kern (num_arguments kern + num_attributes kern + num_functions kern)
           (num_results kern) = Inr results \<and>
         (\<forall>r \<in> set results. 0 \<le> int_of_size_t r \<and>
            nat (int_of_size_t r) < length (register_table st) \<and>
            reg_value (register_table st ! nat (int_of_size_t r)) = None))) \<and>
   (BEFKernel words (position div kKernelEntryAlignment env) = Inr kern1 \<and>
    GetKernelEntries kern1 0 (num_arguments kern1) = Inr arguments1 \<and>
    a1 \<in> set arguments1 \<and>
    (0 \<le> int_of_size_t a1 \<and> nat (int_of_size_t a1) < length (register_table s) \<longrightarrow>
       reg_value (register_table s ! nat (int_of_size_t a1)) = None) \<longrightarrow>
      (\<exists>e. ReadKernel env bef_file words position s =
         (Inl e, fail_with ''Using undefined registers.'' e s))) \<and>
   (0 \<le> int_of_size_t register_index \<and>
    nat (int_of_size_t register_index) < length (register_table st10) \<and>
    reg_value (register_table st10 ! nat (int_of_size_t register_index)) \<noteq> None \<longrightarrow>
      AddDefinition v register_index st10 =
        (Inl Failed, EmitError ''Redefinition of registers'' st10))"
proof (intro conjI impI)
  assume a: "ReadFunction env bef_file bef_function function_data st0 = (Inr (loc, body), st')"
  from ReadFunction_operands [OF a] obtain blk where
    b: "body = [blk]" "block_arguments blk = argument_types bef_function"
      "\<forall>id \<in> set (block_operations blk). id < length (operations st')"
      "operands_defined_earlier (operations st') blk"
    by blast
  with operands_defined_earlier_append [OF b(4) b(3)]
  show "\<exists>blk. body = [blk] \<and> block_arguments blk = argument_types bef_function \<and>
         operands_defined_earlier (operations st' @ later_operations) blk"
    by blast
next
  assume c: "ReadInt function_data = (Some location_position_offset, f1) \<and>
    GetLocationPosition bef_file location_position_offset = Some loc0 \<and>
    ReadRegisterTable env bef_file f1 (s0\<lparr>register_table := []\<rparr>) = Inr (f2, s1) \<and>
    ReadKernelTable f2 = Some (kernel_table, f3) \<and>
    ReadResultRegs bef_function f3 = Some (result_regs, f4) \<and>
    ReadAlignment (kKernelEntryAlignment env) f4 = Some f5 \<and>
    kernel_words = take (length (ref_bytes f5) div kKernelEntryAlignment env)
                     (kernel_stream (ref_bytes f5)) \<and>
    blk0 = \<lparr>block_arguments = argument_types bef_function, block_operations = []\<rparr> \<and>
    ReadInt (attribute_names s1) = (num_kernels, n1) \<and>
    (num_kernels = None \<or> num_kernels = Some (length kernel_table)) \<and>
    (if argument_types bef_function = [] then (Inr (), s1\<lparr>attribute_names := n1\<rparr>)
     else ReadPseudoOp env kernel_words blk0 (s1\<lparr>attribute_names := n1\<rparr>)) = (Inr (), s2) \<and>
    drop (if argument_types bef_function = [] then 0 else 1) kernel_table =
      entries1 @ entry # entries2 \<and>
    ReadKernels_loop env bef_file kernel_words entries1 blk0 s2 = (Inr blk3, s3) \<and>
    BEFKernel kernel_words (fst entry div kKernelEntryAlignment env) = Inr kern"
  have fails: "ReadFunction env bef_file bef_function function_data s0 =
      (Inl e, fail_with ''Failed to read kernels.'' e s)"
    if k: "ReadKernel env bef_file kernel_words (fst entry) s3 = (Inl e, s)" for e s
  proof -
    from c have l: "ReadKernels_loop env bef_file kernel_words entries1 blk0 s2 = (Inr blk3, s3)"
      and w: "kernel_words = take (length (ref_bytes f5) div kKernelEntryAlignment env)
                     (kernel_stream (ref_bytes f5))"
      and b: "blk0 = \<lparr>block_arguments = argument_types bef_function, block_operations = []\<rparr>"
      and d: "drop (if argument_types bef_function = [] then 0 else 1) kernel_table =
                entries1 @ entry # entries2"
      and n: "ReadInt (attribute_names s1) = (num_kernels, n1)"
        "num_kernels = None \<or> num_kernels = Some (length kernel_table)"
      and p: "(if argument_types bef_function = [] then (Inr (), s1\<lparr>attribute_names := n1\<rparr>)
               else ReadPseudoOp env kernel_words blk0 (s1\<lparr>attribute_names := n1\<rparr>)) =
              (Inr (), s2)"
      and h: "ReadInt function_data = (Some location_position_offset, f1)"
        "GetLocationPosition bef_file location_position_offset = Some loc0"
        "ReadRegisterTable env bef_file f1 (s0\<lparr>register_table := []\<rparr>) = Inr (f2, s1)"
        "ReadKernelTable f2 = Some (kernel_table, f3)"
        "ReadResultRegs bef_function f3 = Some (result_regs, f4)"
        "ReadAlignment (kKernelEntryAlignment env) f4 = Some f5"
      by blast+
    from b have a: "block_arguments blk0 = argument_types bef_function"
      by simp
    from ReadKernels_loop_fails [OF l k, of entries2] d a
    have f: "ReadKernels_loop env bef_file kernel_words
        (drop (if block_arguments blk0 = [] then 0 else 1) kernel_table) blk0 s2 = (Inl e, s)"
      by simp
    from p a
    have "(if block_arguments blk0 = [] then (Inr (), s1\<lparr>attribute_names := n1\<rparr>)
           else ReadPseudoOp env kernel_words blk0 (s1\<lparr>attribute_names := n1\<rparr>)) = (Inr (), s2)"
      by simp
    from ReadKernels_fails [OF n this f, of loc0 result_regs]
    have "ReadKernels env bef_file loc0 kernel_table result_regs kernel_words blk0 s1 = (Inl e, s)" .
    then have "ReadKernels env bef_file loc0 kernel_table result_regs
           (take (length (ref_bytes f5) div kKernelEntryAlignment env)
              (kernel_stream (ref_bytes f5)))
           \<lparr>block_arguments = argument_types bef_function, block_operations = []\<rparr> s1 = (Inl e, s)"
      unfolding w b .
    from ReadFunction_fails [OF h this] show ?thesis .
  qed
  {
    assume u: "GetKernelEntries kern 0 (num_arguments kern) = Inr arguments \<and> a \<in> set arguments \<and>
       (0 \<le> int_of_size_t a \<and> nat (int_of_size_t a) < length (register_table s3) \<longrightarrow>
          reg_value (register_table s3 ! nat (int_of_size_t a)) = None)"
    from c u ReadKernel_undefined [of kernel_words "fst entry" env kern arguments a s3 bef_file]
    obtain e where "ReadKernel env bef_file kernel_words (fst entry) s3 =
        (Inl e, fail_with ''Using undefined registers.'' e s3)"
      by auto
    from fails [OF this]
    show "\<exists>e. ReadFunction env bef_file bef_function function_data s0 =
            (Inl e, fail_with ''Failed to read kernels.'' e
                      (fail_with ''Using undefined registers.'' e s3))"
      by blast
  }
  {
    assume d: "GetKernelEntries kern (num_arguments kern + num_attributes kern + num_functions kern)
         (num_results kern) = Inr results \<and> r \<in> set results \<and>
       reg_value (register_table s3 ! nat (int_of_size_t r)) \<noteq> None"
    from c d ReadKernel_redefinition [of kernel_words "fst entry" env kern results r s3 bef_file]
    obtain e s where "ReadKernel env bef_file kernel_words (fst entry) s3 = (Inl e, s)"
      by auto
    from fails [OF this]
    show "\<exists>e s. ReadFunction env bef_file bef_function function_data s0 = (Inl e, s)"
      by blast
  }
next
  assume "ReadKernels_loop env bef_file words (before @ current # after) blk5 st5 = (Inr blk6, st6)"
  then show "\<exists>blk7 st7 op st8.
         ReadKernels_loop env bef_file words before blk5 st5 = (Inr blk7, st7) \<and>
         ReadKernel env bef_file words (fst current) st7 = (Inr op, st8)"
    by (rule ReadKernels_loop_split)
next
  assume "ReadKernel env bef_file words offset st = (Inr op, st9)"
  then show "\<exists>kern arguments results.
         BEFKernel words (offset div kKernelEntryAlignment env) = Inr kern \<and>
         GetKernelEntries kern 0 (num_arguments kern) = Inr arguments \<and>
         (\<forall>a \<in> set arguments. 0 \<le> int_of_size_t a \<and>
            nat (int_of_size_t a) < length (register_table st) \<and>
            reg_value (register_table st ! nat (int_of_size_t a)) \<noteq> None) \<and>
         GetKernelEntries kern (num_arguments kern + num_attributes kern + num_functions kern)
           (num_results kern) = Inr results \<and>
         (\<forall>r \<in> set results. 0 \<le> int_of_size_t r \<and>
            nat (int_of_size_t r) < length (register_table st) \<and>
            reg_value (register_table st ! nat (int_of_size_t r)) = None)"
    by (rule ReadKernel_registers)
next
  assume "BEFKernel words (position div kKernelEntryAlignment env) = Inr kern1 \<and>
    GetKernelEntries kern1 0 (num_arguments kern1) = Inr arguments1 \<and>
    a1 \<in> set arguments1 \<and>
    (0 \<le> int_of_size_t a1 \<and> nat (int_of_size_t a1) < length (register_table s) \<longrightarrow>
       reg_value (register_table s ! nat (int_of_size_t a1)) = None)"
  then show "\<exists>e. ReadKernel env bef_file words position s =
         (Inl e, fail_with ''Using undefined registers.'' e s)"
    by (intro ReadKernel_undefined [of words position env kern1 arguments1 a1]) simp_all
next
  assume "0 \<le> int_of_size_t register_index \<and>
    nat (int_of_size_t register_index) < length (register_table st10) \<and>
    reg_value (register_table st10 ! nat (int_of_size_t register_index)) \<noteq> None"
  then show "AddDefinition v register_index st10 =
      (Inl Failed, EmitError ''Redefinition of registers'' st10)"
    by (simp add: AddDefinition_redefinition)
qed

text \<open>
  The theorem at runs of the code: the function \<^verbatim>\<open>main\<close> of the sample is read; with the
  body whose kernel uses register 0 before any definition, and with the body whose two
  kernels both define register 0, it is not.
\<close>

lemma undefined_use_steps:
  "ReadInt undefined_use_data =
     (Some 0, \<lparr>ref_begin = 53, ref_bytes = drop 1 (ref_bytes undefined_use_data)\<rparr>)"
  "ReadRegisterTable sample_environment sample_tables
     \<lparr>ref_begin = 53, ref_bytes = drop 1 (ref_bytes undefined_use_data)\<rparr>
     (start_state\<lparr>register_table := []\<rparr>) =
   Inr (\<lparr>ref_begin = 55, ref_bytes = drop 3 (ref_bytes undefined_use_data)\<rparr>, sample_state)"
  "ReadKernelTable \<lparr>ref_begin = 55, ref_bytes = drop 3 (ref_bytes undefined_use_data)\<rparr> =
     Some ([(0, 0)], \<lparr>ref_begin = 58, ref_bytes = drop 6 (ref_bytes undefined_use_data)\<rparr>)"
  "ReadResultRegs sample_function
     \<lparr>ref_begin = 58, ref_bytes = drop 6 (ref_bytes undefined_use_data)\<rparr> =
     Some ([0], \<lparr>ref_begin = 59, ref_bytes = drop 7 (ref_bytes undefined_use_data)\<rparr>)"
  "ReadAlignment (kKernelEntryAlignment sample_environment)
     \<lparr>ref_begin = 59, ref_bytes = drop 7 (ref_bytes undefined_use_data)\<rparr> =
     Some \<lparr>ref_begin = 60, ref_bytes = drop 8 (ref_bytes undefined_use_data)\<rparr>"
  "use_kernel =
     take (length (ref_bytes \<lparr>ref_begin = 60,
                     ref_bytes = drop 8 (ref_bytes undefined_use_data)\<rparr>)
           div kKernelEntryAlignment sample_environment)
       (kernel_stream (ref_bytes \<lparr>ref_begin = 60,
                     ref_bytes = drop 8 (ref_bytes undefined_use_data)\<rparr>))"
  "ReadInt (attribute_names sample_state) = (None, empty_ref)"
  "sample_state\<lparr>attribute_names := empty_ref\<rparr> = sample_state"
  "BEFKernel use_kernel (fst (0::nat, 0::nat) div kKernelEntryAlignment sample_environment) =
     Inr use_kernel"
  "GetKernelEntries use_kernel 0 (num_arguments use_kernel) = Inr [0]"
  by (simp_all add: undefined_use_data_def sample_function_def sample_state_def start_state_def
        sample_tables_def use_kernel_def function_defs reader_defs tables_defs
        sample_environment_def numeral_unfolds empty_ref_def)

lemma redefinition_steps:
  "ReadInt redefinition_data =
     (Some 0, \<lparr>ref_begin = 53, ref_bytes = drop 1 (ref_bytes redefinition_data)\<rparr>)"
  "ReadRegisterTable sample_environment sample_tables
     \<lparr>ref_begin = 53, ref_bytes = drop 1 (ref_bytes redefinition_data)\<rparr>
     (start_state\<lparr>register_table := []\<rparr>) =
   Inr (\<lparr>ref_begin = 55, ref_bytes = drop 3 (ref_bytes redefinition_data)\<rparr>, sample_state)"
  "ReadKernelTable \<lparr>ref_begin = 55, ref_bytes = drop 3 (ref_bytes redefinition_data)\<rparr> =
     Some ([(0, 0), (36, 0)],
           \<lparr>ref_begin = 60, ref_bytes = drop 8 (ref_bytes redefinition_data)\<rparr>)"
  "ReadResultRegs sample_function
     \<lparr>ref_begin = 60, ref_bytes = drop 8 (ref_bytes redefinition_data)\<rparr> =
     Some ([0], \<lparr>ref_begin = 61, ref_bytes = drop 9 (ref_bytes redefinition_data)\<rparr>)"
  "ReadAlignment (kKernelEntryAlignment sample_environment)
     \<lparr>ref_begin = 61, ref_bytes = drop 9 (ref_bytes redefinition_data)\<rparr> =
     Some \<lparr>ref_begin = 64, ref_bytes = drop 12 (ref_bytes redefinition_data)\<rparr>"
  "sample_kernel @ sample_kernel =
     take (length (ref_bytes \<lparr>ref_begin = 64,
                     ref_bytes = drop 12 (ref_bytes redefinition_data)\<rparr>)
           div kKernelEntryAlignment sample_environment)
       (kernel_stream (ref_bytes \<lparr>ref_begin = 64,
                     ref_bytes = drop 12 (ref_bytes redefinition_data)\<rparr>))"
  "ReadKernels_loop sample_environment sample_tables (sample_kernel @ sample_kernel) [(0, 0)]
     \<lparr>block_arguments = [], block_operations = []\<rparr> sample_state =
   (Inr \<lparr>block_arguments = [], block_operations = [0]\<rparr>,
    sample_state
      \<lparr>register_table :=
         [\<lparr>reg_type = NoneType, num_uses = 7, usedbys = [],
           reg_value = Some (OpResult 0 0 NoneType)\<rparr>],
       operations :=
         [\<lparr>op_name = string_bytes ''k'',
           op_location = FileLineColLoc (string_bytes ''f.mlir'') 1 1,
           op_operands = [],
           op_attributes = [(string_bytes ''attr0'', IntegerAttr (IntegerType 32) 0xDEADBEEF)],
           op_types = [NoneType],
           op_regions = []\<rparr>]\<rparr>)"
  "BEFKernel (sample_kernel @ sample_kernel)
     (fst (36::nat, 0::nat) div kKernelEntryAlignment sample_environment) = Inr sample_kernel"
  "GetKernelEntries sample_kernel
     (num_arguments sample_kernel + num_attributes sample_kernel + num_functions sample_kernel)
     (num_results sample_kernel) = Inr [0]"
  by (simp_all add: redefinition_data_def sample_function_def sample_state_def start_state_def
        sample_tables_def sample_kernel_def function_defs reader_defs tables_defs
        sample_environment_def numeral_unfolds empty_ref_def)

lemma failing_functions_read:
  "ReadFunction sample_environment sample_tables sample_function undefined_use_data start_state =
     (Inl Failed,
      sample_state\<lparr>diagnostics :=
        [Error ''Using undefined registers.'', Error ''Failed to read kernels.'']\<rparr>)"
  "ReadFunction sample_environment sample_tables sample_function redefinition_data start_state =
     (Inl Failed,
      sample_state
        \<lparr>register_table :=
           [\<lparr>reg_type = NoneType, num_uses = 7, usedbys = [],
             reg_value = Some (OpResult 0 0 NoneType)\<rparr>],
         operations :=
           [\<lparr>op_name = string_bytes ''k'',
             op_location = FileLineColLoc (string_bytes ''f.mlir'') 1 1,
             op_operands = [],
             op_attributes = [(string_bytes ''attr0'', IntegerAttr (IntegerType 32) 0xDEADBEEF)],
             op_types = [NoneType],
             op_regions = []\<rparr>],
         diagnostics :=
           [Error ''Redefinition of registers'', Error ''Failed to read kernels.'']\<rparr>)"
  by (simp_all add: undefined_use_data_def redefinition_data_def sample_function_def
        sample_state_def start_state_def sample_tables_def function_defs reader_defs tables_defs
        sample_environment_def numeral_unfolds empty_ref_def)

theorem undefined_or_redefined_register_fails_function_witness:
  "fst (ReadFunction sample_environment sample_tables sample_function sample_function_data
          start_state) =
     Inr (FileLineColLoc (string_bytes ''f.mlir'') 1 1,
          [\<lparr>block_arguments = [], block_operations = [0, 1]\<rparr>]) \<and>
   operands_defined_earlier sample_operations \<lparr>block_arguments = [], block_operations = [0, 1]\<rparr> \<and>
   ReadFunction sample_environment sample_tables sample_function undefined_use_data start_state =
     (Inl Failed,
      fail_with ''Failed to read kernels.'' Failed
        (fail_with ''Using undefined registers.'' Failed sample_state)) \<and>
   fst (ReadFunction sample_environment sample_tables sample_function redefinition_data
          start_state) = Inl Failed \<and>
   diagnostics (snd (ReadFunction sample_environment sample_tables sample_function
                       redefinition_data start_state)) =
     [Error ''Redefinition of registers'', Error ''Failed to read kernels.''] \<and>
   (\<exists>op st8. ReadKernel sample_environment sample_tables sample_kernel 0 sample_state = (Inr op, st8)) \<and>
   reg_value (register_table sample_state ! 0) = None \<and>
   (\<exists>e. ReadKernel sample_environment sample_tables use_kernel 0 sample_state =
      (Inl e, fail_with ''Using undefined registers.'' e sample_state)) \<and>
   AddDefinition (OpResult 1 0 NoneType) 0
     (sample_state\<lparr>register_table :=
        [\<lparr>reg_type = NoneType, num_uses = 7, usedbys = [],
          reg_value = Some (OpResult 0 0 NoneType)\<rparr>]\<rparr>) =
     (Inl Failed, EmitError ''Redefinition of registers''
       (sample_state\<lparr>register_table :=
          [\<lparr>reg_type = NoneType, num_uses = 7, usedbys = [],
            reg_value = Some (OpResult 0 0 NoneType)\<rparr>]\<rparr>))"
proof -
  let ?loc = "FileLineColLoc (string_bytes ''f.mlir'') 1 1"
  let ?defined = "sample_state\<lparr>register_table :=
        [\<lparr>reg_type = NoneType, num_uses = 7, usedbys = [],
          reg_value = Some (OpResult 0 0 NoneType)\<rparr>]\<rparr>"
  let ?kernel_op = "\<lparr>op_name = string_bytes ''k'', op_location = ?loc, op_operands = [],
      op_attributes = [(string_bytes ''attr0'', IntegerAttr (IntegerType 32) 0xDEADBEEF)],
      op_types = [NoneType], op_regions = []\<rparr>"
  let ?blk0 = "\<lparr>block_arguments = argument_types sample_function, block_operations = []\<rparr>"
  let ?u = "ref_bytes undefined_use_data"
  let ?r = "ref_bytes redefinition_data"
  note t = undefined_or_redefined_register_fails_function
    [where env = sample_environment and bef_file = sample_tables
       and bef_function = sample_function
       and ?st0.0 = start_state and loc = ?loc
       and body = "[\<lparr>block_arguments = [], block_operations = [0, 1]\<rparr>]"
       and st' = "?defined\<lparr>operations := sample_operations\<rparr>"
       and later_operations = "[]"
       and before = "[]" and current = "(0, 0)" and after = "[]"
       and ?blk5.0 = "\<lparr>block_arguments = [], block_operations = []\<rparr>"
       and ?st5.0 = sample_state
       and ?blk6.0 = "\<lparr>block_arguments = [], block_operations = [0]\<rparr>"
       and ?st6.0 = "?defined\<lparr>operations := [?kernel_op]\<rparr>"
       and offset = 0 and st = sample_state and op = 0
       and ?st9.0 = "?defined\<lparr>operations := [?kernel_op]\<rparr>"
       and position = 0 and ?kern1.0 = use_kernel and ?arguments1.0 = "[0]"
       and ?a1.0 = 0 and s = sample_state
       and register_index = 0 and ?st10.0 = ?defined and v = "OpResult 1 0 NoneType"
       and ?s0.0 = start_state and location_position_offset = 0 and ?loc0.0 = ?loc
       and ?s1.0 = sample_state and result_regs = "[0]" and ?blk0.0 = ?blk0
       and num_kernels = None and ?n1.0 = empty_ref and ?s2.0 = sample_state
       and ?entries2.0 = "[]"]
  note w = t [where function_data = sample_function_data]
  note u = t [where words = sample_kernel and function_data = undefined_use_data
       and ?f1.0 = "\<lparr>ref_begin = 53, ref_bytes = drop 1 ?u\<rparr>"
       and ?f2.0 = "\<lparr>ref_begin = 55, ref_bytes = drop 3 ?u\<rparr>"
       and kernel_table = "[(0, 0)]"
       and ?f3.0 = "\<lparr>ref_begin = 58, ref_bytes = drop 6 ?u\<rparr>"
       and ?f4.0 = "\<lparr>ref_begin = 59, ref_bytes = drop 7 ?u\<rparr>"
       and ?f5.0 = "\<lparr>ref_begin = 60, ref_bytes = drop 8 ?u\<rparr>"
       and kernel_words = use_kernel and ?entries1.0 = "[]" and entry = "(0, 0)"
       and ?blk3.0 = ?blk0 and ?s3.0 = sample_state and kern = use_kernel
       and arguments = "[0]" and a = 0]
  note v = t [where words = use_kernel and function_data = redefinition_data
       and ?f1.0 = "\<lparr>ref_begin = 53, ref_bytes = drop 1 ?r\<rparr>"
       and ?f2.0 = "\<lparr>ref_begin = 55, ref_bytes = drop 3 ?r\<rparr>"
       and kernel_table = "[(0, 0), (36, 0)]"
       and ?f3.0 = "\<lparr>ref_begin = 60, ref_bytes = drop 8 ?r\<rparr>"
       and ?f4.0 = "\<lparr>ref_begin = 61, ref_bytes = drop 9 ?r\<rparr>"
       and ?f5.0 = "\<lparr>ref_begin = 64, ref_bytes = drop 12 ?r\<rparr>"
       and kernel_words = "sample_kernel @ sample_kernel"
       and ?entries1.0 = "[(0, 0)]" and entry = "(36, 0)"
       and ?blk3.0 = "\<lparr>block_arguments = [], block_operations = [0]\<rparr>"
       and ?s3.0 = "?defined\<lparr>operations := [?kernel_op]\<rparr>" and kern = sample_kernel
       and results = "[0]" and r = 0]
  have common: "GetLocationPosition sample_tables 0 = Some ?loc"
    "argument_types sample_function = []"
    "ReadKernels_loop sample_environment sample_tables use_kernel [] ?blk0 sample_state =
       (Inr ?blk0, sample_state)"
    by (simp_all add: sample_tables_def sample_function_def tables_defs function_defs)
  from w [THEN conjunct1] sample_function_read
  have "\<exists>blk. [\<lparr>block_arguments = [], block_operations = [0, 1]\<rparr>] = [blk] \<and>
      block_arguments blk = argument_types sample_function \<and>
      operands_defined_earlier (operations (?defined\<lparr>operations := sample_operations\<rparr>) @ []) blk"
    by blast
  then have 1: "operands_defined_earlier sample_operations
      \<lparr>block_arguments = [], block_operations = [0, 1]\<rparr>"
    by simp
  have "(0::nat) \<in> set [0] \<and>
      (0 \<le> int_of_size_t 0 \<and> nat (int_of_size_t 0) < length (register_table sample_state) \<longrightarrow>
         reg_value (register_table sample_state ! nat (int_of_size_t 0)) = None)"
    by (simp add: sample_state_def int_of_size_t_def)
  moreover have "(if argument_types sample_function = []
       then (Inr (), sample_state\<lparr>attribute_names := empty_ref\<rparr>)
       else ReadPseudoOp sample_environment use_kernel ?blk0
              (sample_state\<lparr>attribute_names := empty_ref\<rparr>)) = (Inr (), sample_state)"
    "drop (if argument_types sample_function = [] then 0 else 1) [(0::nat, 0::nat)] =
       [] @ (0, 0) # []"
    using common(2) undefined_use_steps(8) by simp_all
  moreover note u [THEN conjunct2, THEN conjunct1] undefined_use_steps common
  ultimately
  have "\<exists>e. ReadFunction sample_environment sample_tables sample_function undefined_use_data
        start_state =
      (Inl e, fail_with ''Failed to read kernels.'' e
                (fail_with ''Using undefined registers.'' e sample_state))"
    by blast
  with failing_functions_read(1)
  have 2: "ReadFunction sample_environment sample_tables sample_function undefined_use_data
        start_state =
      (Inl Failed, fail_with ''Failed to read kernels.'' Failed
                (fail_with ''Using undefined registers.'' Failed sample_state))"
    by auto
  have "(0::nat) \<in> set [0] \<and>
      reg_value (register_table (?defined\<lparr>operations := [?kernel_op]\<rparr>) ! nat (int_of_size_t 0))
        \<noteq> None"
    by (simp add: int_of_size_t_def)
  moreover have "(if argument_types sample_function = []
       then (Inr (), sample_state\<lparr>attribute_names := empty_ref\<rparr>)
       else ReadPseudoOp sample_environment (sample_kernel @ sample_kernel) ?blk0
              (sample_state\<lparr>attribute_names := empty_ref\<rparr>)) = (Inr (), sample_state)"
    "drop (if argument_types sample_function = [] then 0 else 1) [(0::nat, 0::nat), (36, 0)] =
       [(0, 0)] @ (36, 0) # []"
    "ReadKernels_loop sample_environment sample_tables (sample_kernel @ sample_kernel) [(0, 0)]
       ?blk0 sample_state =
     (Inr \<lparr>block_arguments = [], block_operations = [0]\<rparr>,
      ?defined\<lparr>operations := [?kernel_op]\<rparr>)"
    "None = None \<or> None = Some (length [(0::nat, 0::nat), (36, 0)])"
    using common(2) undefined_use_steps(8) redefinition_steps(7) by simp_all
  moreover note v [THEN conjunct2, THEN conjunct1] redefinition_steps(1-6,8,9) common(1)
    undefined_use_steps(7)
  ultimately
  have "\<exists>e s. ReadFunction sample_environment sample_tables sample_function redefinition_data
        start_state = (Inl e, s)"
    by blast
  with failing_functions_read(2)
  have 3: "fst (ReadFunction sample_environment sample_tables sample_function redefinition_data
        start_state) = Inl Failed"
    "diagnostics (snd (ReadFunction sample_environment sample_tables sample_function
        redefinition_data start_state)) =
     [Error ''Redefinition of registers'', Error ''Failed to read kernels.'']"
    by simp_all
  from u [THEN conjunct2, THEN conjunct2, THEN conjunct1] sample_loop_read
  have 4: "\<exists>blk7 st7 op st8.
         ReadKernels_loop sample_environment sample_tables sample_kernel []
           \<lparr>block_arguments = [], block_operations = []\<rparr> sample_state = (Inr blk7, st7) \<and>
         ReadKernel sample_environment sample_tables sample_kernel (fst (0::nat, 0::nat)) st7 =
           (Inr op, st8)"
    by blast
  then have 4: "\<exists>op st8. ReadKernel sample_environment sample_tables sample_kernel 0 sample_state =
      (Inr op, st8)"
    by auto
  from u [THEN conjunct2, THEN conjunct2, THEN conjunct2, THEN conjunct1] sample_kernel_read
  obtain kern arguments results where 5:
    "BEFKernel sample_kernel (0 div kKernelEntryAlignment sample_environment) = Inr kern"
    "GetKernelEntries kern (num_arguments kern + num_attributes kern + num_functions kern)
           (num_results kern) = Inr results"
    "\<forall>r \<in> set results. 0 \<le> int_of_size_t r \<and>
       nat (int_of_size_t r) < length (register_table sample_state) \<and>
       reg_value (register_table sample_state ! nat (int_of_size_t r)) = None"
    by blast
  from 5(1) have "kern = sample_kernel"
    by (simp add: BEFKernel_def sample_kernel_def)
  with 5(2) have "results = [0]"
    by (auto simp: sample_kernel_def function_defs)
  with 5(3) have 5: "reg_value (register_table sample_state ! 0) = None"
    by (simp add: int_of_size_t_def)
  have "BEFKernel use_kernel (0 div kKernelEntryAlignment sample_environment) = Inr use_kernel \<and>
      GetKernelEntries use_kernel 0 (num_arguments use_kernel) = Inr [0] \<and>
      (0::nat) \<in> set [0] \<and>
      (0 \<le> int_of_size_t 0 \<and> nat (int_of_size_t 0) < length (register_table sample_state) \<longrightarrow>
         reg_value (register_table sample_state ! nat (int_of_size_t 0)) = None)"
    by (simp add: use_kernel_def function_defs sample_state_def)
  with v [THEN conjunct2, THEN conjunct2, THEN conjunct2, THEN conjunct2, THEN conjunct1]
  have 6: "\<exists>e. ReadKernel sample_environment sample_tables use_kernel 0 sample_state =
      (Inl e, fail_with ''Using undefined registers.'' e sample_state)"
    by blast
  have "0 \<le> int_of_size_t 0 \<and> nat (int_of_size_t 0) < length (register_table ?defined) \<and>
      reg_value (register_table ?defined ! nat (int_of_size_t 0)) \<noteq> None"
    by (simp add: int_of_size_t_def)
  with u [THEN conjunct2, THEN conjunct2, THEN conjunct2, THEN conjunct2, THEN conjunct2]
  have 7: "AddDefinition (OpResult 1 0 NoneType) 0 ?defined =
      (Inl Failed, EmitError ''Redefinition of registers'' ?defined)"
    by blast
  from sample_function_read
  have 0: "fst (ReadFunction sample_environment sample_tables sample_function sample_function_data
          start_state) = Inr (?loc, [\<lparr>block_arguments = [], block_operations = [0, 1]\<rparr>])"
    by simp
  from 0 1 2 3 4 5 6 7 show ?thesis
    by blast
qed


subsection \<open>The declared use counts\<close>

lemma register_values_forget:
  "register_values (map (\<lambda>reg. reg\<lparr>num_uses := 0\<rparr>) table) regs = register_values table regs"
  by (induction regs) (auto simp: GetRegister_def split: sum.splits option.splits)

lemma register_result_types_forget:
  "register_result_types (map (\<lambda>reg. reg\<lparr>num_uses := 0\<rparr>) table) regs =
   register_result_types table regs"
  by (induction regs) (auto simp: GetRegister_def split: sum.splits option.splits)

lemma forget_uses_fields [simp]:
  "attribute_names (forget_uses st) = attribute_names st"
  "register_types (forget_uses st) = register_types st"
  "operations (forget_uses st) = operations st"
  "region_references (forget_uses st) = region_references st"
  "diagnostics (forget_uses st) = diagnostics st"
  "register_table (forget_uses st) = map (\<lambda>reg. reg\<lparr>num_uses := 0\<rparr>) (register_table st)"
  by (simp_all add: forget_uses_def)

lemma forget_uses_updates [simp]:
  "(forget_uses st)\<lparr>attribute_names := names\<rparr> = forget_uses (st\<lparr>attribute_names := names\<rparr>)"
  "(forget_uses st)\<lparr>register_types := types\<rparr> = forget_uses (st\<lparr>register_types := types\<rparr>)"
  "(forget_uses st)\<lparr>operations := ops\<rparr> = forget_uses (st\<lparr>operations := ops\<rparr>)"
  "(forget_uses st)\<lparr>region_references := refs\<rparr> = forget_uses (st\<lparr>region_references := refs\<rparr>)"
  "(forget_uses st)\<lparr>diagnostics := ds\<rparr> = forget_uses (st\<lparr>diagnostics := ds\<rparr>)"
  by (simp_all add: forget_uses_def)

lemma forget_uses_EmitError [simp]:
  "EmitError message (forget_uses st) = forget_uses (EmitError message st)"
  by (simp add: EmitError_def)

lemma forget_uses_fail_with [simp]:
  "fail_with message e (forget_uses st) = forget_uses (fail_with message e st)"
  by (simp add: fail_with_def split: failure.splits)

lemma RegisterInfo_update_order [simp]:
  "(reg::RegisterInfo)\<lparr>usedbys := entries, num_uses := n\<rparr> = reg\<lparr>num_uses := n, usedbys := entries\<rparr>"
  "(reg::RegisterInfo)\<lparr>reg_value := v, num_uses := n\<rparr> = reg\<lparr>num_uses := n, reg_value := v\<rparr>"
  by (cases reg; simp)+

lemma AddDefinition_forget:
  "AddDefinition v register_index (forget_uses st) =
     map_prod id forget_uses (AddDefinition v register_index st)"
  by (simp add: AddDefinition_def GetRegister_def forget_uses_def map_update EmitError_def)

lemma forget_uses_usedbys:
  "register_index < length (register_table st1) \<Longrightarrow>
   (forget_uses st1)\<lparr>register_table :=
       (map (\<lambda>reg. reg\<lparr>num_uses := 0\<rparr>) (register_table st1))
         [register_index := (register_table st1 ! register_index)\<lparr>num_uses := 0, usedbys := entries\<rparr>]\<rparr> =
   forget_uses (st1\<lparr>register_table :=
       (register_table st1)[register_index := (register_table st1 ! register_index)\<lparr>usedbys := entries\<rparr>]\<rparr>)"
  by (simp add: forget_uses_def map_update)

lemma AddDefinitions_forget:
  "AddDefinitions kern op ts i entry_offset results (forget_uses st) =
     map_prod id forget_uses (AddDefinitions kern op ts i entry_offset results st)"
proof (induction results arbitrary: i entry_offset st)
  case Nil
  show ?case by simp
next
  case (Cons register_index rest)
  show ?case
    by (cases "AddDefinition (OpResult op i (ts ! i)) register_index st")
       (auto simp: AddDefinition_forget GetRegister_def Cons.IH forget_uses_usedbys
             split: sum.splits)
qed

lemma case_map_prod:
  "(case map_prod f g p of (a, b) \<Rightarrow> h a b) = (case p of (a, b) \<Rightarrow> h (f a) (g b))"
  by (cases p) simp

lemma ReadKernel_forget:
  "ReadKernel env bef_file kernel_words offset (forget_uses st) =
     map_prod id forget_uses (ReadKernel env bef_file kernel_words offset st)"
  by (simp add: ReadKernel_def register_values_forget register_result_types_forget
        AddDefinitions_forget case_map_prod
        sum.case_distrib [of "map_prod id forget_uses"]
        option.case_distrib [of "map_prod id forget_uses"]
        prod.case_distrib [of "map_prod id forget_uses"]
        if_distrib [of "map_prod id forget_uses"]
      cong del: sum.case_cong_weak option.case_cong_weak prod.case_cong_weak if_weak_cong)

lemma forget_uses_table [simp]:
  "(forget_uses st)\<lparr>register_table := map (\<lambda>reg. reg\<lparr>num_uses := 0\<rparr>) table\<rparr> =
     forget_uses (st\<lparr>register_table := table\<rparr>)"
  by (simp add: forget_uses_def)

lemma AddArgumentDefinitions_forget:
  "AddArgumentDefinitions args regs (forget_uses st) =
     map_prod id forget_uses (AddArgumentDefinitions args regs st)"
proof (induction regs arbitrary: args st)
  case Nil
  show ?case by simp
next
  case (Cons register_index rest)
  show ?case
  proof (cases args)
    case Nil
    then show ?thesis by simp
  next
    case (Cons arg args')
    then show ?thesis
      by (cases "AddDefinition arg register_index st")
         (auto simp: AddDefinition_forget Cons.IH split: sum.splits)
  qed
qed

lemma ReadUsedBys_forget:
  "ReadUsedBys kern i entry_offset regs (map (\<lambda>reg. reg\<lparr>num_uses := 0\<rparr>) table) =
     map_sum id (map (\<lambda>reg. reg\<lparr>num_uses := 0\<rparr>)) (ReadUsedBys kern i entry_offset regs table)"
proof (induction regs arbitrary: i entry_offset table)
  case Nil
  show ?case by simp
next
  case (Cons register_index rest)
  have "\<And>entries k. k < length table \<Longrightarrow>
      (map (\<lambda>reg. reg\<lparr>num_uses := 0\<rparr>) table)
        [k := (table ! k)\<lparr>num_uses := 0, usedbys := entries\<rparr>] =
      map (\<lambda>reg. reg\<lparr>num_uses := 0\<rparr>) (table[k := (table ! k)\<lparr>usedbys := entries\<rparr>])"
    by (simp add: map_update)
  then show ?case
    by (auto simp: GetRegister_def Cons.IH split: sum.splits)
qed

lemma case_map_sum:
  "(case map_sum f g x of Inl a \<Rightarrow> h a | Inr b \<Rightarrow> k b) =
   (case x of Inl a \<Rightarrow> h (f a) | Inr b \<Rightarrow> k (g b))"
  by (cases x) simp_all

lemma ReadArgumentsPseudoKernel_forget:
  "ReadArgumentsPseudoKernel kernel_words args (forget_uses st) =
     map_prod id forget_uses (ReadArgumentsPseudoKernel kernel_words args st)"
  by (simp add: ReadArgumentsPseudoKernel_def AddArgumentDefinitions_forget ReadUsedBys_forget
        case_map_prod case_map_sum
        sum.case_distrib [of "map_prod id forget_uses"]
        option.case_distrib [of "map_prod id forget_uses"]
        prod.case_distrib [of "map_prod id forget_uses"]
        if_distrib [of "map_prod id forget_uses"]
      cong del: sum.case_cong_weak option.case_cong_weak prod.case_cong_weak if_weak_cong)

lemma ReadPseudoOp_forget:
  "ReadPseudoOp env kernel_words blk (forget_uses st) =
     map_prod id forget_uses (ReadPseudoOp env kernel_words blk st)"
  by (simp add: ReadPseudoOp_def ReadArgumentsPseudoKernel_forget case_map_prod
        sum.case_distrib [of "map_prod id forget_uses"]
        option.case_distrib [of "map_prod id forget_uses"]
        prod.case_distrib [of "map_prod id forget_uses"]
        if_distrib [of "map_prod id forget_uses"]
      cong del: sum.case_cong_weak option.case_cong_weak prod.case_cong_weak if_weak_cong)

lemma ReadKernels_loop_forget:
  "ReadKernels_loop env bef_file kernel_words entries blk (forget_uses st) =
     map_prod id forget_uses (ReadKernels_loop env bef_file kernel_words entries blk st)"
proof (induction entries arbitrary: blk st)
  case Nil
  show ?case by simp
next
  case (Cons entry entries)
  show ?case
    by (cases "ReadKernel env bef_file kernel_words (fst entry) st")
       (auto simp: ReadKernel_forget Cons.IH split: sum.splits)
qed

lemma ReadKernels_forget:
  "ReadKernels env bef_file loc kernel_table result_regs kernel_words blk (forget_uses st) =
     map_prod id forget_uses
       (ReadKernels env bef_file loc kernel_table result_regs kernel_words blk st)"
  by (simp add: ReadKernels_def ReadPseudoOp_forget ReadKernels_loop_forget register_values_forget
        case_map_prod
        sum.case_distrib [of "map_prod id forget_uses"]
        option.case_distrib [of "map_prod id forget_uses"]
        prod.case_distrib [of "map_prod id forget_uses"]
        if_distrib [of "map_prod id forget_uses"]
      cong del: sum.case_cong_weak option.case_cong_weak prod.case_cong_weak if_weak_cong)


text \<open>A block that is read adds no diagnostic.\<close>

lemma AddArgumentDefinitions_diagnostics:
  "AddArgumentDefinitions args regs st = (Inr u, st') \<Longrightarrow> diagnostics st' = diagnostics st"
proof (induction regs arbitrary: args st)
  case Nil
  then show ?case by simp
next
  case (Cons register_index rest)
  from Cons.prems obtain arg args' st1 where
    d: "AddDefinition arg register_index st = (Inr (), st1)" and
    r: "AddArgumentDefinitions args' rest st1 = (Inr u, st')"
    by (auto split: list.splits prod.splits sum.splits)
  from AddDefinition_Inr [OF d] Cons.IH [OF r] show ?case
    by simp
qed

lemma ReadPseudoOp_diagnostics:
  "ReadPseudoOp env kernel_words blk st = (Inr u, st') \<Longrightarrow> diagnostics st' = diagnostics st"
  by (auto simp: ReadPseudoOp_def ReadArgumentsPseudoKernel_def
           dest!: AddArgumentDefinitions_diagnostics
           split: prod.splits sum.splits option.splits if_splits)

lemma ReadKernels_loop_diagnostics:
  "ReadKernels_loop env bef_file kernel_words entries blk st = (Inr blk', st') \<Longrightarrow>
     diagnostics st' = diagnostics st"
proof (induction entries arbitrary: blk st)
  case Nil
  then show ?case by simp
next
  case (Cons entry entries)
  from Cons.prems obtain op st1 where
    k: "ReadKernel env bef_file kernel_words (fst entry) st = (Inr op, st1)" and
    r: "ReadKernels_loop env bef_file kernel_words entries
          (blk\<lparr>block_operations := block_operations blk @ [op]\<rparr>) st1 = (Inr blk', st')"
    by (auto split: prod.splits sum.splits)
  from ReadKernel_effect [OF k] Cons.IH [OF r] show ?case
    by auto
qed

lemma ReadKernels_diagnostics:
  assumes "ReadKernels env bef_file loc kernel_table result_regs kernel_words blk st = (Inr blk', st')"
  shows "diagnostics st' = diagnostics st"
proof -
  from assms obtain r1 st1 blk2 st2 results where
    p: "(if block_arguments blk = [] then (Inr (), st\<lparr>attribute_names := r1\<rparr>)
         else ReadPseudoOp env kernel_words blk (st\<lparr>attribute_names := r1\<rparr>)) = (Inr (), st1)" and
    l: "ReadKernels_loop env bef_file kernel_words
         (drop (if block_arguments blk = [] then 0 else 1) kernel_table) blk st1 = (Inr blk2, st2)" and
    st': "st' = st2\<lparr>operations := operations st2 @ [return_op loc results]\<rparr>"
    by (elim ReadKernels_Inr)
  from p have "diagnostics st1 = diagnostics st"
    by (auto dest: ReadPseudoOp_diagnostics split: if_splits)
  with ReadKernels_loop_diagnostics [OF l] st' show ?thesis
    by simp
qed


subsection \<open>Use counts are not checked\<close>

text \<open>
  Claim C5. Two reader states that differ only in the declared use counts of their
  registers give the same result, the same operations and the same diagnostics when the
  kernels of a block are read; and a block that is read adds no diagnostic at all.
\<close>

theorem declared_uses_are_not_checked:
  "(forget_uses st1 = forget_uses st2 \<longrightarrow>
      fst (ReadKernels env bef_file loc kernel_table result_regs kernel_words blk st1) =
      fst (ReadKernels env bef_file loc kernel_table result_regs kernel_words blk st2) \<and>
      operations (snd (ReadKernels env bef_file loc kernel_table result_regs kernel_words blk st1)) =
      operations (snd (ReadKernels env bef_file loc kernel_table result_regs kernel_words blk st2)) \<and>
      diagnostics (snd (ReadKernels env bef_file loc kernel_table result_regs kernel_words blk st1)) =
      diagnostics (snd (ReadKernels env bef_file loc kernel_table result_regs kernel_words blk st2))) \<and>
   (ReadKernels env bef_file loc kernel_table result_regs kernel_words blk st = (Inr blk', st') \<longrightarrow>
      diagnostics st' = diagnostics st)"
proof (intro conjI impI)
  let ?read = "ReadKernels env bef_file loc kernel_table result_regs kernel_words blk"
  assume "forget_uses st1 = forget_uses st2"
  then have "?read (forget_uses st1) = ?read (forget_uses st2)"
    by simp
  then have e: "map_prod id forget_uses (?read st1) = map_prod id forget_uses (?read st2)"
    by (simp only: ReadKernels_forget)
  from e have "fst (map_prod id forget_uses (?read st1)) = fst (map_prod id forget_uses (?read st2))"
    by simp
  then show "fst (?read st1) = fst (?read st2)"
    by simp
  from e have s: "forget_uses (snd (?read st1)) = forget_uses (snd (?read st2))"
    by (metis snd_map_prod)
  from s have "operations (forget_uses (snd (?read st1))) = operations (forget_uses (snd (?read st2)))"
    by simp
  then show "operations (snd (?read st1)) = operations (snd (?read st2))"
    by simp
  from s have "diagnostics (forget_uses (snd (?read st1))) = diagnostics (forget_uses (snd (?read st2)))"
    by simp
  then show "diagnostics (snd (?read st1)) = diagnostics (snd (?read st2))"
    by simp
next
  assume "ReadKernels env bef_file loc kernel_table result_regs kernel_words blk st = (Inr blk', st')"
  then show "diagnostics st' = diagnostics st"
    by (rule ReadKernels_diagnostics)
qed


text \<open>
  The kernels of the sample, read with 7 and with 1 declared uses of the register.
\<close>

theorem declared_uses_are_not_checked_witness:
  "fst (ReadKernels sample_environment sample_tables CallerLoc [(0, 0)] [0] sample_kernel
          \<lparr>block_arguments = [], block_operations = []\<rparr>
          (sample_state\<lparr>register_table :=
             [\<lparr>reg_type = NoneType, num_uses = 1, usedbys = [], reg_value = None\<rparr>]\<rparr>)) =
     Inr \<lparr>block_arguments = [], block_operations = [0, 1]\<rparr> \<and>
   diagnostics (snd (ReadKernels sample_environment sample_tables CallerLoc [(0, 0)] [0] sample_kernel
          \<lparr>block_arguments = [], block_operations = []\<rparr>
          (sample_state\<lparr>register_table :=
             [\<lparr>reg_type = NoneType, num_uses = 1, usedbys = [], reg_value = None\<rparr>]\<rparr>))) =
     diagnostics (sample_state\<lparr>register_table :=
             [\<lparr>reg_type = NoneType, num_uses = 7, usedbys = [], reg_value = None\<rparr>]\<rparr>)"
proof -
  let ?st = "\<lambda>n. sample_state\<lparr>register_table :=
             [\<lparr>reg_type = NoneType, num_uses = n, usedbys = [], reg_value = None\<rparr>]\<rparr>"
  let ?st' = "sample_state
      \<lparr>register_table :=
         [\<lparr>reg_type = NoneType, num_uses = 7, usedbys = [],
           reg_value = Some (OpResult 0 0 NoneType)\<rparr>],
       operations :=
         [\<lparr>op_name = string_bytes ''k'',
           op_location = FileLineColLoc (string_bytes ''f.mlir'') 1 1,
           op_operands = [],
           op_attributes = [(string_bytes ''attr0'', IntegerAttr (IntegerType 32) 0xDEADBEEF)],
           op_types = [NoneType],
           op_regions = []\<rparr>,
          return_op CallerLoc [OpResult 0 0 NoneType]]\<rparr>"
  note t = declared_uses_are_not_checked
    [where ?st1.0 = "?st 1" and ?st2.0 = "?st 7" and st = "?st 7" and st' = ?st'
       and env = sample_environment and bef_file = sample_tables and loc = CallerLoc
       and kernel_table = "[(0, 0)]" and result_regs = "[0]" and kernel_words = sample_kernel
       and blk = "\<lparr>block_arguments = [], block_operations = []\<rparr>"
       and blk' = "\<lparr>block_arguments = [], block_operations = [0, 1]\<rparr>"]
  have f: "forget_uses (?st 1) = forget_uses (?st 7)"
    by (simp add: forget_uses_def)
  from t f sample_kernels_read [of 7] show ?thesis
    by simp
qed

text \<open>
  The file with all sections declares 7 uses of register 0; its value is an operand
  once, of the return operation; the file decodes without any diagnostic.
\<close>

theorem use_count_mismatch_gives_no_warning:
  "ConvertBEFToMLIR sample_environment CallerLoc complete_file =
     (Inr \<lparr>module_location = CallerLoc,
           module_functions =
             [\<lparr>func_location = FileLineColLoc (string_bytes ''f.mlir'') 1 1,
               func_name = string_bytes ''main'', func_argument_types = [],
               func_result_types = [IntegerType 32], func_attributes = [],
               func_body = [\<lparr>block_arguments = [], block_operations = [0, 1]\<rparr>]\<rparr>],
           module_operations = complete_operations\<rparr>,
      []) \<and>
   map num_uses (register_table (snd (ReadFunction sample_environment sample_tables sample_function
      sample_function_data complete_state))) = [7] \<and>
   actual_uses complete_operations (OpResult 0 0 (IntegerType 32)) = 1"
  by (simp add: complete_file_decodes complete_function_read actual_uses_def
        complete_operations_def return_op_def)


end
